theory Spec2Isabelle
  imports Complex_Main "HOL-Library.Word"
begin

section \<open>Local bundle adjustment of CubeSLAM (src/src/OptimizerLocal.cc)\<close>

text \<open>
  The theory embeds \<^verbatim>\<open>Optimizer::LocalBundleAdjustment\<close>. The scene graph is a store:
  KeyFrames, MapPoints and Landmarks live at addresses (the C++ pointers), and the
  procedure threads one state record holding the scene graph and its own local
  variables. Floating-point numbers are read as reals. The sparse solver, the
  residual accessors and the matrix converters belong to g2o and OpenCV; they are
  parameters of the model (record \<open>Collab\<close>).
\<close>

subsection \<open>Scene graph\<close>

type_synonym ulong = "64 word"
type_synonym kf_ptr = nat
type_synonym mp_ptr = nat
type_synonym lm_ptr = nat

datatype cvMat = Mat "real list"
datatype SE3Quat = SE3Quat "real list"
datatype Vector3d = Vector3d "real list"
datatype Cuboid = Cuboid "real list"

record KeyPoint =
  pt_x :: real
  pt_y :: real
  octave :: int

text \<open>
  The fields of a KeyFrame the procedure reads or writes. \<open>mbBad\<close> is what
  \<^verbatim>\<open>isBad()\<close> returns, \<open>mvpOrderedConnectedKeyFrames\<close> what
  \<^verbatim>\<open>GetVectorCovisibleKeyFrames()\<close> returns, \<open>mvpMapPoints\<close> what
  \<^verbatim>\<open>GetMapPointMatches()\<close> returns (\<open>None\<close> is the null pointer),
  \<open>mvpLandmarks\<close> what \<^verbatim>\<open>GetLandmarks()\<close> returns and \<open>Tcw\<close> the pose read by
  \<^verbatim>\<open>GetPose()\<close> and written by \<^verbatim>\<open>SetPose()\<close>.
\<close>

record KeyFrame =
  mnId :: ulong
  mnBALocalForKF :: ulong
  mnBAFixedForKF :: ulong
  mbBad :: bool
  mvpOrderedConnectedKeyFrames :: "kf_ptr list"
  mvpMapPoints :: "mp_ptr option list"
  mvpLandmarks :: "lm_ptr list"
  landmarkMeasurements :: "ulong \<rightharpoonup> Cuboid"
  cam_pose_Twc :: SE3Quat
  Tcw :: cvMat
  mvKeysUn :: "KeyPoint list"
  mvuRight :: "real list"
  mvInvLevelSigma2 :: "real list"
  fx :: real
  fy :: real
  cx :: real
  cy :: real
  mbf :: real

text \<open>
  A MapPoint: \<open>mObservations\<close> is the \<^verbatim>\<open>map<KeyFrame*, size_t>\<close> returned by
  \<^verbatim>\<open>GetObservations()\<close>, in iteration order; \<open>mWorldPos\<close> is read by
  \<^verbatim>\<open>GetWorldPos()\<close> and written by \<^verbatim>\<open>SetWorldPos()\<close>.
\<close>

record MapPoint =
  mp_mnId :: ulong
  mp_mnBALocalForKF :: ulong
  mp_mbBad :: bool
  mObservations :: "(kf_ptr \<times> nat) list"
  mWorldPos :: cvMat

text \<open>
  A Landmark: \<open>mCuboid\<close> is read by \<^verbatim>\<open>GetCuboid()\<close> and written by
  \<^verbatim>\<open>SetPoseAndDimension()\<close>.
\<close>

record Landmark =
  mnLandmarkId :: ulong
  mQuality :: real
  mCuboid :: Cuboid

record Scene =
  keyframes :: "kf_ptr \<Rightarrow> KeyFrame"
  mappoints :: "mp_ptr \<Rightarrow> MapPoint"
  landmarks :: "lm_ptr \<Rightarrow> Landmark"

subsection \<open>Factor graph\<close>

text \<open>
  A vertex of the g2o graph with its estimate. The flag of a pose or cuboid vertex is
  \<^verbatim>\<open>setFixed\<close>, the flag of a point vertex is \<^verbatim>\<open>setMarginalized\<close>.
\<close>

datatype Vertex =
  VertexSE3Expmap bool SE3Quat
| VertexCuboid bool Cuboid
| VertexSBAPointXYZ bool Vector3d

text \<open>
  Edges. An edge refers to its two vertices by id; \<open>None\<close> is the null pointer that
  \<^verbatim>\<open>optimizer.vertex(id)\<close> returns for an id that is not registered. The vectors
  \<^verbatim>\<open>vpEdgesMono\<close>, \<^verbatim>\<open>vpEdgeKFMono\<close> and \<^verbatim>\<open>vpMapPointEdgeMono\<close> (lines 204-206)
  grow together, so each reprojection edge of the model carries the KeyFrame and the
  MapPoint pushed with it (\<open>e_kf\<close>, \<open>e_mp\<close>), and the list of edges is the three
  vectors at once; the same holds for the stereo vectors. A camera-object edge also
  records the KeyFrame and the Landmark it was created for (\<open>c_kf\<close>, \<open>c_lm\<close>).
\<close>

record EdgeSE3ProjectXYZ =
  e_kf :: kf_ptr
  e_mp :: mp_ptr
  e_vertex0 :: "int option"
  e_vertex1 :: "int option"
  e_measurement :: "real list"
  e_information :: "real list list"
  e_robustKernel :: "real option"
  e_level :: int
  e_fx :: real
  e_fy :: real
  e_cx :: real
  e_cy :: real

record EdgeStereoSE3ProjectXYZ =
  s_kf :: kf_ptr
  s_mp :: mp_ptr
  s_vertex0 :: "int option"
  s_vertex1 :: "int option"
  s_measurement :: "real list"
  s_information :: "real list list"
  s_robustKernel :: "real option"
  s_level :: int
  s_fx :: real
  s_fy :: real
  s_cx :: real
  s_cy :: real
  s_bf :: real

record EdgeSE3Cuboid =
  c_kf :: kf_ptr
  c_lm :: lm_ptr
  c_vertex0 :: "int option"
  c_vertex1 :: "int option"
  c_measurement :: Cuboid
  c_information :: "real list list"

text \<open>
  The optimizer: the registered vertices by id, in the order they were added, the
  edges by type in the order they were added, whether a stop flag was handed over
  (\<^verbatim>\<open>setForceStopFlag\<close>), and the iteration budgets of the \<^verbatim>\<open>optimize\<close> calls made
  so far.
\<close>

record SparseOptimizer =
  vertices :: "(int \<times> Vertex) list"
  edgesMono :: "EdgeSE3ProjectXYZ list"
  edgesStereo :: "EdgeStereoSE3ProjectXYZ list"
  edgesCuboid :: "EdgeSE3Cuboid list"
  forceStopFlag :: bool
  optimizeCalls :: "nat list"

text \<open>
  The collaborators outside the repository: the converters between OpenCV matrices
  and g2o values, \<^verbatim>\<open>Cuboid::transformTo\<close>, the default-constructed cuboid, the
  single-precision square root of the C library, the estimates the solver leaves in
  each vertex after \<^verbatim>\<open>optimize(n)\<close>, and the accessors \<^verbatim>\<open>chi2()\<close> and
  \<^verbatim>\<open>isDepthPositive()\<close> of the reprojection edges.
\<close>

record Collab =
  toSE3Quat :: "cvMat \<Rightarrow> SE3Quat"
  toCvMatSE3 :: "SE3Quat \<Rightarrow> cvMat"
  toVector3d :: "cvMat \<Rightarrow> Vector3d"
  toCvMatVec :: "Vector3d \<Rightarrow> cvMat"
  transformTo :: "Cuboid \<Rightarrow> SE3Quat \<Rightarrow> Cuboid"
  defaultCuboid :: Cuboid
  sqrtf :: "real \<Rightarrow> real"
  solvePose :: "nat \<Rightarrow> SparseOptimizer \<Rightarrow> int \<Rightarrow> SE3Quat"
  solveCuboid :: "nat \<Rightarrow> SparseOptimizer \<Rightarrow> int \<Rightarrow> Cuboid"
  solvePoint :: "nat \<Rightarrow> SparseOptimizer \<Rightarrow> int \<Rightarrow> Vector3d"
  chi2Mono :: "SparseOptimizer \<Rightarrow> EdgeSE3ProjectXYZ \<Rightarrow> real"
  isDepthPositiveMono :: "SparseOptimizer \<Rightarrow> EdgeSE3ProjectXYZ \<Rightarrow> bool"
  chi2Stereo :: "SparseOptimizer \<Rightarrow> EdgeStereoSE3ProjectXYZ \<Rightarrow> real"
  isDepthPositiveStereo :: "SparseOptimizer \<Rightarrow> EdgeStereoSE3ProjectXYZ \<Rightarrow> bool"

subsection \<open>State of the procedure\<close>

text \<open>
  A run that dereferences a null vertex or indexes a vector out of range has
  undefined behaviour in C++; the model stops there and records the fault, keeping
  the state reached.
\<close>

datatype fault = NullVertex | OutOfRange

record LBA = Scene +
  lLocalKeyFrames :: "kf_ptr list"
  lLocalMapPoints :: "mp_ptr list"
  lFixedCameras :: "kf_ptr list"
  lLocalLandmarks :: "lm_ptr list"
  optimizer :: SparseOptimizer
  maxKFId :: ulong
  maxLandmarkId :: ulong
  vToErase :: "(kf_ptr \<times> mp_ptr) list"
  fault :: "fault option"

definition updKF :: "kf_ptr \<Rightarrow> (KeyFrame \<Rightarrow> KeyFrame) \<Rightarrow> LBA \<Rightarrow> LBA" where
  "updKF p f st = st\<lparr>keyframes := (keyframes st)(p := f (keyframes st p))\<rparr>"

definition updMP :: "mp_ptr \<Rightarrow> (MapPoint \<Rightarrow> MapPoint) \<Rightarrow> LBA \<Rightarrow> LBA" where
  "updMP p f st = st\<lparr>mappoints := (mappoints st)(p := f (mappoints st p))\<rparr>"

definition updLM :: "lm_ptr \<Rightarrow> (Landmark \<Rightarrow> Landmark) \<Rightarrow> LBA \<Rightarrow> LBA" where
  "updLM p f st = st\<lparr>landmarks := (landmarks st)(p := f (landmarks st p))\<rparr>"

definition updOpt :: "(SparseOptimizer \<Rightarrow> SparseOptimizer) \<Rightarrow> LBA \<Rightarrow> LBA" where
  "updOpt f st = st\<lparr>optimizer := f (optimizer st)\<rparr>"

subsection \<open>Vertex ids\<close>

text \<open>
  g2o vertex ids are \<^verbatim>\<open>int\<close>; the ids of the scene graph and the running maxima
  \<^verbatim>\<open>maxKFId\<close>, \<^verbatim>\<open>maxLandmarkId\<close> are \<^verbatim>\<open>unsigned long\<close> (line 98). \<open>toInt\<close> is the
  conversion the calls \<^verbatim>\<open>setId\<close> and \<^verbatim>\<open>vertex\<close> and the declaration
  \<^verbatim>\<open>int id = ...\<close> (line 167) apply: the low 32 bits, read as two's complement.
\<close>

definition toInt :: "ulong \<Rightarrow> int" where
  "toInt w = sint (ucast w :: 32 word)"

definition poseVertexId :: "KeyFrame \<Rightarrow> int" where
  "poseVertexId k = toInt (mnId k)"

definition cuboidVertexId :: "ulong \<Rightarrow> Landmark \<Rightarrow> int" where
  "cuboidVertexId maxKF l = toInt (maxKF + 1 + mnLandmarkId l)"

definition pointVertexId :: "ulong \<Rightarrow> ulong \<Rightarrow> MapPoint \<Rightarrow> int" where
  "pointVertexId maxKF maxLm m = toInt (mp_mnId m + maxKF + maxLm + 2)"

definition pointRecoveryId :: "ulong \<Rightarrow> MapPoint \<Rightarrow> int" where
  "pointRecoveryId maxKF m = toInt (mp_mnId m + maxKF + 1)"

text \<open>
  \<^verbatim>\<open>optimizer.vertex(id)\<close> and \<^verbatim>\<open>optimizer.addVertex(v)\<close>: g2o keeps one vertex per
  id and refuses a vertex whose id is already registered.
\<close>

definition vertex :: "SparseOptimizer \<Rightarrow> int \<Rightarrow> Vertex option" where
  "vertex g i = map_of (vertices g) i"

definition vertexRef :: "SparseOptimizer \<Rightarrow> int \<Rightarrow> int option" where
  "vertexRef g i = (if vertex g i = None then None else Some i)"

definition addVertex :: "int \<Rightarrow> Vertex \<Rightarrow> SparseOptimizer \<Rightarrow> SparseOptimizer" where
  "addVertex i v g = (if vertex g i = None then g\<lparr>vertices := vertices g @ [(i, v)]\<rparr> else g)"

subsection \<open>Window selection (lines 43-83)\<close>

text \<open>
  \<open>kid\<close> is \<^verbatim>\<open>pKF->mnId\<close>; no statement of the procedure assigns an \<^verbatim>\<open>mnId\<close>, so
  it is read once.
\<close>

definition addNeighbour :: "ulong \<Rightarrow> kf_ptr \<Rightarrow> LBA \<Rightarrow> LBA" where
  "addNeighbour kid pKFi st =
     (let st1 = updKF pKFi (\<lambda>k. k\<lparr>mnBALocalForKF := kid\<rparr>) st
      in if \<not> mbBad (keyframes st1 pKFi)
         then st1\<lparr>lLocalKeyFrames := lLocalKeyFrames st1 @ [pKFi]\<rparr>
         else st1)"

definition selectLocalKeyFrames :: "kf_ptr \<Rightarrow> LBA \<Rightarrow> LBA" where
  "selectLocalKeyFrames pKF st =
     (let kid = mnId (keyframes st pKF);
          st1 = st\<lparr>lLocalKeyFrames := lLocalKeyFrames st @ [pKF]\<rparr>;
          st2 = updKF pKF (\<lambda>k. k\<lparr>mnBALocalForKF := kid\<rparr>) st1;
          vNeighKFs = mvpOrderedConnectedKeyFrames (keyframes st2 pKF)
      in fold (addNeighbour kid) vNeighKFs st2)"

definition addLocalMapPoint :: "ulong \<Rightarrow> mp_ptr option \<Rightarrow> LBA \<Rightarrow> LBA" where
  "addLocalMapPoint kid pMP st =
     (case pMP of
        None \<Rightarrow> st
      | Some m \<Rightarrow>
          if \<not> mp_mbBad (mappoints st m)
          then if mp_mnBALocalForKF (mappoints st m) \<noteq> kid
               then updMP m (\<lambda>x. x\<lparr>mp_mnBALocalForKF := kid\<rparr>)
                      (st\<lparr>lLocalMapPoints := lLocalMapPoints st @ [m]\<rparr>)
               else st
          else st)"

definition localMapPointsOf :: "ulong \<Rightarrow> kf_ptr \<Rightarrow> LBA \<Rightarrow> LBA" where
  "localMapPointsOf kid pKFi st = fold (addLocalMapPoint kid) (mvpMapPoints (keyframes st pKFi)) st"

definition selectLocalMapPoints :: "ulong \<Rightarrow> LBA \<Rightarrow> LBA" where
  "selectLocalMapPoints kid st = fold (localMapPointsOf kid) (lLocalKeyFrames st) st"

definition addFixedCamera :: "ulong \<Rightarrow> kf_ptr \<times> nat \<Rightarrow> LBA \<Rightarrow> LBA" where
  "addFixedCamera kid observation st =
     (let pKFi = fst observation
      in if mnBALocalForKF (keyframes st pKFi) \<noteq> kid \<and> mnBAFixedForKF (keyframes st pKFi) \<noteq> kid
         then (let st1 = updKF pKFi (\<lambda>k. k\<lparr>mnBAFixedForKF := kid\<rparr>) st
               in if \<not> mbBad (keyframes st1 pKFi)
                  then st1\<lparr>lFixedCameras := lFixedCameras st1 @ [pKFi]\<rparr>
                  else st1)
         else st)"

definition fixedCamerasOf :: "ulong \<Rightarrow> mp_ptr \<Rightarrow> LBA \<Rightarrow> LBA" where
  "fixedCamerasOf kid pMP st = fold (addFixedCamera kid) (mObservations (mappoints st pMP)) st"

definition selectFixedCameras :: "ulong \<Rightarrow> LBA \<Rightarrow> LBA" where
  "selectFixedCameras kid st = fold (fixedCamerasOf kid) (lLocalMapPoints st) st"

definition selectWindow :: "kf_ptr \<Rightarrow> LBA \<Rightarrow> LBA" where
  "selectWindow pKF st =
     (let kid = mnId (keyframes st pKF)
      in selectFixedCameras kid (selectLocalMapPoints kid (selectLocalKeyFrames pKF st)))"

subsection \<open>Graph construction (lines 85-255)\<close>

definition emptyOptimizer :: SparseOptimizer where
  "emptyOptimizer =
     \<lparr>vertices = [], edgesMono = [], edgesStereo = [], edgesCuboid = [],
      forceStopFlag = False, optimizeCalls = []\<rparr>"

text \<open>
  Lines 102-116. \<^verbatim>\<open>lLocalLandmarks\<close> is an \<^verbatim>\<open>unordered_set\<close> of shared pointers:
  inserting a pointer twice keeps one copy. Its iteration order is not fixed by C++;
  the model iterates from the newest pointer to the oldest.
\<close>

definition cacheLandmark :: "Collab \<Rightarrow> kf_ptr \<Rightarrow> lm_ptr \<Rightarrow> LBA \<Rightarrow> LBA" where
  "cacheLandmark ext pKFi pLandmark st =
     (let st1 = st\<lparr>lLocalLandmarks := List.insert pLandmark (lLocalLandmarks st)\<rparr>;
          l = landmarks st1 pLandmark
      in updKF pKFi
           (\<lambda>k. k\<lparr>landmarkMeasurements :=
                    (landmarkMeasurements k)(mnLandmarkId l \<mapsto> transformTo ext (mCuboid l) (cam_pose_Twc k))\<rparr>)
           st1)"

definition addLocalKeyFrameVertex :: "Collab \<Rightarrow> kf_ptr \<Rightarrow> LBA \<Rightarrow> LBA" where
  "addLocalKeyFrameVertex ext pKFi st =
     (let st1 = fold (cacheLandmark ext pKFi) (mvpLandmarks (keyframes st pKFi)) st;
          k = keyframes st1 pKFi;
          vSE3 = VertexSE3Expmap (mnId k = 0) (toSE3Quat ext (Tcw k));
          st2 = updOpt (addVertex (poseVertexId k) vSE3) st1
      in if mnId k > maxKFId st2 then st2\<lparr>maxKFId := mnId k\<rparr> else st2)"

text \<open>Lines 119-127.\<close>

definition addFixedKeyFrameVertex :: "Collab \<Rightarrow> kf_ptr \<Rightarrow> LBA \<Rightarrow> LBA" where
  "addFixedKeyFrameVertex ext pKFi st =
     (let k = keyframes st pKFi;
          vSE3 = VertexSE3Expmap True (toSE3Quat ext (Tcw k));
          st1 = updOpt (addVertex (poseVertexId k) vSE3) st
      in if mnId k > maxKFId st1 then st1\<lparr>maxKFId := mnId k\<rparr> else st1)"

text \<open>Lines 129-138.\<close>

definition addLandmarkVertex :: "lm_ptr \<Rightarrow> LBA \<Rightarrow> LBA" where
  "addLandmarkVertex pLandmark st =
     (let l = landmarks st pLandmark;
          vCuboid = VertexCuboid False (mCuboid l);
          st1 = updOpt (addVertex (cuboidVertexId (maxKFId st) l) vCuboid) st
      in if mnLandmarkId l > maxLandmarkId st1 then st1\<lparr>maxLandmarkId := mnLandmarkId l\<rparr> else st1)"

text \<open>The Eigen expressions of lines 192, 216-218 and 235.\<close>

definition scaledIdentity :: "nat \<Rightarrow> real \<Rightarrow> real list list" where
  "scaledIdentity n x = map (\<lambda>i. map (\<lambda>j. if i = j then x else 0) [0..<n]) [0..<n]"

definition cwiseProduct :: "real list \<Rightarrow> real list \<Rightarrow> real list" where
  "cwiseProduct a b = map (\<lambda>(x, y). x * y) (zip a b)"

definition asDiagonal :: "real list \<Rightarrow> real list list" where
  "asDiagonal v = map (\<lambda>i. map (\<lambda>j. if i = j then v ! i else 0) [0..<length v]) [0..<length v]"

text \<open>
  Lines 161-162: \<^verbatim>\<open>sqrtf(5.991f)\<close> and \<^verbatim>\<open>sqrtf(7.815f)\<close>. A \<^verbatim>\<open>float\<close> literal denotes
  the binary fraction of 24 significant bits nearest to its decimal:
  \<open>6282019 / 2\<^sup>2\<^sup>0\<close> and \<open>16389243 / 2\<^sup>2\<^sup>1\<close>.
\<close>

definition thHuberMono :: "Collab \<Rightarrow> real" where
  "thHuberMono ext = sqrtf ext (6282019 / 1048576)"

definition thHuberStereo :: "Collab \<Rightarrow> real" where
  "thHuberStereo ext = sqrtf ext (16389243 / 2097152)"

text \<open>
  Line 214 reads the measurement cache of the KeyFrame with \<^verbatim>\<open>operator[]\<close>. The
  cache is a mapping from landmark ids to cuboids; as for a C++ map, reading an id
  that has no entry creates a default-constructed one.
\<close>

definition readLandmarkMeasurement :: "Collab \<Rightarrow> kf_ptr \<Rightarrow> ulong \<Rightarrow> LBA \<Rightarrow> Cuboid \<times> LBA" where
  "readLandmarkMeasurement ext pKFi lid st =
     (case landmarkMeasurements (keyframes st pKFi) lid of
        Some c \<Rightarrow> (c, st)
      | None \<Rightarrow>
          (defaultCuboid ext,
           updKF pKFi (\<lambda>k. k\<lparr>landmarkMeasurements := (landmarkMeasurements k)(lid \<mapsto> defaultCuboid ext)\<rparr>) st))"

text \<open>Lines 210-221: one camera-object edge.\<close>

definition addCuboidEdge :: "Collab \<Rightarrow> kf_ptr \<Rightarrow> lm_ptr \<Rightarrow> LBA \<Rightarrow> LBA" where
  "addCuboidEdge ext pKFi pLandmark st =
     (let l = landmarks st pLandmark;
          v0 = vertexRef (optimizer st) (poseVertexId (keyframes st pKFi));
          v1 = vertexRef (optimizer st) (cuboidVertexId (maxKFId st) l);
          (measurement, st1) = readLandmarkMeasurement ext pKFi (mnLandmarkId l) st;
          inv_sigma = map (\<lambda>x. x * 2 * mQuality l) [1, 1, 1, 1, 1, 1, 1, 1, 1];
          info = asDiagonal (cwiseProduct inv_sigma inv_sigma);
          cuboid = \<lparr>c_kf = pKFi, c_lm = pLandmark, c_vertex0 = v0, c_vertex1 = v1,
                    c_measurement = measurement, c_information = info\<rparr>
      in updOpt (\<lambda>g. g\<lparr>edgesCuboid := edgesCuboid g @ [cuboid]\<rparr>) st1)"

text \<open>Lines 182-222: the monocular branch, once the vector reads are known to be in range.\<close>

definition addMonoEdge :: "Collab \<Rightarrow> mp_ptr \<Rightarrow> int \<Rightarrow> kf_ptr \<Rightarrow> KeyPoint \<Rightarrow> LBA \<Rightarrow> LBA" where
  "addMonoEdge ext pMP pid pKFi kpUn st =
     (let k = keyframes st pKFi;
          invSigma2 = mvInvLevelSigma2 k ! nat (octave kpUn);
          e = \<lparr>e_kf = pKFi, e_mp = pMP,
               e_vertex0 = vertexRef (optimizer st) pid,
               e_vertex1 = vertexRef (optimizer st) (poseVertexId k),
               e_measurement = [pt_x kpUn, pt_y kpUn],
               e_information = scaledIdentity 2 invSigma2,
               e_robustKernel = Some (thHuberMono ext),
               e_level = 0,
               e_fx = fx k, e_fy = fy k, e_cx = cx k, e_cy = cy k\<rparr>;
          st1 = updOpt (\<lambda>g. g\<lparr>edgesMono := edgesMono g @ [e]\<rparr>) st
      in fold (addCuboidEdge ext pKFi) (mvpLandmarks (keyframes st1 pKFi)) st1)"

text \<open>Lines 223-252: the stereo branch.\<close>

definition addStereoEdge :: "Collab \<Rightarrow> mp_ptr \<Rightarrow> int \<Rightarrow> kf_ptr \<Rightarrow> KeyPoint \<Rightarrow> real \<Rightarrow> LBA \<Rightarrow> LBA" where
  "addStereoEdge ext pMP pid pKFi kpUn kp_ur st =
     (let k = keyframes st pKFi;
          invSigma2 = mvInvLevelSigma2 k ! nat (octave kpUn);
          e = \<lparr>s_kf = pKFi, s_mp = pMP,
               s_vertex0 = vertexRef (optimizer st) pid,
               s_vertex1 = vertexRef (optimizer st) (poseVertexId k),
               s_measurement = [pt_x kpUn, pt_y kpUn, kp_ur],
               s_information = scaledIdentity 3 invSigma2,
               s_robustKernel = Some (thHuberStereo ext),
               s_level = 0,
               s_fx = fx k, s_fy = fy k, s_cx = cx k, s_cy = cy k, s_bf = mbf k\<rparr>
      in updOpt (\<lambda>g. g\<lparr>edgesStereo := edgesStereo g @ [e]\<rparr>) st)"

text \<open>
  Lines 175-254: one observation of a Local MapPoint. The reads
  \<^verbatim>\<open>mvKeysUn[i]\<close>, \<^verbatim>\<open>mvuRight[i]\<close> and \<^verbatim>\<open>mvInvLevelSigma2[octave]\<close> are unchecked in
  C++; an index outside the vector is the fault \<open>OutOfRange\<close>.
\<close>

definition addObservationEdges :: "Collab \<Rightarrow> mp_ptr \<Rightarrow> int \<Rightarrow> kf_ptr \<times> nat \<Rightarrow> LBA \<Rightarrow> LBA" where
  "addObservationEdges ext pMP pid observation st =
     (if fault st \<noteq> None then st
      else
        (let pKFi = fst observation; i = snd observation; k = keyframes st pKFi
         in if \<not> mbBad k
            then if i < length (mvKeysUn k) \<and> i < length (mvuRight k)
                 then (let kpUn = mvKeysUn k ! i
                       in if 0 \<le> octave kpUn \<and> nat (octave kpUn) < length (mvInvLevelSigma2 k)
                          then if mvuRight k ! i < 0
                               then addMonoEdge ext pMP pid pKFi kpUn st
                               else addStereoEdge ext pMP pid pKFi kpUn (mvuRight k ! i) st
                          else st\<lparr>fault := Some OutOfRange\<rparr>)
                 else st\<lparr>fault := Some OutOfRange\<rparr>
            else st))"

text \<open>Lines 164-255: the vertex of one Local MapPoint and the edges of its observations.\<close>

definition addMapPointVertex :: "Collab \<Rightarrow> mp_ptr \<Rightarrow> LBA \<Rightarrow> LBA" where
  "addMapPointVertex ext pMP st =
     (if fault st \<noteq> None then st
      else
        (let m = mappoints st pMP;
             vPoint = VertexSBAPointXYZ True (toVector3d ext (mWorldPos m));
             pid = pointVertexId (maxKFId st) (maxLandmarkId st) m;
             st1 = updOpt (addVertex pid vPoint) st
         in fold (addObservationEdges ext pMP pid) (mObservations m) st1))"

definition buildGraph :: "Collab \<Rightarrow> bool \<Rightarrow> LBA \<Rightarrow> LBA" where
  "buildGraph ext hasStopFlag st =
     (let st1 = st\<lparr>optimizer := emptyOptimizer\<lparr>forceStopFlag := hasStopFlag\<rparr>,
                   maxKFId := 0, maxLandmarkId := 0\<rparr>;
          st2 = fold (addLocalKeyFrameVertex ext) (lLocalKeyFrames st1) st1;
          st3 = fold (addFixedKeyFrameVertex ext) (lFixedCameras st2) st2;
          st4 = fold addLandmarkVertex (lLocalLandmarks st3) st3
      in fold (addMapPointVertex ext) (lLocalMapPoints st4) st4)"

subsection \<open>Solver invocation and outlier pass (lines 257-336)\<close>

text \<open>
  \<^verbatim>\<open>optimizer.initializeOptimization(); optimizer.optimize(n)\<close>: the solver replaces
  the estimate of each vertex and the call is recorded.
\<close>

definition newEstimate :: "Collab \<Rightarrow> nat \<Rightarrow> SparseOptimizer \<Rightarrow> int \<times> Vertex \<Rightarrow> int \<times> Vertex" where
  "newEstimate ext n g iv =
     (case iv of
        (i, VertexSE3Expmap b q) \<Rightarrow> (i, VertexSE3Expmap b (solvePose ext n g i))
      | (i, VertexCuboid b c) \<Rightarrow> (i, VertexCuboid b (solveCuboid ext n g i))
      | (i, VertexSBAPointXYZ b x) \<Rightarrow> (i, VertexSBAPointXYZ b (solvePoint ext n g i)))"

definition optimize :: "Collab \<Rightarrow> nat \<Rightarrow> SparseOptimizer \<Rightarrow> SparseOptimizer" where
  "optimize ext n g =
     g\<lparr>vertices := map (newEstimate ext n g) (vertices g), optimizeCalls := optimizeCalls g @ [n]\<rparr>"

text \<open>
  The test of lines 280 and 319 on a monocular edge, and of lines 294 and 332 on a
  stereo edge. \<^verbatim>\<open>chi2()\<close> is a \<^verbatim>\<open>double\<close> and is compared with a \<^verbatim>\<open>double\<close> literal; the
  literals \<^verbatim>\<open>5.991\<close> and \<^verbatim>\<open>7.815\<close> denote the binary fractions of 53 significant bits
  nearest to these decimals, \<open>421579146368385 / 2\<^sup>4\<^sup>6\<close> (below 5.991) and
  \<open>8798907771975107 / 2\<^sup>5\<^sup>0\<close> (above 7.815). The comparison of two doubles is exact.
\<close>

definition chi2ThresholdMono :: real where
  "chi2ThresholdMono = 421579146368385 / 70368744177664"

definition chi2ThresholdStereo :: real where
  "chi2ThresholdStereo = 8798907771975107 / 1125899906842624"

definition failsMono :: "Collab \<Rightarrow> SparseOptimizer \<Rightarrow> EdgeSE3ProjectXYZ \<Rightarrow> bool" where
  "failsMono ext g e = (chi2Mono ext g e > chi2ThresholdMono \<or> \<not> isDepthPositiveMono ext g e)"

definition failsStereo :: "Collab \<Rightarrow> SparseOptimizer \<Rightarrow> EdgeStereoSE3ProjectXYZ \<Rightarrow> bool" where
  "failsStereo ext g e = (chi2Stereo ext g e > chi2ThresholdStereo \<or> \<not> isDepthPositiveStereo ext g e)"

text \<open>Lines 273-285 and 287-299: the body of each marking loop.\<close>

definition markMonoEdge :: "Collab \<Rightarrow> LBA \<Rightarrow> EdgeSE3ProjectXYZ \<Rightarrow> EdgeSE3ProjectXYZ" where
  "markMonoEdge ext st e =
     (if mp_mbBad (mappoints st (e_mp e)) then e
      else
        (let e1 = (if failsMono ext (optimizer st) e then e\<lparr>e_level := 1\<rparr> else e)
         in e1\<lparr>e_robustKernel := None\<rparr>))"

definition markStereoEdge :: "Collab \<Rightarrow> LBA \<Rightarrow> EdgeStereoSE3ProjectXYZ \<Rightarrow> EdgeStereoSE3ProjectXYZ" where
  "markStereoEdge ext st e =
     (if mp_mbBad (mappoints st (s_mp e)) then e
      else
        (let e1 = (if failsStereo ext (optimizer st) e then e\<lparr>s_level := 1\<rparr> else e)
         in e1\<lparr>s_robustKernel := None\<rparr>))"

definition markOutliers :: "Collab \<Rightarrow> LBA \<Rightarrow> LBA" where
  "markOutliers ext st =
     updOpt (\<lambda>g. g\<lparr>edgesMono := map (markMonoEdge ext st) (edgesMono g),
                  edgesStereo := map (markStereoEdge ext st) (edgesStereo g)\<rparr>) st"

text \<open>Lines 308-336: what each edge adds to \<^verbatim>\<open>vToErase\<close>.\<close>

definition classifyMonoEdge :: "Collab \<Rightarrow> LBA \<Rightarrow> EdgeSE3ProjectXYZ \<Rightarrow> (kf_ptr \<times> mp_ptr) list" where
  "classifyMonoEdge ext st e =
     (if mp_mbBad (mappoints st (e_mp e)) then []
      else if failsMono ext (optimizer st) e then [(e_kf e, e_mp e)]
      else [])"

definition classifyStereoEdge :: "Collab \<Rightarrow> LBA \<Rightarrow> EdgeStereoSE3ProjectXYZ \<Rightarrow> (kf_ptr \<times> mp_ptr) list" where
  "classifyStereoEdge ext st e =
     (if mp_mbBad (mappoints st (s_mp e)) then []
      else if failsStereo ext (optimizer st) e then [(s_kf e, s_mp e)]
      else [])"

definition finalClassification :: "Collab \<Rightarrow> LBA \<Rightarrow> LBA" where
  "finalClassification ext st =
     st\<lparr>vToErase := concat (map (classifyMonoEdge ext st) (edgesMono (optimizer st)))
                     @ concat (map (classifyStereoEdge ext st) (edgesStereo (optimizer st)))\<rparr>"

subsection \<open>Result commit (lines 338-371)\<close>

text \<open>
  Modelled from the spec: \<^verbatim>\<open>KeyFrame::EraseMapPointMatch\<close> and
  \<^verbatim>\<open>MapPoint::EraseObservation\<close> are declared outside the source at hand; the spec has
  them remove the link "from both the KeyFrame's point-match table and the
  MapPoint's observation set".
\<close>

definition EraseMapPointMatch :: "kf_ptr \<Rightarrow> mp_ptr \<Rightarrow> LBA \<Rightarrow> LBA" where
  "EraseMapPointMatch pKFi pMPi st =
     updKF pKFi (\<lambda>k. k\<lparr>mvpMapPoints := map (\<lambda>x. if x = Some pMPi then None else x) (mvpMapPoints k)\<rparr>) st"

definition EraseObservation :: "mp_ptr \<Rightarrow> kf_ptr \<Rightarrow> LBA \<Rightarrow> LBA" where
  "EraseObservation pMPi pKFi st =
     updMP pMPi (\<lambda>m. m\<lparr>mObservations := filter (\<lambda>ob. fst ob \<noteq> pKFi) (mObservations m)\<rparr>) st"

definition eraseLink :: "kf_ptr \<times> mp_ptr \<Rightarrow> LBA \<Rightarrow> LBA" where
  "eraseLink i st = EraseObservation (snd i) (fst i) (EraseMapPointMatch (fst i) (snd i) st)"

text \<open>
  Lines 353-371. A \<^verbatim>\<open>dynamic_cast\<close> of a missing vertex, or of a vertex of another
  type, is the null pointer, and the next statement dereferences it.
  \<^verbatim>\<open>UpdateNormalAndDepth\<close> changes no field of the model.
\<close>

definition recoverKeyFrame :: "Collab \<Rightarrow> kf_ptr \<Rightarrow> LBA \<Rightarrow> LBA" where
  "recoverKeyFrame ext pLocalKF st =
     (if fault st \<noteq> None then st
      else
        (case vertex (optimizer st) (poseVertexId (keyframes st pLocalKF)) of
           Some (VertexSE3Expmap b q) \<Rightarrow> updKF pLocalKF (\<lambda>k. k\<lparr>Tcw := toCvMatSE3 ext q\<rparr>) st
         | _ \<Rightarrow> st\<lparr>fault := Some NullVertex\<rparr>))"

definition recoverLandmark :: "lm_ptr \<Rightarrow> LBA \<Rightarrow> LBA" where
  "recoverLandmark pLandmark st =
     (if fault st \<noteq> None then st
      else
        (case vertex (optimizer st) (cuboidVertexId (maxKFId st) (landmarks st pLandmark)) of
           Some (VertexCuboid b c) \<Rightarrow> updLM pLandmark (\<lambda>l. l\<lparr>mCuboid := c\<rparr>) st
         | _ \<Rightarrow> st\<lparr>fault := Some NullVertex\<rparr>))"

definition recoverMapPoint :: "Collab \<Rightarrow> mp_ptr \<Rightarrow> LBA \<Rightarrow> LBA" where
  "recoverMapPoint ext pMP st =
     (if fault st \<noteq> None then st
      else
        (case vertex (optimizer st) (pointRecoveryId (maxKFId st) (mappoints st pMP)) of
           Some (VertexSBAPointXYZ b x) \<Rightarrow> updMP pMP (\<lambda>m. m\<lparr>mWorldPos := toCvMatVec ext x\<rparr>) st
         | _ \<Rightarrow> st\<lparr>fault := Some NullVertex\<rparr>))"

definition commit :: "Collab \<Rightarrow> LBA \<Rightarrow> LBA" where
  "commit ext st =
     (let st1 = fold eraseLink (vToErase st) st;
          st2 = fold (recoverKeyFrame ext) (lLocalKeyFrames st1) st1;
          st3 = fold recoverLandmark (lLocalLandmarks st2) st2
      in fold (recoverMapPoint ext) (lLocalMapPoints st3) st3)"

subsection \<open>The procedure\<close>

text \<open>
  \<^verbatim>\<open>pbStopFlag\<close> is a pointer to a flag that another thread sets. The procedure
  reads it twice (lines 258 and 267); the model takes \<open>None\<close> for the null pointer
  and otherwise the pair of values the two reads return.
\<close>

definition stopBeforeOptimize :: "(bool \<times> bool) option \<Rightarrow> bool" where
  "stopBeforeOptimize pbStopFlag = (case pbStopFlag of None \<Rightarrow> False | Some f \<Rightarrow> fst f)"

definition stopAfterOptimize :: "(bool \<times> bool) option \<Rightarrow> bool" where
  "stopAfterOptimize pbStopFlag = (case pbStopFlag of None \<Rightarrow> False | Some f \<Rightarrow> snd f)"

definition enter :: "Scene \<Rightarrow> LBA" where
  "enter s =
     \<lparr>keyframes = keyframes s, mappoints = mappoints s, landmarks = landmarks s,
      lLocalKeyFrames = [], lLocalMapPoints = [], lFixedCameras = [], lLocalLandmarks = [],
      optimizer = emptyOptimizer, maxKFId = 0, maxLandmarkId = 0, vToErase = [], fault = None\<rparr>"

definition prepare :: "Collab \<Rightarrow> kf_ptr \<Rightarrow> (bool \<times> bool) option \<Rightarrow> Scene \<Rightarrow> LBA" where
  "prepare ext pKF pbStopFlag s = buildGraph ext (pbStopFlag \<noteq> None) (selectWindow pKF (enter s))"

definition solveAndCommit :: "Collab \<Rightarrow> (bool \<times> bool) option \<Rightarrow> LBA \<Rightarrow> LBA" where
  "solveAndCommit ext pbStopFlag st =
     (let st1 = updOpt (optimize ext 5) st;
          bDoMore = \<not> stopAfterOptimize pbStopFlag;
          st2 = (if bDoMore then updOpt (optimize ext 10) (markOutliers ext st1) else st1)
      in commit ext (finalClassification ext st2))"

definition LocalBundleAdjustment :: "Collab \<Rightarrow> kf_ptr \<Rightarrow> (bool \<times> bool) option \<Rightarrow> Scene \<Rightarrow> LBA" where
  "LocalBundleAdjustment ext pKF pbStopFlag s =
     (let st = prepare ext pKF pbStopFlag s
      in if fault st \<noteq> None then st
         else if stopBeforeOptimize pbStopFlag then st
         else solveAndCommit ext pbStopFlag st)"

definition sceneOf :: "LBA \<Rightarrow> Scene" where
  "sceneOf st = \<lparr>keyframes = keyframes st, mappoints = mappoints st, landmarks = landmarks st\<rparr>"

subsection \<open>What a run leaves unchanged\<close>

definition sameKeyFrame :: "KeyFrame \<Rightarrow> KeyFrame \<Rightarrow> bool" where
  "sameKeyFrame k k' =
     (k'\<lparr>mnBALocalForKF := mnBALocalForKF k, mnBAFixedForKF := mnBAFixedForKF k,
         landmarkMeasurements := landmarkMeasurements k\<rparr> = k)"

definition sameMapPoint :: "MapPoint \<Rightarrow> MapPoint \<Rightarrow> bool" where
  "sameMapPoint m m' = (m'\<lparr>mp_mnBALocalForKF := mp_mnBALocalForKF m\<rparr> = m)"

definition uncommitted :: "Scene \<Rightarrow> LBA \<Rightarrow> bool" where
  "uncommitted s st =
     ((\<forall>p. sameKeyFrame (keyframes s p) (keyframes st p)) \<and>
      (\<forall>p. sameMapPoint (mappoints s p) (mappoints st p)) \<and>
      landmarks st = landmarks s)"

text \<open>What graph construction never writes: the window and the points and landmarks of the scene.\<close>

definition selectionOf ::
  "LBA \<Rightarrow> kf_ptr list \<times> mp_ptr list \<times> kf_ptr list \<times> (mp_ptr \<Rightarrow> MapPoint) \<times> (lm_ptr \<Rightarrow> Landmark) \<times> (kf_ptr \<times> mp_ptr) list" where
  "selectionOf st =
     (lLocalKeyFrames st, lLocalMapPoints st, lFixedCameras st, mappoints st, landmarks st, vToErase st)"

definition callsOf :: "LBA \<Rightarrow> nat list" where
  "callsOf st = optimizeCalls (optimizer st)"

text \<open>What the commit never writes: the optimizer and the local variables of the procedure.\<close>

definition localsOf ::
  "LBA \<Rightarrow> SparseOptimizer \<times> kf_ptr list \<times> mp_ptr list \<times> kf_ptr list \<times> lm_ptr list \<times> ulong \<times> ulong \<times> (kf_ptr \<times> mp_ptr) list" where
  "localsOf st =
     (optimizer st, lLocalKeyFrames st, lLocalMapPoints st, lFixedCameras st, lLocalLandmarks st,
      maxKFId st, maxLandmarkId st, vToErase st)"

text \<open>
  Invariants of a run: every Local MapPoint was found not bad when it was selected,
  and every reprojection edge belongs to a MapPoint of a given set.
\<close>

definition localPointsAlive :: "LBA \<Rightarrow> bool" where
  "localPointsAlive st = (\<forall>m \<in> set (lLocalMapPoints st). \<not> mp_mbBad (mappoints st m))"

definition reprojOf :: "LBA \<Rightarrow> EdgeSE3ProjectXYZ list \<times> EdgeStereoSE3ProjectXYZ list" where
  "reprojOf st = (edgesMono (optimizer st), edgesStereo (optimizer st))"

definition edgePointsIn :: "mp_ptr set \<Rightarrow> LBA \<Rightarrow> bool" where
  "edgePointsIn M st =
     ((\<forall>e \<in> set (edgesMono (optimizer st)). e_mp e \<in> M) \<and>
      (\<forall>e \<in> set (edgesStereo (optimizer st)). s_mp e \<in> M))"

definition edgePointsAlive :: "LBA \<Rightarrow> bool" where
  "edgePointsAlive st =
     ((\<forall>e \<in> set (edgesMono (optimizer st)). \<not> mp_mbBad (mappoints st (e_mp e))) \<and>
      (\<forall>e \<in> set (edgesStereo (optimizer st)). \<not> mp_mbBad (mappoints st (s_mp e))))"

text \<open>
  Invariants of window selection, for the stamp value \<open>kid\<close> of the run: every Local
  KeyFrame carries the stamp, no Fixed Camera does.
\<close>

definition localsStamped :: "ulong \<Rightarrow> LBA \<Rightarrow> bool" where
  "localsStamped kid st = (\<forall>p \<in> set (lLocalKeyFrames st). mnBALocalForKF (keyframes st p) = kid)"

definition fixedUnstamped :: "ulong \<Rightarrow> LBA \<Rightarrow> bool" where
  "fixedUnstamped kid st = (\<forall>p \<in> set (lFixedCameras st). mnBALocalForKF (keyframes st p) \<noteq> kid)"

text \<open>
  Every pose vertex of the optimizer \<open>g\<close> that is not marked fixed carries the id of
  a KeyFrame of the list \<open>L\<close> whose id is not 0 (ids as in the scene \<open>s\<close> before the
  call).
\<close>

definition freePosesIn :: "Scene \<Rightarrow> kf_ptr list \<Rightarrow> SparseOptimizer \<Rightarrow> bool" where
  "freePosesIn s L g =
     (\<forall>i b q. (i, VertexSE3Expmap b q) \<in> set (vertices g) \<longrightarrow>
        b \<or> (\<exists>x \<in> set L. i = poseVertexId (keyframes s x) \<and> mnId (keyframes s x) \<noteq> 0))"

definition verticesOf :: "LBA \<Rightarrow> (int \<times> Vertex) list" where
  "verticesOf st = vertices (optimizer st)"

text \<open>
  The number of camera-object edges created for a KeyFrame, and the number of
  monocular reprojection edges of a KeyFrame.
\<close>

definition cuboidCount :: "kf_ptr \<Rightarrow> LBA \<Rightarrow> nat" where
  "cuboidCount p st = length (filter (\<lambda>c. c_kf c = p) (edgesCuboid (optimizer st)))"

definition monoCount :: "kf_ptr \<Rightarrow> LBA \<Rightarrow> nat" where
  "monoCount p st = length (filter (\<lambda>e. e_kf e = p) (edgesMono (optimizer st)))"

definition stereoCount :: "kf_ptr \<Rightarrow> LBA \<Rightarrow> nat" where
  "stereoCount p st = length (filter (\<lambda>e. s_kf e = p) (edgesStereo (optimizer st)))"

definition perObservation :: "Scene \<Rightarrow> LBA \<Rightarrow> bool" where
  "perObservation s st =
     (\<forall>p. cuboidCount p st = monoCount p st * length (mvpLandmarks (keyframes s p)))"

text \<open>
  The id ranges of a built graph: the pose, cuboid and point vertex ids of the
  window are the integers the formulas name (\<open>uint\<close> reads an \<^verbatim>\<open>unsigned long\<close> as an
  integer), every pose and landmark id is bounded by the running maximum, and the
  three ranges are strictly ordered.
\<close>

definition idRangesSeparate :: "LBA \<Rightarrow> bool" where
  "idRangesSeparate st =
     (let K = maxKFId st; N = maxLandmarkId st;
          poses = map (keyframes st) (lLocalKeyFrames st @ lFixedCameras st);
          cuboids = map (landmarks st) (lLocalLandmarks st);
          points = map (mappoints st) (lLocalMapPoints st)
      in (\<forall>k \<in> set poses. poseVertexId k = uint (mnId k) \<and> mnId k \<le> K)
         \<and> (\<forall>l \<in> set cuboids.
               cuboidVertexId K l = uint K + 1 + uint (mnLandmarkId l) \<and> mnLandmarkId l \<le> N)
         \<and> (\<forall>m \<in> set points.
               pointVertexId K N m = uint (mp_mnId m) + uint K + uint N + 2)
         \<and> (\<forall>k \<in> set poses. \<forall>l \<in> set cuboids. poseVertexId k < cuboidVertexId K l)
         \<and> (\<forall>k \<in> set poses. \<forall>m \<in> set points. poseVertexId k < pointVertexId K N m)
         \<and> (\<forall>l \<in> set cuboids. \<forall>m \<in> set points. cuboidVertexId K l < pointVertexId K N m))"

text \<open>The id arithmetic of the window stays within the non-negative range of \<^verbatim>\<open>int\<close>.\<close>

definition idsFitInt :: "LBA \<Rightarrow> bool" where
  "idsFitInt st =
     (uint (maxKFId st) + uint (maxLandmarkId st) + 2 < 2 ^ 31
      \<and> (\<forall>m \<in> set (lLocalMapPoints st).
            uint (mp_mnId (mappoints st m)) + uint (maxKFId st) + uint (maxLandmarkId st) + 2 < 2 ^ 31))"

definition maximaOf :: "LBA \<Rightarrow> ulong \<times> ulong \<times> lm_ptr list" where
  "maximaOf st = (maxKFId st, maxLandmarkId st, lLocalLandmarks st)"

text \<open>The kind of the vertex registered under an id.\<close>

definition poseAt :: "SparseOptimizer \<Rightarrow> int \<Rightarrow> bool" where
  "poseAt g i = (case vertex g i of Some (VertexSE3Expmap b q) \<Rightarrow> True | _ \<Rightarrow> False)"

definition cuboidAt :: "SparseOptimizer \<Rightarrow> int \<Rightarrow> bool" where
  "cuboidAt g i = (case vertex g i of Some (VertexCuboid b c) \<Rightarrow> True | _ \<Rightarrow> False)"

definition othersAreCuboids :: "int \<Rightarrow> SparseOptimizer \<Rightarrow> bool" where
  "othersAreCuboids i g = (\<forall>j. j \<noteq> i \<longrightarrow> vertex g j = None \<or> cuboidAt g j)"

text \<open>
  Degenerate input: the trigger KeyFrame has no covisible neighbour and every entry
  of its match table is null.
\<close>

definition degenerate :: "kf_ptr \<Rightarrow> Scene \<Rightarrow> bool" where
  "degenerate pKF s =
     (mvpOrderedConnectedKeyFrames (keyframes s pKF) = []
      \<and> (\<forall>x \<in> set (mvpMapPoints (keyframes s pKF)). x = None))"

text \<open>No Landmark of the trigger KeyFrame gets the vertex id of the KeyFrame itself.\<close>

definition landmarkIdsClear :: "kf_ptr \<Rightarrow> Scene \<Rightarrow> bool" where
  "landmarkIdsClear pKF s =
     (\<forall>l \<in> set (mvpLandmarks (keyframes s pKF)).
        cuboidVertexId (mnId (keyframes s pKF)) (landmarks s l) \<noteq> poseVertexId (keyframes s pKF))"

definition expectedCalls :: "(bool \<times> bool) option \<Rightarrow> nat list" where
  "expectedCalls pbStopFlag =
     (if stopBeforeOptimize pbStopFlag then []
      else if stopAfterOptimize pbStopFlag then [5]
      else [5, 10])"

text \<open>
  The graph of a degenerate window while it is built: no fault, the pose vertex of
  the trigger KeyFrame under \<open>i\<close>, cuboid vertices under every other registered id,
  \<open>maxKFId\<close> equal to \<open>K\<close>, the Landmarks of the scene \<open>s\<close>, and no edge.
\<close>

definition loneGraph :: "int \<Rightarrow> ulong \<Rightarrow> Scene \<Rightarrow> LBA \<Rightarrow> bool" where
  "loneGraph i K s st =
     (fault st = None \<and> poseAt (optimizer st) i \<and> othersAreCuboids i (optimizer st)
      \<and> maxKFId st = K \<and> landmarks st = landmarks s
      \<and> edgesMono (optimizer st) = [] \<and> edgesStereo (optimizer st) = []
      \<and> edgesCuboid (optimizer st) = [])"

text \<open>
  Camera-object factors. A vertex is registered under an id; the measurement cache
  of the KeyFrame \<open>p\<close> holds, under the id of the Landmark \<open>l\<close>, the cuboid of \<open>l\<close> as seen
  from \<open>p\<close>; the Landmarks of a KeyFrame carry pairwise different ids.
\<close>

definition hasVertex :: "LBA \<Rightarrow> int \<Rightarrow> bool" where
  "hasVertex st i = (vertex (optimizer st) i \<noteq> None)"

definition cachedFor :: "Collab \<Rightarrow> Scene \<Rightarrow> kf_ptr \<Rightarrow> lm_ptr \<Rightarrow> LBA \<Rightarrow> bool" where
  "cachedFor ext s p l st =
     (landmarkMeasurements (keyframes st p) (mnLandmarkId (landmarks s l))
        = Some (transformTo ext (mCuboid (landmarks s l)) (cam_pose_Twc (keyframes s p))))"

definition distinctLandmarkIds :: "Scene \<Rightarrow> kf_ptr \<Rightarrow> bool" where
  "distinctLandmarkIds s p =
     distinct (map (\<lambda>l. mnLandmarkId (landmarks s l)) (remdups (mvpLandmarks (keyframes s p))))"

text \<open>
  The factor as the specification words it, for the KeyFrame \<open>p\<close> and the Landmark \<open>l\<close>
  of the scene \<open>s\<close> before the call: between the pose vertex of \<open>p\<close> and the cuboid
  vertex of \<open>l\<close> (\<open>K\<close> is \<^verbatim>\<open>maxKFId\<close>), the measurement the cuboid of \<open>l\<close> relative to the
  pose of \<open>p\<close>, the information the 9x9 diagonal of \<open>(2 * quality)\<^sup>2\<close>.
\<close>

definition cameraObjectFactor :: "Collab \<Rightarrow> Scene \<Rightarrow> ulong \<Rightarrow> kf_ptr \<Rightarrow> lm_ptr \<Rightarrow> EdgeSE3Cuboid" where
  "cameraObjectFactor ext s K p l =
     \<lparr>c_kf = p, c_lm = l,
      c_vertex0 = Some (poseVertexId (keyframes s p)),
      c_vertex1 = Some (cuboidVertexId K (landmarks s l)),
      c_measurement = transformTo ext (mCuboid (landmarks s l)) (cam_pose_Twc (keyframes s p)),
      c_information = asDiagonal (replicate 9 ((2 * mQuality (landmarks s l)) ^ 2))\<rparr>"

text \<open>
  Invariants of graph construction for a Local KeyFrame \<open>p\<close>: once its vertex is
  created its Landmarks are cached and local (\<open>cachedAll\<close>); once the cuboid vertices
  are created every edge of \<open>p\<close> finds its two vertices and its measurement (\<open>ready\<close>);
  every monocular edge of \<open>p\<close> has its camera-object factors (\<open>factorsFor\<close>). A
  monocular edge exists for the MapPoint \<open>m\<close> and the KeyFrame \<open>p\<close> (\<open>monoEdgeFor\<close>).
\<close>

definition cachedAll :: "Collab \<Rightarrow> Scene \<Rightarrow> kf_ptr \<Rightarrow> LBA \<Rightarrow> bool" where
  "cachedAll ext s p st =
     (hasVertex st (poseVertexId (keyframes s p))
      \<and> (\<forall>l \<in> set (mvpLandmarks (keyframes s p)).
            cachedFor ext s p l st \<and> l \<in> set (lLocalLandmarks st)))"

definition ready :: "Collab \<Rightarrow> Scene \<Rightarrow> ulong \<Rightarrow> kf_ptr \<Rightarrow> LBA \<Rightarrow> bool" where
  "ready ext s K p st =
     (uncommitted s st \<and> maxKFId st = K \<and> hasVertex st (poseVertexId (keyframes s p))
      \<and> (\<forall>l \<in> set (mvpLandmarks (keyframes s p)).
            cachedFor ext s p l st \<and> hasVertex st (cuboidVertexId K (landmarks s l))))"

definition factorsFor :: "Collab \<Rightarrow> Scene \<Rightarrow> ulong \<Rightarrow> kf_ptr \<Rightarrow> LBA \<Rightarrow> bool" where
  "factorsFor ext s K p st =
     (\<forall>e \<in> set (edgesMono (optimizer st)). e_kf e = p \<longrightarrow>
        (\<forall>l \<in> set (mvpLandmarks (keyframes s p)).
           cameraObjectFactor ext s K p l \<in> set (edgesCuboid (optimizer st))))"

definition monoEdgeFor :: "mp_ptr \<Rightarrow> kf_ptr \<Rightarrow> LBA \<Rightarrow> bool" where
  "monoEdgeFor m p st = (\<exists>e \<in> set (edgesMono (optimizer st)). e_kf e = p \<and> e_mp e = m)"

text \<open>
  The variables registered in the optimizer. A point vertex is registered under an
  id; every registered vertex lies in the range of its kind; every element of the
  window has its vertex, of its kind, under its id (the point vertices when graph
  construction ran to its end); every edge created for elements of the window
  refers to their vertices.
\<close>

definition pointAt :: "SparseOptimizer \<Rightarrow> int \<Rightarrow> bool" where
  "pointAt g i = (case vertex g i of Some (VertexSBAPointXYZ b x) \<Rightarrow> True | _ \<Rightarrow> False)"

definition variablesInRange :: "LBA \<Rightarrow> bool" where
  "variablesInRange st =
     (\<forall>iv \<in> set (vertices (optimizer st)).
        case snd iv of
          VertexSE3Expmap b q \<Rightarrow> 0 \<le> fst iv \<and> fst iv \<le> uint (maxKFId st)
        | VertexCuboid b c \<Rightarrow>
            uint (maxKFId st) < fst iv \<and> fst iv \<le> uint (maxKFId st) + 1 + uint (maxLandmarkId st)
        | VertexSBAPointXYZ b x \<Rightarrow> uint (maxKFId st) + 1 + uint (maxLandmarkId st) < fst iv)"

definition variablesRegistered :: "LBA \<Rightarrow> bool" where
  "variablesRegistered st =
     ((\<forall>p \<in> set (lLocalKeyFrames st @ lFixedCameras st).
         poseAt (optimizer st) (poseVertexId (keyframes st p)))
      \<and> (\<forall>l \<in> set (lLocalLandmarks st).
            cuboidAt (optimizer st) (cuboidVertexId (maxKFId st) (landmarks st l)))
      \<and> (fault st = None \<longrightarrow>
           (\<forall>m \<in> set (lLocalMapPoints st).
              pointAt (optimizer st) (pointVertexId (maxKFId st) (maxLandmarkId st) (mappoints st m)))))"

definition edgeEnds ::
  "Scene \<Rightarrow> ulong \<Rightarrow> ulong \<Rightarrow> kf_ptr list \<Rightarrow> lm_ptr list \<Rightarrow> SparseOptimizer \<Rightarrow> bool" where
  "edgeEnds s K N Wl LL g =
     ((\<forall>e \<in> set (edgesMono g).
         e_vertex0 e = Some (pointVertexId K N (mappoints s (e_mp e)))
         \<and> (e_kf e \<in> set Wl \<longrightarrow> e_vertex1 e = Some (poseVertexId (keyframes s (e_kf e)))))
      \<and> (\<forall>e \<in> set (edgesStereo g).
            s_vertex0 e = Some (pointVertexId K N (mappoints s (s_mp e)))
            \<and> (s_kf e \<in> set Wl \<longrightarrow> s_vertex1 e = Some (poseVertexId (keyframes s (s_kf e)))))
      \<and> (\<forall>c \<in> set (edgesCuboid g).
            (c_kf c \<in> set Wl \<longrightarrow> c_vertex0 c = Some (poseVertexId (keyframes s (c_kf c))))
            \<and> (c_lm c \<in> set LL \<longrightarrow> c_vertex1 c = Some (cuboidVertexId K (landmarks s (c_lm c))))))"

definition edgeEndsRegistered :: "LBA \<Rightarrow> bool" where
  "edgeEndsRegistered st =
     edgeEnds (sceneOf st) (maxKFId st) (maxLandmarkId st)
       (lLocalKeyFrames st @ lFixedCameras st) (lLocalLandmarks st) (optimizer st)"

text \<open>
  Invariants of graph construction: the ids the vertices of each kind come from,
  and what the edge loop relies on.
\<close>

definition originsOf :: "int set \<Rightarrow> int set \<Rightarrow> int set \<Rightarrow> LBA \<Rightarrow> bool" where
  "originsOf A B C st =
     (\<forall>iv \<in> set (vertices (optimizer st)).
        case snd iv of
          VertexSE3Expmap b q \<Rightarrow> fst iv \<in> A
        | VertexCuboid b c \<Rightarrow> fst iv \<in> B
        | VertexSBAPointXYZ b x \<Rightarrow> fst iv \<in> C)"

definition buildCtx ::
  "Scene \<Rightarrow> ulong \<Rightarrow> ulong \<Rightarrow> kf_ptr list \<Rightarrow> lm_ptr list \<Rightarrow> LBA \<Rightarrow> bool" where
  "buildCtx s K N Wl LL st =
     (uncommitted s st \<and> maxKFId st = K \<and> maxLandmarkId st = N
      \<and> (\<forall>p \<in> set Wl. hasVertex st (poseVertexId (keyframes s p)))
      \<and> (\<forall>l \<in> set LL. hasVertex st (cuboidVertexId K (landmarks s l))))"
subsection \<open>Test doubles and example scenes\<close>

text \<open>
  A solver double that keeps every estimate, converters that copy the coefficients,
  and residual accessors that read the residual off the measurement: the chi-square
  of a reprojection edge is the x coordinate of its keypoint and the depth is
  positive unless the y coordinate is negative.
\<close>

definition keepPose :: "SparseOptimizer \<Rightarrow> int \<Rightarrow> SE3Quat" where
  "keepPose g i = (case vertex g i of Some (VertexSE3Expmap b q) \<Rightarrow> q | _ \<Rightarrow> SE3Quat [])"

definition keepCuboid :: "SparseOptimizer \<Rightarrow> int \<Rightarrow> Cuboid" where
  "keepCuboid g i = (case vertex g i of Some (VertexCuboid b c) \<Rightarrow> c | _ \<Rightarrow> Cuboid [])"

definition keepPoint :: "SparseOptimizer \<Rightarrow> int \<Rightarrow> Vector3d" where
  "keepPoint g i = (case vertex g i of Some (VertexSBAPointXYZ b x) \<Rightarrow> x | _ \<Rightarrow> Vector3d [])"

definition ext0 :: Collab where
  "ext0 =
     \<lparr>toSE3Quat = (\<lambda>m. case m of Mat xs \<Rightarrow> SE3Quat xs),
      toCvMatSE3 = (\<lambda>q. case q of SE3Quat xs \<Rightarrow> Mat xs),
      toVector3d = (\<lambda>m. case m of Mat xs \<Rightarrow> Vector3d xs),
      toCvMatVec = (\<lambda>v. case v of Vector3d xs \<Rightarrow> Mat xs),
      transformTo = (\<lambda>c q. case c of Cuboid xs \<Rightarrow> (case q of SE3Quat ys \<Rightarrow> Cuboid (xs @ ys))),
      defaultCuboid = Cuboid [],
      sqrtf = (\<lambda>x. x),
      solvePose = (\<lambda>n. keepPose),
      solveCuboid = (\<lambda>n. keepCuboid),
      solvePoint = (\<lambda>n. keepPoint),
      chi2Mono = (\<lambda>g e. e_measurement e ! 0),
      isDepthPositiveMono = (\<lambda>g e. 0 \<le> e_measurement e ! 1),
      chi2Stereo = (\<lambda>g e. s_measurement e ! 0),
      isDepthPositiveStereo = (\<lambda>g e. 0 \<le> s_measurement e ! 1)\<rparr>"

definition mkKeyFrame ::
  "ulong \<Rightarrow> kf_ptr list \<Rightarrow> mp_ptr option list \<Rightarrow> lm_ptr list \<Rightarrow> (real \<times> real \<times> real) list \<Rightarrow> KeyFrame" where
  "mkKeyFrame i neighbours matches lms keys =
     \<lparr>mnId = i, mnBALocalForKF = 0, mnBAFixedForKF = 0, mbBad = False,
      mvpOrderedConnectedKeyFrames = neighbours, mvpMapPoints = matches, mvpLandmarks = lms,
      landmarkMeasurements = Map.empty, cam_pose_Twc = SE3Quat [of_int (uint i)], Tcw = Mat [of_int (uint i)],
      mvKeysUn = map (\<lambda>k. \<lparr>pt_x = fst k, pt_y = fst (snd k), octave = 0\<rparr>) keys,
      mvuRight = map (\<lambda>k. snd (snd k)) keys,
      mvInvLevelSigma2 = [1],
      fx = 1, fy = 1, cx = 0, cy = 0, mbf = 1\<rparr>"

definition mkMapPoint :: "ulong \<Rightarrow> (kf_ptr \<times> nat) list \<Rightarrow> MapPoint" where
  "mkMapPoint i obs =
     \<lparr>mp_mnId = i, mp_mnBALocalForKF = 0, mp_mbBad = False, mObservations = obs,
      mWorldPos = Mat [of_int (uint i)]\<rparr>"

definition mkLandmark :: "ulong \<Rightarrow> real \<Rightarrow> Landmark" where
  "mkLandmark i q = \<lparr>mnLandmarkId = i, mQuality = q, mCuboid = Cuboid [of_int (uint i)]\<rparr>"

text \<open>
  The end-to-end scenario of the spec: KeyFrame K (id 5, at address 0) observes three
  MapPoints (ids 10, 11, 12), each also observed by KeyFrame 2 (at address 1), which
  is not covisible with K; one Landmark of quality 0.9 is associated with K. The
  first two keypoints of K are monocular (right coordinate -1), the third is stereo.
\<close>

definition sceneK :: Scene where
  "sceneK =
     \<lparr>keyframes = (\<lambda>p. if p = 0 then mkKeyFrame 5 [] [Some 0, Some 1, Some 2] [0]
                                      [(1, 1, -1), (chi2ThresholdMono, 1, -1), (9, 1, 3)]
                         else mkKeyFrame 2 [] [Some 0, Some 1, Some 2] []
                                      [(6, 1, -1), (chi2ThresholdStereo, 1, 4), (3, -1, 4)]),
      mappoints = (\<lambda>p. if p = 0 then mkMapPoint 10 [(0, 0), (1, 0)]
                         else if p = 1 then mkMapPoint 11 [(0, 1), (1, 1)]
                         else mkMapPoint 12 [(0, 2), (1, 2)]),
      landmarks = (\<lambda>p. mkLandmark 0 0.9)\<rparr>"

text \<open>A degenerate window: one KeyFrame without neighbours and without points.\<close>

definition sceneLone :: Scene where
  "sceneLone =
     \<lparr>keyframes = (\<lambda>p. mkKeyFrame 7 [] [None, None] [0, 1] []),
      mappoints = (\<lambda>p. mkMapPoint 0 []),
      landmarks = (\<lambda>p. if p = 0 then mkLandmark 3 0.5 else mkLandmark 4 1)\<rparr>"

text \<open>
  The state of the example run after the first optimize, and the same state once
  another thread has flagged MapPoint 11 (at address 1) as bad.
\<close>

definition stateK5 :: LBA where
  "stateK5 = updOpt (optimize ext0 5) (prepare ext0 0 None sceneK)"

definition stateK5bad :: LBA where
  "stateK5bad = updMP 1 (\<lambda>m. m\<lparr>mp_mbBad := True\<rparr>) stateK5"

text \<open>A solver double that moves every pose: after \<open>n\<close> iterations each pose estimate is \<open>[n]\<close>.\<close>

definition ext1 :: Collab where
  "ext1 = ext0\<lparr>solvePose := (\<lambda>n g i. SE3Quat [real n])\<rparr>"

text \<open>
  A solver double that moves every variable: after \<open>n\<close> iterations each pose estimate
  is \<open>[100 + n]\<close>, each cuboid estimate \<open>[200 + n]\<close> and each point estimate \<open>[300 + n]\<close>.
\<close>

definition ext2 :: Collab where
  "ext2 = ext0\<lparr>solvePose := (\<lambda>n g i. SE3Quat [100 + real n]),
               solveCuboid := (\<lambda>n g i. Cuboid [200 + real n]),
               solvePoint := (\<lambda>n g i. Vector3d [300 + real n])\<rparr>"

text \<open>The state after the first optimize once MapPoint 10 (at address 0) is flagged bad.\<close>

definition stateK5flagged :: LBA where
  "stateK5flagged = updMP 0 (\<lambda>m. m\<lparr>mp_mbBad := True\<rparr>) stateK5"

text \<open>The example scene with every keypoint of K stereo.\<close>

definition sceneS :: Scene where
  "sceneS =
     sceneK\<lparr>keyframes := (\<lambda>p. if p = 0 then mkKeyFrame 5 [] [Some 0, Some 1, Some 2] [0]
                                      [(1, 1, 2), (chi2ThresholdMono, 1, 2), (9, 1, 3)]
                            else keyframes sceneK p)\<rparr>"

text \<open>A window whose id arithmetic wraps in \<^verbatim>\<open>int\<close>: KeyFrame 1 observes MapPoint 4294967293.\<close>

definition sceneWrap :: Scene where
  "sceneWrap =
     \<lparr>keyframes = (\<lambda>p. mkKeyFrame 1 [] [Some 0] [] [(1, 1, -1)]),
      mappoints = (\<lambda>p. mkMapPoint 4294967293 [(0, 0)]),
      landmarks = (\<lambda>p. mkLandmark 0 1)\<rparr>"

text \<open>
  The example scene with the Landmark of K also associated with KeyFrame 2, which
  is not covisible with K and enters the window as a Fixed Camera.
\<close>

definition sceneShared :: Scene where
  "sceneShared =
     sceneK\<lparr>keyframes := (\<lambda>p. if p = 0 then keyframes sceneK 0
                            else mkKeyFrame 2 [] [Some 0, Some 1, Some 2] [0]
                                      [(6, 1, -1), (chi2ThresholdStereo, 1, 4), (3, -1, 4)])\<rparr>"

text \<open>
  The example scene with a second Landmark, of id 11 (at address 1), associated with
  the Fixed Camera only.
\<close>

definition sceneFar :: Scene where
  "sceneFar =
     \<lparr>keyframes = (\<lambda>p. if p = 0 then keyframes sceneK 0
                         else mkKeyFrame 2 [] [Some 0, Some 1, Some 2] [1]
                                      [(6, 1, -1), (chi2ThresholdStereo, 1, 4), (3, -1, 4)]),
      mappoints = mappoints sceneK,
      landmarks = (\<lambda>p. if p = 0 then mkLandmark 0 0.9 else mkLandmark 11 1)\<rparr>"
section \<open>Frame properties of window selection and graph construction\<close>

lemma fold_inv:
  assumes "P s" and "\<And>x s. x \<in> set xs \<Longrightarrow> P s \<Longrightarrow> P (f x s)"
  shows "P (fold f xs s)"
  using assms by (induction xs arbitrary: s) auto

lemma sameKeyFrame_upd [simp]:
  "sameKeyFrame k (k'\<lparr>mnBALocalForKF := x\<rparr>) = sameKeyFrame k k'"
  "sameKeyFrame k (k'\<lparr>mnBAFixedForKF := x\<rparr>) = sameKeyFrame k k'"
  "sameKeyFrame k (k'\<lparr>landmarkMeasurements := y\<rparr>) = sameKeyFrame k k'"
  by (simp_all add: sameKeyFrame_def)

lemma sameMapPoint_upd [simp]:
  "sameMapPoint m (m'\<lparr>mp_mnBALocalForKF := x\<rparr>) = sameMapPoint m m'"
  by (simp add: sameMapPoint_def)

lemma uncommitted_enter: "uncommitted s (enter s)"
  by (simp add: uncommitted_def enter_def sameKeyFrame_def sameMapPoint_def)

lemma uncommitted_addNeighbour: "uncommitted s st \<Longrightarrow> uncommitted s (addNeighbour kid p st)"
  by (simp add: uncommitted_def addNeighbour_def updKF_def Let_def)

lemma uncommitted_selectLocalKeyFrames:
  "uncommitted s st \<Longrightarrow> uncommitted s (selectLocalKeyFrames pKF st)"
  unfolding selectLocalKeyFrames_def Let_def
  by (rule fold_inv) (simp_all add: uncommitted_addNeighbour, simp add: uncommitted_def updKF_def)


lemma uncommitted_addLocalMapPoint: "uncommitted s st \<Longrightarrow> uncommitted s (addLocalMapPoint kid x st)"
  by (simp add: uncommitted_def addLocalMapPoint_def updMP_def split: option.splits)

lemma uncommitted_localMapPointsOf: "uncommitted s st \<Longrightarrow> uncommitted s (localMapPointsOf kid p st)"
  unfolding localMapPointsOf_def by (rule fold_inv) (simp_all add: uncommitted_addLocalMapPoint)

lemma uncommitted_selectLocalMapPoints: "uncommitted s st \<Longrightarrow> uncommitted s (selectLocalMapPoints kid st)"
  unfolding selectLocalMapPoints_def by (rule fold_inv) (simp_all add: uncommitted_localMapPointsOf)

lemma uncommitted_addFixedCamera: "uncommitted s st \<Longrightarrow> uncommitted s (addFixedCamera kid ob st)"
  by (simp add: uncommitted_def addFixedCamera_def updKF_def Let_def)

lemma uncommitted_fixedCamerasOf: "uncommitted s st \<Longrightarrow> uncommitted s (fixedCamerasOf kid p st)"
  unfolding fixedCamerasOf_def by (rule fold_inv) (simp_all add: uncommitted_addFixedCamera)

lemma uncommitted_selectFixedCameras: "uncommitted s st \<Longrightarrow> uncommitted s (selectFixedCameras kid st)"
  unfolding selectFixedCameras_def by (rule fold_inv) (simp_all add: uncommitted_fixedCamerasOf)

lemma uncommitted_selectWindow: "uncommitted s st \<Longrightarrow> uncommitted s (selectWindow pKF st)"
  by (simp add: selectWindow_def Let_def uncommitted_selectFixedCameras
      uncommitted_selectLocalMapPoints uncommitted_selectLocalKeyFrames)

lemma uncommitted_updOpt [simp]: "uncommitted s (updOpt f st) = uncommitted s st"
  by (simp add: uncommitted_def updOpt_def)

lemma uncommitted_locals [simp]:
  "uncommitted s (st\<lparr>maxKFId := a\<rparr>) = uncommitted s st"
  "uncommitted s (st\<lparr>maxLandmarkId := b\<rparr>) = uncommitted s st"
  "uncommitted s (st\<lparr>lLocalLandmarks := c\<rparr>) = uncommitted s st"
  "uncommitted s (st\<lparr>optimizer := d\<rparr>) = uncommitted s st"
  "uncommitted s (st\<lparr>fault := e\<rparr>) = uncommitted s st"
  "uncommitted s (st\<lparr>vToErase := f\<rparr>) = uncommitted s st"
  by (simp_all add: uncommitted_def)

lemma uncommitted_cache:
  "uncommitted s st \<Longrightarrow> uncommitted s (updKF p (\<lambda>k. k\<lparr>landmarkMeasurements := h k\<rparr>) st)"
  by (simp add: uncommitted_def updKF_def)

lemma uncommitted_cacheLandmark: "uncommitted s st \<Longrightarrow> uncommitted s (cacheLandmark ext p l st)"
  by (simp add: cacheLandmark_def Let_def uncommitted_cache)

lemma uncommitted_addLocalKeyFrameVertex:
  "uncommitted s st \<Longrightarrow> uncommitted s (addLocalKeyFrameVertex ext p st)"
proof -
  assume a: "uncommitted s st"
  have "uncommitted s (fold (cacheLandmark ext p) (mvpLandmarks (keyframes st p)) st)"
    by (rule fold_inv) (simp_all add: a uncommitted_cacheLandmark)
  then show ?thesis
    by (simp add: addLocalKeyFrameVertex_def Let_def)
qed

lemma uncommitted_addFixedKeyFrameVertex:
  "uncommitted s st \<Longrightarrow> uncommitted s (addFixedKeyFrameVertex ext p st)"
  by (simp add: addFixedKeyFrameVertex_def Let_def)

lemma uncommitted_addLandmarkVertex:
  "uncommitted s st \<Longrightarrow> uncommitted s (addLandmarkVertex l st)"
  by (simp add: addLandmarkVertex_def Let_def)

lemma uncommitted_addCuboidEdge: "uncommitted s st \<Longrightarrow> uncommitted s (addCuboidEdge ext p l st)"
  by (simp add: addCuboidEdge_def readLandmarkMeasurement_def Let_def uncommitted_cache
      split: option.splits)

lemma uncommitted_addMonoEdge: "uncommitted s st \<Longrightarrow> uncommitted s (addMonoEdge ext m i p kp st)"
  unfolding addMonoEdge_def Let_def
  by (rule fold_inv) (simp_all add: uncommitted_addCuboidEdge)

lemma uncommitted_addStereoEdge: "uncommitted s st \<Longrightarrow> uncommitted s (addStereoEdge ext m i p kp r st)"
  by (simp add: addStereoEdge_def Let_def)

lemma uncommitted_addObservationEdges:
  "uncommitted s st \<Longrightarrow> uncommitted s (addObservationEdges ext m i ob st)"
  by (simp add: addObservationEdges_def Let_def uncommitted_addMonoEdge uncommitted_addStereoEdge)

lemma uncommitted_addMapPointVertex:
  "uncommitted s st \<Longrightarrow> uncommitted s (addMapPointVertex ext m st)"
proof -
  assume a: "uncommitted s st"
  have "uncommitted s (fold (addObservationEdges ext m i) obs (updOpt f st))" for i obs f
    by (rule fold_inv) (simp_all add: a uncommitted_addObservationEdges)
  then show ?thesis
    by (simp add: addMapPointVertex_def Let_def a)
qed

lemma uncommitted_buildGraph: "uncommitted s st \<Longrightarrow> uncommitted s (buildGraph ext b st)"
proof -
  assume a: "uncommitted s st"
  define st1 where "st1 = st\<lparr>optimizer := emptyOptimizer\<lparr>forceStopFlag := b\<rparr>, maxKFId := 0, maxLandmarkId := 0\<rparr>"
  define st2 where "st2 = fold (addLocalKeyFrameVertex ext) (lLocalKeyFrames st1) st1"
  define st3 where "st3 = fold (addFixedKeyFrameVertex ext) (lFixedCameras st2) st2"
  define st4 where "st4 = fold addLandmarkVertex (lLocalLandmarks st3) st3"
  have 1: "uncommitted s st1" using a by (simp add: st1_def)
  have 2: "uncommitted s st2" unfolding st2_def
    by (rule fold_inv) (simp_all add: 1 uncommitted_addLocalKeyFrameVertex)
  have 3: "uncommitted s st3" unfolding st3_def
    by (rule fold_inv) (simp_all add: 2 uncommitted_addFixedKeyFrameVertex)
  have 4: "uncommitted s st4" unfolding st4_def
    by (rule fold_inv) (simp_all add: 3 uncommitted_addLandmarkVertex)
  have "uncommitted s (fold (addMapPointVertex ext) (lLocalMapPoints st4) st4)"
    by (rule fold_inv) (simp_all add: 4 uncommitted_addMapPointVertex)
  then show ?thesis
    by (simp add: buildGraph_def Let_def st1_def st2_def st3_def st4_def)
qed

lemma uncommitted_prepare: "uncommitted s (prepare ext pKF flag s)"
  by (simp add: prepare_def uncommitted_buildGraph uncommitted_selectWindow uncommitted_enter)

section \<open>What graph construction leaves alone\<close>

lemma fold_same:
  assumes "\<And>x s. g (f x s) = g s"
  shows "g (fold f xs s) = g s"
  by (induction xs arbitrary: s) (simp_all add: assms)

lemma selectionOf_cacheLandmark: "selectionOf (cacheLandmark ext p l st) = selectionOf st"
  by (simp add: selectionOf_def cacheLandmark_def updKF_def Let_def)

lemma selectionOf_addLocalKeyFrameVertex: "selectionOf (addLocalKeyFrameVertex ext p st) = selectionOf st"
proof -
  have "selectionOf (fold (cacheLandmark ext p) xs st) = selectionOf st" for xs
    by (rule fold_same) (rule selectionOf_cacheLandmark)
  then show ?thesis
    by (simp add: addLocalKeyFrameVertex_def Let_def selectionOf_def updOpt_def)
qed

lemma selectionOf_addFixedKeyFrameVertex: "selectionOf (addFixedKeyFrameVertex ext p st) = selectionOf st"
  by (simp add: addFixedKeyFrameVertex_def Let_def selectionOf_def updOpt_def)

lemma selectionOf_addLandmarkVertex: "selectionOf (addLandmarkVertex l st) = selectionOf st"
  by (simp add: addLandmarkVertex_def Let_def selectionOf_def updOpt_def)

lemma selectionOf_addCuboidEdge: "selectionOf (addCuboidEdge ext p l st) = selectionOf st"
  by (simp add: addCuboidEdge_def readLandmarkMeasurement_def Let_def selectionOf_def updOpt_def
      updKF_def split: option.splits)

lemma selectionOf_addMonoEdge: "selectionOf (addMonoEdge ext m i p kp st) = selectionOf st"
proof -
  have "selectionOf (fold (addCuboidEdge ext p) xs st') = selectionOf st'" for xs st'
    by (rule fold_same) (rule selectionOf_addCuboidEdge)
  then show ?thesis
    by (simp add: addMonoEdge_def Let_def) (simp add: selectionOf_def updOpt_def)
qed

lemma selectionOf_addStereoEdge: "selectionOf (addStereoEdge ext m i p kp r st) = selectionOf st"
  by (simp add: addStereoEdge_def Let_def selectionOf_def updOpt_def)

lemma selectionOf_addObservationEdges: "selectionOf (addObservationEdges ext m i ob st) = selectionOf st"
  by (simp add: addObservationEdges_def Let_def selectionOf_addMonoEdge selectionOf_addStereoEdge)
     (simp add: selectionOf_def)

lemma selectionOf_addMapPointVertex: "selectionOf (addMapPointVertex ext m st) = selectionOf st"
proof -
  have "selectionOf (fold (addObservationEdges ext m i) xs st') = selectionOf st'" for xs st' i
    by (rule fold_same) (rule selectionOf_addObservationEdges)
  then show ?thesis
    by (simp add: addMapPointVertex_def Let_def) (simp add: selectionOf_def updOpt_def)
qed

lemma selectionOf_buildGraph: "selectionOf (buildGraph ext b st) = selectionOf st"
proof -
  have 1: "selectionOf (fold (addLocalKeyFrameVertex ext) xs st') = selectionOf st'" for xs st'
    by (rule fold_same) (rule selectionOf_addLocalKeyFrameVertex)
  have 2: "selectionOf (fold (addFixedKeyFrameVertex ext) xs st') = selectionOf st'" for xs st'
    by (rule fold_same) (rule selectionOf_addFixedKeyFrameVertex)
  have 3: "selectionOf (fold addLandmarkVertex xs st') = selectionOf st'" for xs st'
    by (rule fold_same) (rule selectionOf_addLandmarkVertex)
  have 4: "selectionOf (fold (addMapPointVertex ext) xs st') = selectionOf st'" for xs st'
    by (rule fold_same) (rule selectionOf_addMapPointVertex)
  show ?thesis
    by (simp add: buildGraph_def Let_def 1 2 3 4) (simp add: selectionOf_def)
qed

lemma callsOf_cacheLandmark: "callsOf (cacheLandmark ext p l st) = callsOf st"
  by (simp add: callsOf_def cacheLandmark_def updKF_def Let_def)

lemma callsOf_addVertex: "callsOf (updOpt (addVertex i v) st) = callsOf st"
  by (simp add: callsOf_def updOpt_def addVertex_def)

lemma callsOf_max [simp]:
  "callsOf (st\<lparr>maxKFId := a\<rparr>) = callsOf st"
  "callsOf (st\<lparr>maxLandmarkId := b\<rparr>) = callsOf st"
  "callsOf (st\<lparr>fault := c\<rparr>) = callsOf st"
  by (simp_all add: callsOf_def)

lemma callsOf_addLocalKeyFrameVertex: "callsOf (addLocalKeyFrameVertex ext p st) = callsOf st"
proof -
  have "callsOf (fold (cacheLandmark ext p) xs st) = callsOf st" for xs
    by (rule fold_same) (rule callsOf_cacheLandmark)
  then show ?thesis
    by (simp add: addLocalKeyFrameVertex_def Let_def callsOf_addVertex)
qed

lemma callsOf_addFixedKeyFrameVertex: "callsOf (addFixedKeyFrameVertex ext p st) = callsOf st"
  by (simp add: addFixedKeyFrameVertex_def Let_def callsOf_addVertex)

lemma callsOf_addLandmarkVertex: "callsOf (addLandmarkVertex l st) = callsOf st"
  by (simp add: addLandmarkVertex_def Let_def callsOf_addVertex)

lemma callsOf_addCuboidEdge: "callsOf (addCuboidEdge ext p l st) = callsOf st"
  by (simp add: addCuboidEdge_def readLandmarkMeasurement_def Let_def callsOf_def updOpt_def
      updKF_def split: option.splits)

lemma callsOf_addMonoEdge: "callsOf (addMonoEdge ext m i p kp st) = callsOf st"
proof -
  have "callsOf (fold (addCuboidEdge ext p) xs st') = callsOf st'" for xs st'
    by (rule fold_same) (rule callsOf_addCuboidEdge)
  then show ?thesis
    by (simp add: addMonoEdge_def Let_def) (simp add: callsOf_def updOpt_def)
qed

lemma callsOf_addStereoEdge: "callsOf (addStereoEdge ext m i p kp r st) = callsOf st"
  by (simp add: addStereoEdge_def Let_def callsOf_def updOpt_def)

lemma callsOf_addObservationEdges: "callsOf (addObservationEdges ext m i ob st) = callsOf st"
  by (simp add: addObservationEdges_def Let_def callsOf_addMonoEdge callsOf_addStereoEdge)

lemma callsOf_addMapPointVertex: "callsOf (addMapPointVertex ext m st) = callsOf st"
proof -
  have "callsOf (fold (addObservationEdges ext m i) xs st') = callsOf st'" for xs st' i
    by (rule fold_same) (rule callsOf_addObservationEdges)
  then show ?thesis
    by (simp add: addMapPointVertex_def Let_def callsOf_addVertex)
qed

lemma callsOf_buildGraph: "callsOf (buildGraph ext b st) = []"
proof -
  have 1: "callsOf (fold (addLocalKeyFrameVertex ext) xs st') = callsOf st'" for xs st'
    by (rule fold_same) (rule callsOf_addLocalKeyFrameVertex)
  have 2: "callsOf (fold (addFixedKeyFrameVertex ext) xs st') = callsOf st'" for xs st'
    by (rule fold_same) (rule callsOf_addFixedKeyFrameVertex)
  have 3: "callsOf (fold addLandmarkVertex xs st') = callsOf st'" for xs st'
    by (rule fold_same) (rule callsOf_addLandmarkVertex)
  have 4: "callsOf (fold (addMapPointVertex ext) xs st') = callsOf st'" for xs st'
    by (rule fold_same) (rule callsOf_addMapPointVertex)
  show ?thesis
    by (simp add: buildGraph_def Let_def 1 2 3 4) (simp add: callsOf_def emptyOptimizer_def)
qed

lemma callsOf_prepare: "callsOf (prepare ext pKF flag s) = []"
  by (simp add: prepare_def callsOf_buildGraph)

section \<open>Stop before the first optimize\<close>

text \<open>
  C3 (as amended). When the stop flag is found set at line 258, the procedure returns
  without committing and without calling the solver: in the state it returns, every
  KeyFrame equals the one before the call in all fields but the stamps
  \<open>mnBALocalForKF\<close>, \<open>mnBAFixedForKF\<close> and the landmark-measurement cache, every
  MapPoint equals the one before the call in all fields but its stamp, and every
  Landmark is unchanged.
\<close>

theorem stop_before_optimize_commits_nothing:
  assumes "stopBeforeOptimize pbStopFlag"
  shows "uncommitted s (LocalBundleAdjustment ext pKF pbStopFlag s)
         \<and> callsOf (LocalBundleAdjustment ext pKF pbStopFlag s) = []"
  using assms
  by (simp add: LocalBundleAdjustment_def Let_def uncommitted_prepare callsOf_prepare)

theorem stop_before_optimize_commits_nothing_witness:
  "stopBeforeOptimize (Some (True, False))
   \<and> uncommitted sceneK (LocalBundleAdjustment ext0 0 (Some (True, False)) sceneK)
   \<and> callsOf (LocalBundleAdjustment ext0 0 (Some (True, False)) sceneK) = []"
proof -
  have h: "stopBeforeOptimize (Some (True, False))"
    by (simp add: stopBeforeOptimize_def)
  show ?thesis
    using h stop_before_optimize_commits_nothing [OF h, of sceneK ext0 0] by simp
qed

text \<open>
  The claim as stated fails: with the flag set before the first optimize, the trigger
  KeyFrame of the example scene leaves the call with its stamp \<open>mnBALocalForKF\<close>
  changed from 0 to 5, so the scene graph is not what it was.
\<close>

theorem stop_before_optimize_counterexample:
  "sceneOf (LocalBundleAdjustment ext0 0 (Some (True, False)) sceneK) \<noteq> sceneK"
proof
  assume "sceneOf (LocalBundleAdjustment ext0 0 (Some (True, False)) sceneK) = sceneK"
  then have "mnBALocalForKF (keyframes (sceneOf (LocalBundleAdjustment ext0 0 (Some (True, False)) sceneK)) 0)
             = mnBALocalForKF (keyframes sceneK 0)"
    by simp
  moreover have "mnBALocalForKF (keyframes (sceneOf (LocalBundleAdjustment ext0 0 (Some (True, False)) sceneK)) 0) = 5"
    by code_simp
  moreover have "mnBALocalForKF (keyframes sceneK 0) = 0"
    by code_simp
  ultimately show False by simp
qed

section \<open>Point write-back\<close>

text \<open>
  C1. The vertex of a Local MapPoint is created under the id
  \<open>point id + maxKFId + maxLandmarkId + 2\<close> (line 167) and looked up at the write-back
  under \<open>point id + maxKFId + 1\<close> (line 368). In the example scene the first point
  (id 10, with maxKFId 5 and maxLandmarkId 0) is created as vertex 17 and recovered
  as vertex 16, which is not registered: the run ends in a null dereference.
\<close>

theorem point_write_back_uses_other_id:
  "pointVertexId 5 0 (mappoints sceneK 0) = 17
   \<and> pointRecoveryId 5 (mappoints sceneK 0) = 16
   \<and> maxKFId (LocalBundleAdjustment ext0 0 None sceneK) = 5
   \<and> maxLandmarkId (LocalBundleAdjustment ext0 0 None sceneK) = 0
   \<and> vertex (optimizer (LocalBundleAdjustment ext0 0 None sceneK)) 16 = None
   \<and> fault (LocalBundleAdjustment ext0 0 None sceneK) = Some NullVertex"
  by code_simp

section \<open>What the commit leaves alone\<close>

lemma localsOf_eraseLink: "localsOf (eraseLink i st) = localsOf st"
  by (simp add: localsOf_def eraseLink_def EraseObservation_def EraseMapPointMatch_def updKF_def updMP_def)

lemma localsOf_recoverKeyFrame: "localsOf (recoverKeyFrame ext p st) = localsOf st"
  by (simp add: localsOf_def recoverKeyFrame_def updKF_def split: option.splits Vertex.splits)

lemma localsOf_recoverLandmark: "localsOf (recoverLandmark l st) = localsOf st"
  by (simp add: localsOf_def recoverLandmark_def updLM_def split: option.splits Vertex.splits)

lemma localsOf_recoverMapPoint: "localsOf (recoverMapPoint ext m st) = localsOf st"
  by (simp add: localsOf_def recoverMapPoint_def updMP_def split: option.splits Vertex.splits)

lemma localsOf_commit: "localsOf (commit ext st) = localsOf st"
proof -
  have 1: "localsOf (fold eraseLink xs st') = localsOf st'" for xs st'
    by (rule fold_same) (rule localsOf_eraseLink)
  have 2: "localsOf (fold (recoverKeyFrame ext) xs st') = localsOf st'" for xs st'
    by (rule fold_same) (rule localsOf_recoverKeyFrame)
  have 3: "localsOf (fold recoverLandmark xs st') = localsOf st'" for xs st'
    by (rule fold_same) (rule localsOf_recoverLandmark)
  have 4: "localsOf (fold (recoverMapPoint ext) xs st') = localsOf st'" for xs st'
    by (rule fold_same) (rule localsOf_recoverMapPoint)
  show ?thesis
    by (simp add: commit_def Let_def 1 2 3 4)
qed

lemma optimizer_commit: "optimizer (commit ext st) = optimizer st"
  using localsOf_commit [of ext st] by (simp add: localsOf_def)

lemma vToErase_commit: "vToErase (commit ext st) = vToErase st"
  using localsOf_commit [of ext st] by (simp add: localsOf_def)

lemma lLocalKeyFrames_commit: "lLocalKeyFrames (commit ext st) = lLocalKeyFrames st"
  using localsOf_commit [of ext st] by (simp add: localsOf_def)

lemma lFixedCameras_commit: "lFixedCameras (commit ext st) = lFixedCameras st"
  using localsOf_commit [of ext st] by (simp add: localsOf_def)

lemma optimizer_finalClassification [simp]: "optimizer (finalClassification ext st) = optimizer st"
  by (simp add: finalClassification_def)

lemma edges_optimize [simp]:
  "edgesMono (optimize ext n g) = edgesMono g"
  "edgesStereo (optimize ext n g) = edgesStereo g"
  "edgesCuboid (optimize ext n g) = edgesCuboid g"
  "optimizeCalls (optimize ext n g) = optimizeCalls g @ [n]"
  by (simp_all add: optimize_def)

section \<open>Stop after the first optimize\<close>

lemma stop_after_first_optimize_run:
  assumes "\<not> stopBeforeOptimize pbStopFlag" and "stopAfterOptimize pbStopFlag"
    and "fault (prepare ext pKF pbStopFlag s) = None"
  shows "LocalBundleAdjustment ext pKF pbStopFlag s
           = commit ext (finalClassification ext (updOpt (optimize ext 5) (prepare ext pKF pbStopFlag s)))"
    and "callsOf (LocalBundleAdjustment ext pKF pbStopFlag s) = [5]"
    and "edgesMono (optimizer (LocalBundleAdjustment ext pKF pbStopFlag s))
             = edgesMono (optimizer (prepare ext pKF pbStopFlag s))"
    and "edgesStereo (optimizer (LocalBundleAdjustment ext pKF pbStopFlag s))
             = edgesStereo (optimizer (prepare ext pKF pbStopFlag s))"
    and "vToErase (LocalBundleAdjustment ext pKF pbStopFlag s)
             = vToErase (finalClassification ext (updOpt (optimize ext 5) (prepare ext pKF pbStopFlag s)))"
proof -
  let ?P = "prepare ext pKF pbStopFlag s"
  show run: "LocalBundleAdjustment ext pKF pbStopFlag s
               = commit ext (finalClassification ext (updOpt (optimize ext 5) ?P))"
    using assms by (simp add: LocalBundleAdjustment_def solveAndCommit_def Let_def)
  have calls: "callsOf ?P = []"
    by (rule callsOf_prepare)
  show "callsOf (LocalBundleAdjustment ext pKF pbStopFlag s) = [5]"
    using calls by (simp add: run optimizer_commit callsOf_def updOpt_def)
  show "edgesMono (optimizer (LocalBundleAdjustment ext pKF pbStopFlag s)) = edgesMono (optimizer ?P)"
    by (simp add: run optimizer_commit updOpt_def)
  show "edgesStereo (optimizer (LocalBundleAdjustment ext pKF pbStopFlag s)) = edgesStereo (optimizer ?P)"
    by (simp add: run optimizer_commit updOpt_def)
  show "vToErase (LocalBundleAdjustment ext pKF pbStopFlag s)
             = vToErase (finalClassification ext (updOpt (optimize ext 5) ?P))"
    by (simp add: run vToErase_commit)
qed

text \<open>
  C7. The example run with the stop flag clear at line 258 and set at line 267, and
  a solver that moves every variable. The solver is called once, with 5 iterations;
  the marking pass is skipped (every reprojection edge is on level 0 with its Huber
  kernel); the final classification, on the estimate of that one call, queues the
  three failing links, and the commit removes them from the match tables and the
  observation sets. The pose of the Local KeyFrame K and the cuboid of the Local
  Landmark receive the estimates \<open>[105]\<close> and \<open>[205]\<close> of their vertices 5 and 6. The
  point write-back does not take place: the point vertices are 17, 18 and 19, line 368
  looks MapPoint 10 up under \<open>10 + 5 + 1 = 16\<close>, no vertex has that id, and line 369
  dereferences the null pointer; no MapPoint has received its estimate \<open>[305]\<close>.
\<close>

theorem stop_after_first_optimize_point_write_back_fails:
  "\<not> stopBeforeOptimize (Some (False, True)) \<and> stopAfterOptimize (Some (False, True))
   \<and> fault (prepare ext2 0 (Some (False, True)) sceneK) = None
   \<and> callsOf (LocalBundleAdjustment ext2 0 (Some (False, True)) sceneK) = [5]
   \<and> map e_level (edgesMono (optimizer (LocalBundleAdjustment ext2 0 (Some (False, True)) sceneK))) = [0, 0, 0]
   \<and> map s_level (edgesStereo (optimizer (LocalBundleAdjustment ext2 0 (Some (False, True)) sceneK))) = [0, 0, 0]
   \<and> map e_robustKernel (edgesMono (optimizer (LocalBundleAdjustment ext2 0 (Some (False, True)) sceneK)))
        = [Some (6282019 / 1048576), Some (6282019 / 1048576), Some (6282019 / 1048576)]
   \<and> vToErase (LocalBundleAdjustment ext2 0 (Some (False, True)) sceneK) = [(1, 0), (0, 2), (1, 2)]
   \<and> mvpMapPoints (keyframes sceneK 1) = [Some 0, Some 1, Some 2]
   \<and> mvpMapPoints (keyframes (LocalBundleAdjustment ext2 0 (Some (False, True)) sceneK) 1) = [None, Some 1, None]
   \<and> mvpMapPoints (keyframes (LocalBundleAdjustment ext2 0 (Some (False, True)) sceneK) 0) = [Some 0, Some 1, None]
   \<and> map (\<lambda>m. mObservations (mappoints (LocalBundleAdjustment ext2 0 (Some (False, True)) sceneK) m)) [0, 1, 2]
        = [[(0, 0)], [(0, 1), (1, 1)], []]
   \<and> lLocalKeyFrames (LocalBundleAdjustment ext2 0 (Some (False, True)) sceneK) = [0]
   \<and> Tcw (keyframes sceneK 0) = Mat [5]
   \<and> Tcw (keyframes (LocalBundleAdjustment ext2 0 (Some (False, True)) sceneK) 0) = Mat [105]
   \<and> lLocalLandmarks (LocalBundleAdjustment ext2 0 (Some (False, True)) sceneK) = [0]
   \<and> mCuboid (landmarks sceneK 0) = Cuboid [0]
   \<and> mCuboid (landmarks (LocalBundleAdjustment ext2 0 (Some (False, True)) sceneK) 0) = Cuboid [205]
   \<and> lLocalMapPoints (LocalBundleAdjustment ext2 0 (Some (False, True)) sceneK) = [0, 1, 2]
   \<and> map fst (vertices (optimizer (LocalBundleAdjustment ext2 0 (Some (False, True)) sceneK)))
        = [5, 2, 6, 17, 18, 19]
   \<and> pointVertexId 5 0 (mappoints sceneK 0) = 17
   \<and> pointRecoveryId 5 (mappoints sceneK 0) = 16
   \<and> vertex (optimizer (LocalBundleAdjustment ext2 0 (Some (False, True)) sceneK)) 17
        = Some (VertexSBAPointXYZ True (Vector3d [305]))
   \<and> vertex (optimizer (LocalBundleAdjustment ext2 0 (Some (False, True)) sceneK)) 16 = None
   \<and> fault (LocalBundleAdjustment ext2 0 (Some (False, True)) sceneK) = Some NullVertex
   \<and> map (\<lambda>m. mWorldPos (mappoints (LocalBundleAdjustment ext2 0 (Some (False, True)) sceneK) m)) [0, 1, 2]
        = [Mat [10], Mat [11], Mat [12]]"
  by code_simp
section \<open>The outlier-marking pass\<close>

lemma markMonoEdge_cases:
  "markMonoEdge ext st e =
     (if mp_mbBad (mappoints st (e_mp e)) then e
      else if failsMono ext (optimizer st) e then e\<lparr>e_level := 1, e_robustKernel := None\<rparr>
      else e\<lparr>e_robustKernel := None\<rparr>)"
  by (simp add: markMonoEdge_def Let_def)

lemma markStereoEdge_cases:
  "markStereoEdge ext st e =
     (if mp_mbBad (mappoints st (s_mp e)) then e
      else if failsStereo ext (optimizer st) e then e\<lparr>s_level := 1, s_robustKernel := None\<rparr>
      else e\<lparr>s_robustKernel := None\<rparr>)"
  by (simp add: markStereoEdge_def Let_def)

lemma edges_markOutliers:
  "edgesMono (optimizer (markOutliers ext st)) = map (markMonoEdge ext st) (edgesMono (optimizer st))"
  "edgesStereo (optimizer (markOutliers ext st)) = map (markStereoEdge ext st) (edgesStereo (optimizer st))"
  by (simp_all add: markOutliers_def updOpt_def)

text \<open>
  C9. After the marking pass each reprojection edge, monocular or stereo, whose
  MapPoint is not bad has no robust kernel, whether it failed the test (then it is
  also moved to level 1) or passed it (then nothing else changes); an edge whose
  MapPoint is bad is exactly as it was, with its kernel and its level.
\<close>

theorem marking_pass_drops_kernel_unless_point_bad:
  "(\<forall>i < length (edgesMono (optimizer st)).
      (let e = edgesMono (optimizer st) ! i; e' = edgesMono (optimizer (markOutliers ext st)) ! i
       in if mp_mbBad (mappoints st (e_mp e)) then e' = e
          else e_robustKernel e' = None
               \<and> e' = (if failsMono ext (optimizer st) e then e\<lparr>e_level := 1, e_robustKernel := None\<rparr>
                       else e\<lparr>e_robustKernel := None\<rparr>)))
   \<and> (\<forall>i < length (edgesStereo (optimizer st)).
      (let e = edgesStereo (optimizer st) ! i; e' = edgesStereo (optimizer (markOutliers ext st)) ! i
       in if mp_mbBad (mappoints st (s_mp e)) then e' = e
          else s_robustKernel e' = None
               \<and> e' = (if failsStereo ext (optimizer st) e then e\<lparr>s_level := 1, s_robustKernel := None\<rparr>
                       else e\<lparr>s_robustKernel := None\<rparr>)))
   \<and> length (edgesMono (optimizer (markOutliers ext st))) = length (edgesMono (optimizer st))
   \<and> length (edgesStereo (optimizer (markOutliers ext st))) = length (edgesStereo (optimizer st))"
  by (simp add: edges_markOutliers Let_def markMonoEdge_cases markStereoEdge_cases)

text \<open>
  In the example, once MapPoint 11 is flagged bad, its edges (the third monocular
  edge and the first stereo edge) keep their Huber kernel through the pass, while the
  first monocular edge, an inlier, loses it and stays on level 0, and the second, an
  outlier, loses it and moves to level 1.
\<close>

theorem marking_pass_drops_kernel_unless_point_bad_witness:
  "map e_robustKernel (edgesMono (optimizer stateK5bad)) = [Some (6282019 / 1048576), Some (6282019 / 1048576), Some (6282019 / 1048576)]
   \<and> map (\<lambda>e. mp_mbBad (mappoints stateK5bad (e_mp e))) (edgesMono (optimizer stateK5bad)) = [False, False, True]
   \<and> map (failsMono ext0 (optimizer stateK5bad)) (edgesMono (optimizer stateK5bad)) = [False, True, False]
   \<and> e_robustKernel (edgesMono (optimizer (markOutliers ext0 stateK5bad)) ! 0) = None
   \<and> e_level (edgesMono (optimizer (markOutliers ext0 stateK5bad)) ! 0) = 0
   \<and> e_robustKernel (edgesMono (optimizer (markOutliers ext0 stateK5bad)) ! 1) = None
   \<and> e_level (edgesMono (optimizer (markOutliers ext0 stateK5bad)) ! 1) = 1
   \<and> edgesMono (optimizer (markOutliers ext0 stateK5bad)) ! 2 = edgesMono (optimizer stateK5bad) ! 2
   \<and> edgesStereo (optimizer (markOutliers ext0 stateK5bad)) ! 0 = edgesStereo (optimizer stateK5bad) ! 0"
proof -
  note pass = marking_pass_drops_kernel_unless_point_bad [of stateK5bad ext0]
  have n: "length (edgesMono (optimizer stateK5bad)) = 3" "length (edgesStereo (optimizer stateK5bad)) = 3"
    by code_simp+
  have k: "map e_robustKernel (edgesMono (optimizer stateK5bad)) = [Some (6282019 / 1048576), Some (6282019 / 1048576), Some (6282019 / 1048576)]"
    by code_simp
  have b: "map (\<lambda>e. mp_mbBad (mappoints stateK5bad (e_mp e))) (edgesMono (optimizer stateK5bad)) = [False, False, True]"
    by code_simp
  have f: "map (failsMono ext0 (optimizer stateK5bad)) (edgesMono (optimizer stateK5bad)) = [False, True, False]"
    by code_simp
  have sb: "mp_mbBad (mappoints stateK5bad (s_mp (edgesStereo (optimizer stateK5bad) ! 0)))"
    by code_simp
  have b0: "\<not> mp_mbBad (mappoints stateK5bad (e_mp (edgesMono (optimizer stateK5bad) ! 0)))"
    and b1: "\<not> mp_mbBad (mappoints stateK5bad (e_mp (edgesMono (optimizer stateK5bad) ! 1)))"
    and b2: "mp_mbBad (mappoints stateK5bad (e_mp (edgesMono (optimizer stateK5bad) ! 2)))"
    and f0: "\<not> failsMono ext0 (optimizer stateK5bad) (edgesMono (optimizer stateK5bad) ! 0)"
    and f1: "failsMono ext0 (optimizer stateK5bad) (edgesMono (optimizer stateK5bad) ! 1)"
    and l0: "e_level (edgesMono (optimizer stateK5bad) ! 0) = 0"
    by code_simp+
  from pass n have m0: "(let e = edgesMono (optimizer stateK5bad) ! 0; e' = edgesMono (optimizer (markOutliers ext0 stateK5bad)) ! 0
       in if mp_mbBad (mappoints stateK5bad (e_mp e)) then e' = e
          else e_robustKernel e' = None
               \<and> e' = (if failsMono ext0 (optimizer stateK5bad) e then e\<lparr>e_level := 1, e_robustKernel := None\<rparr>
                       else e\<lparr>e_robustKernel := None\<rparr>))"
    by simp
  from pass n have m1: "(let e = edgesMono (optimizer stateK5bad) ! 1; e' = edgesMono (optimizer (markOutliers ext0 stateK5bad)) ! 1
       in if mp_mbBad (mappoints stateK5bad (e_mp e)) then e' = e
          else e_robustKernel e' = None
               \<and> e' = (if failsMono ext0 (optimizer stateK5bad) e then e\<lparr>e_level := 1, e_robustKernel := None\<rparr>
                       else e\<lparr>e_robustKernel := None\<rparr>))"
    by simp
  from pass n have m2: "(let e = edgesMono (optimizer stateK5bad) ! 2; e' = edgesMono (optimizer (markOutliers ext0 stateK5bad)) ! 2
       in if mp_mbBad (mappoints stateK5bad (e_mp e)) then e' = e
          else e_robustKernel e' = None
               \<and> e' = (if failsMono ext0 (optimizer stateK5bad) e then e\<lparr>e_level := 1, e_robustKernel := None\<rparr>
                       else e\<lparr>e_robustKernel := None\<rparr>))"
    by simp
  from pass n have s0: "(let e = edgesStereo (optimizer stateK5bad) ! 0; e' = edgesStereo (optimizer (markOutliers ext0 stateK5bad)) ! 0
       in if mp_mbBad (mappoints stateK5bad (s_mp e)) then e' = e
          else s_robustKernel e' = None
               \<and> e' = (if failsStereo ext0 (optimizer stateK5bad) e then e\<lparr>s_level := 1, s_robustKernel := None\<rparr>
                       else e\<lparr>s_robustKernel := None\<rparr>))"
    by simp
  show ?thesis
    using m0 m1 m2 s0 b0 b1 b2 f0 f1 l0 sb k b f by (simp add: Let_def)
qed

section \<open>The MapPoints of the reprojection edges\<close>

lemma localPointsAlive_enter: "localPointsAlive (enter s)"
  by (simp add: localPointsAlive_def enter_def)

lemma localPointsAlive_addNeighbour: "localPointsAlive st \<Longrightarrow> localPointsAlive (addNeighbour kid p st)"
  by (simp add: localPointsAlive_def addNeighbour_def updKF_def Let_def)

lemma localPointsAlive_selectLocalKeyFrames:
  "localPointsAlive st \<Longrightarrow> localPointsAlive (selectLocalKeyFrames pKF st)"
  unfolding selectLocalKeyFrames_def Let_def
  by (rule fold_inv) (simp_all add: localPointsAlive_addNeighbour, simp add: localPointsAlive_def updKF_def)

lemma localPointsAlive_addLocalMapPoint:
  "localPointsAlive st \<Longrightarrow> localPointsAlive (addLocalMapPoint kid x st)"
  by (auto simp add: localPointsAlive_def addLocalMapPoint_def updMP_def split: option.splits)

lemma localPointsAlive_localMapPointsOf:
  "localPointsAlive st \<Longrightarrow> localPointsAlive (localMapPointsOf kid p st)"
  unfolding localMapPointsOf_def by (rule fold_inv) (simp_all add: localPointsAlive_addLocalMapPoint)

lemma localPointsAlive_selectLocalMapPoints:
  "localPointsAlive st \<Longrightarrow> localPointsAlive (selectLocalMapPoints kid st)"
  unfolding selectLocalMapPoints_def by (rule fold_inv) (simp_all add: localPointsAlive_localMapPointsOf)

lemma localPointsAlive_addFixedCamera:
  "localPointsAlive st \<Longrightarrow> localPointsAlive (addFixedCamera kid ob st)"
  by (simp add: localPointsAlive_def addFixedCamera_def updKF_def Let_def)

lemma localPointsAlive_fixedCamerasOf:
  "localPointsAlive st \<Longrightarrow> localPointsAlive (fixedCamerasOf kid p st)"
  unfolding fixedCamerasOf_def by (rule fold_inv) (simp_all add: localPointsAlive_addFixedCamera)

lemma localPointsAlive_selectFixedCameras:
  "localPointsAlive st \<Longrightarrow> localPointsAlive (selectFixedCameras kid st)"
  unfolding selectFixedCameras_def by (rule fold_inv) (simp_all add: localPointsAlive_fixedCamerasOf)

lemma localPointsAlive_selectWindow: "localPointsAlive (selectWindow pKF (enter s))"
  by (simp add: selectWindow_def Let_def localPointsAlive_selectFixedCameras
      localPointsAlive_selectLocalMapPoints localPointsAlive_selectLocalKeyFrames localPointsAlive_enter)

lemma localPointsAlive_selectionOf:
  "selectionOf st' = selectionOf st \<Longrightarrow> localPointsAlive st' = localPointsAlive st"
  by (simp add: selectionOf_def localPointsAlive_def)

lemma localPointsAlive_prepare: "localPointsAlive (prepare ext pKF flag s)"
  by (simp add: prepare_def localPointsAlive_selectionOf [OF selectionOf_buildGraph]
      localPointsAlive_selectWindow)

lemma edgePointsIn_reprojOf:
  "reprojOf st' = reprojOf st \<Longrightarrow> edgePointsIn M st' = edgePointsIn M st"
  by (simp add: reprojOf_def edgePointsIn_def)

lemma reprojOf_cacheLandmark: "reprojOf (cacheLandmark ext p l st) = reprojOf st"
  by (simp add: reprojOf_def cacheLandmark_def updKF_def Let_def)

lemma reprojOf_addVertex: "reprojOf (updOpt (addVertex i v) st) = reprojOf st"
  by (simp add: reprojOf_def updOpt_def addVertex_def)

lemma reprojOf_max [simp]:
  "reprojOf (st\<lparr>maxKFId := a\<rparr>) = reprojOf st"
  "reprojOf (st\<lparr>maxLandmarkId := b\<rparr>) = reprojOf st"
  "reprojOf (st\<lparr>fault := c\<rparr>) = reprojOf st"
  by (simp_all add: reprojOf_def)

lemma reprojOf_addLocalKeyFrameVertex: "reprojOf (addLocalKeyFrameVertex ext p st) = reprojOf st"
proof -
  have "reprojOf (fold (cacheLandmark ext p) xs st) = reprojOf st" for xs
    by (rule fold_same) (rule reprojOf_cacheLandmark)
  then show ?thesis
    by (simp add: addLocalKeyFrameVertex_def Let_def reprojOf_addVertex)
qed

lemma reprojOf_addFixedKeyFrameVertex: "reprojOf (addFixedKeyFrameVertex ext p st) = reprojOf st"
  by (simp add: addFixedKeyFrameVertex_def Let_def reprojOf_addVertex)

lemma reprojOf_addLandmarkVertex: "reprojOf (addLandmarkVertex l st) = reprojOf st"
  by (simp add: addLandmarkVertex_def Let_def reprojOf_addVertex)

lemma reprojOf_addCuboidEdge: "reprojOf (addCuboidEdge ext p l st) = reprojOf st"
  by (simp add: addCuboidEdge_def readLandmarkMeasurement_def Let_def reprojOf_def updOpt_def
      updKF_def split: option.splits)

lemma reprojOf_fold_addCuboidEdge: "reprojOf (fold (addCuboidEdge ext p) xs st) = reprojOf st"
  by (rule fold_same) (rule reprojOf_addCuboidEdge)

lemma edgePointsIn_addMonoEdge:
  "m \<in> M \<Longrightarrow> edgePointsIn M st \<Longrightarrow> edgePointsIn M (addMonoEdge ext m i p kp st)"
  unfolding addMonoEdge_def Let_def
  by (subst edgePointsIn_reprojOf [OF reprojOf_fold_addCuboidEdge])
     (auto simp add: edgePointsIn_def updOpt_def)

lemma edgePointsIn_addStereoEdge:
  "m \<in> M \<Longrightarrow> edgePointsIn M st \<Longrightarrow> edgePointsIn M (addStereoEdge ext m i p kp r st)"
  by (auto simp add: addStereoEdge_def Let_def edgePointsIn_def updOpt_def)

lemma edgePointsIn_fault [simp]: "edgePointsIn M (st\<lparr>fault := c\<rparr>) = edgePointsIn M st"
  by (simp add: edgePointsIn_def)

lemma edgePointsIn_addObservationEdges:
  "m \<in> M \<Longrightarrow> edgePointsIn M st \<Longrightarrow> edgePointsIn M (addObservationEdges ext m i ob st)"
  by (simp add: addObservationEdges_def Let_def edgePointsIn_addMonoEdge edgePointsIn_addStereoEdge)

lemma edgePointsIn_addMapPointVertex:
  assumes "m \<in> M" and "edgePointsIn M st"
  shows "edgePointsIn M (addMapPointVertex ext m st)"
proof -
  have "edgePointsIn M (fold (addObservationEdges ext m i) xs (updOpt (addVertex i v) st))" for i xs v
    by (rule fold_inv)
       (simp_all add: assms edgePointsIn_addObservationEdges edgePointsIn_reprojOf [OF reprojOf_addVertex])
  then show ?thesis
    by (simp add: addMapPointVertex_def Let_def assms)
qed

lemma lLocalMapPoints_selectionOf:
  "selectionOf st' = selectionOf st \<Longrightarrow> lLocalMapPoints st' = lLocalMapPoints st"
  by (simp add: selectionOf_def)

lemma mappoints_selectionOf:
  "selectionOf st' = selectionOf st \<Longrightarrow> mappoints st' = mappoints st"
  by (simp add: selectionOf_def)

lemma edgePointsIn_buildGraph: "edgePointsIn (set (lLocalMapPoints st)) (buildGraph ext b st)"
proof -
  define M where "M = set (lLocalMapPoints st)"
  define st1 where "st1 = st\<lparr>optimizer := emptyOptimizer\<lparr>forceStopFlag := b\<rparr>, maxKFId := 0, maxLandmarkId := 0\<rparr>"
  define st2 where "st2 = fold (addLocalKeyFrameVertex ext) (lLocalKeyFrames st1) st1"
  define st3 where "st3 = fold (addFixedKeyFrameVertex ext) (lFixedCameras st2) st2"
  define st4 where "st4 = fold addLandmarkVertex (lLocalLandmarks st3) st3"
  have 1: "edgePointsIn M st1"
    by (simp add: st1_def edgePointsIn_def emptyOptimizer_def)
  have 2: "edgePointsIn M st2" unfolding st2_def
    by (rule fold_inv) (simp_all add: 1 edgePointsIn_reprojOf [OF reprojOf_addLocalKeyFrameVertex])
  have 3: "edgePointsIn M st3" unfolding st3_def
    by (rule fold_inv) (simp_all add: 2 edgePointsIn_reprojOf [OF reprojOf_addFixedKeyFrameVertex])
  have 4: "edgePointsIn M st4" unfolding st4_def
    by (rule fold_inv) (simp_all add: 3 edgePointsIn_reprojOf [OF reprojOf_addLandmarkVertex])
  have s2: "selectionOf st2 = selectionOf st1" unfolding st2_def
    by (rule fold_same) (rule selectionOf_addLocalKeyFrameVertex)
  have s3: "selectionOf st3 = selectionOf st2" unfolding st3_def
    by (rule fold_same) (rule selectionOf_addFixedKeyFrameVertex)
  have s4: "selectionOf st4 = selectionOf st3" unfolding st4_def
    by (rule fold_same) (rule selectionOf_addLandmarkVertex)
  have "selectionOf st1 = selectionOf st"
    by (simp add: st1_def selectionOf_def)
  with s2 s3 s4 have "selectionOf st4 = selectionOf st" by simp
  then have "lLocalMapPoints st4 = lLocalMapPoints st"
    by (rule lLocalMapPoints_selectionOf)
  then have pts: "set (lLocalMapPoints st4) = M"
    by (simp add: M_def)
  have "edgePointsIn M (fold (addMapPointVertex ext) (lLocalMapPoints st4) st4)"
    by (rule fold_inv) (simp_all add: 4 pts edgePointsIn_addMapPointVertex)
  then show ?thesis
    by (simp add: buildGraph_def Let_def st1_def st2_def st3_def st4_def M_def)
qed

lemma edgePointsAlive_prepare: "edgePointsAlive (prepare ext pKF flag s)"
proof -
  let ?W = "selectWindow pKF (enter s)"
  let ?P = "prepare ext pKF flag s"
  have sel: "selectionOf ?P = selectionOf ?W"
    by (simp add: prepare_def selectionOf_buildGraph)
  have "edgePointsIn (set (lLocalMapPoints ?W)) ?P"
    by (simp add: prepare_def edgePointsIn_buildGraph)
  then have "edgePointsIn (set (lLocalMapPoints ?P)) ?P"
    by (simp add: lLocalMapPoints_selectionOf [OF sel])
  moreover have "localPointsAlive ?P"
    by (rule localPointsAlive_prepare)
  ultimately show ?thesis
    by (auto simp add: edgePointsAlive_def edgePointsIn_def localPointsAlive_def)
qed

section \<open>The threshold test\<close>

lemma edgePointsAlive_optimize:
  "edgePointsAlive st \<Longrightarrow> edgePointsAlive (updOpt (optimize ext n) st)"
  by (simp add: edgePointsAlive_def updOpt_def)

lemma edgePointsAlive_markOutliers:
  "edgePointsAlive st \<Longrightarrow> edgePointsAlive (markOutliers ext st)"
  by (auto simp add: edgePointsAlive_def markOutliers_def updOpt_def markMonoEdge_cases
      markStereoEdge_cases)

lemma concat_map_if: "concat (map (\<lambda>e. if c e then [f e] else []) es) = map f (filter c es)"
  by (induction es) simp_all

lemma markOutliers_alive:
  assumes "edgePointsAlive st"
  shows "edgesMono (optimizer (markOutliers ext st))
           = map (\<lambda>e. if failsMono ext (optimizer st) e then e\<lparr>e_level := 1, e_robustKernel := None\<rparr>
                       else e\<lparr>e_robustKernel := None\<rparr>) (edgesMono (optimizer st))"
    and "edgesStereo (optimizer (markOutliers ext st))
           = map (\<lambda>e. if failsStereo ext (optimizer st) e then e\<lparr>s_level := 1, s_robustKernel := None\<rparr>
                       else e\<lparr>s_robustKernel := None\<rparr>) (edgesStereo (optimizer st))"
  using assms
  by (simp_all add: edges_markOutliers edgePointsAlive_def markMonoEdge_cases markStereoEdge_cases)

lemma finalClassification_alive:
  assumes "edgePointsAlive st"
  shows "vToErase (finalClassification ext st)
           = map (\<lambda>e. (e_kf e, e_mp e)) (filter (failsMono ext (optimizer st)) (edgesMono (optimizer st)))
             @ map (\<lambda>e. (s_kf e, s_mp e)) (filter (failsStereo ext (optimizer st)) (edgesStereo (optimizer st)))"
proof -
  have m: "map (classifyMonoEdge ext st) (edgesMono (optimizer st))
             = map (\<lambda>e. if failsMono ext (optimizer st) e then [(e_kf e, e_mp e)] else []) (edgesMono (optimizer st))"
    using assms by (simp add: edgePointsAlive_def classifyMonoEdge_def)
  have s: "map (classifyStereoEdge ext st) (edgesStereo (optimizer st))
             = map (\<lambda>e. if failsStereo ext (optimizer st) e then [(s_kf e, s_mp e)] else []) (edgesStereo (optimizer st))"
    using assms by (simp add: edgePointsAlive_def classifyStereoEdge_def)
  show ?thesis
    by (simp add: finalClassification_def m s concat_map_if)
qed

lemma vToErase_LocalBundleAdjustment:
  assumes "fault (prepare ext pKF pbStopFlag s) = None" and "\<not> stopBeforeOptimize pbStopFlag"
  shows "vToErase (LocalBundleAdjustment ext pKF pbStopFlag s)
           = vToErase (finalClassification ext
               (if stopAfterOptimize pbStopFlag
                then updOpt (optimize ext 5) (prepare ext pKF pbStopFlag s)
                else updOpt (optimize ext 10)
                       (markOutliers ext (updOpt (optimize ext 5) (prepare ext pKF pbStopFlag s)))))"
  using assms
  by (simp add: LocalBundleAdjustment_def solveAndCommit_def Let_def vToErase_commit)

lemma thresholds_near:
  "chi2ThresholdMono < 5.991" "5.991 < chi2ThresholdMono + 1 / 10 ^ 15"
  "7.815 < chi2ThresholdStereo" "chi2ThresholdStereo < 7.815 + 1 / 10 ^ 15"
  by (simp_all add: chi2ThresholdMono_def chi2ThresholdStereo_def)

text \<open>
  C5 (as amended). In the marking pass and in the final classification, on every
  state, an edge whose MapPoint is flagged bad is skipped: it is left as it is and
  queues nothing. An edge of a MapPoint that is not bad is an inlier (its level is
  kept, nothing is queued) when its chi-square is at most the threshold and its depth
  is positive, and an outlier (moved to level 1 by the marking pass, its link queued
  by the final classification) when its chi-square is strictly above the threshold:
  the test is a strict \<open>>\<close>. The threshold is the value of the \<^verbatim>\<open>double\<close> literal: for
  monocular edges the double just below 5.991, for stereo edges the double just above
  7.815. The passes apply this to every edge, and the links a run removes are those
  queued on the graph of the last optimize.
\<close>

theorem threshold_test_is_strict:
  "(mp_mbBad (mappoints st (e_mp e))
      \<longrightarrow> markMonoEdge ext st e = e \<and> classifyMonoEdge ext st e = [])
   \<and> (\<not> mp_mbBad (mappoints st (e_mp e)) \<and> chi2Mono ext (optimizer st) e \<le> chi2ThresholdMono
        \<and> isDepthPositiveMono ext (optimizer st) e
      \<longrightarrow> e_level (markMonoEdge ext st e) = e_level e \<and> classifyMonoEdge ext st e = [])
   \<and> (\<not> mp_mbBad (mappoints st (e_mp e)) \<and> chi2Mono ext (optimizer st) e > chi2ThresholdMono
      \<longrightarrow> e_level (markMonoEdge ext st e) = 1 \<and> classifyMonoEdge ext st e = [(e_kf e, e_mp e)])
   \<and> (mp_mbBad (mappoints st (s_mp d))
      \<longrightarrow> markStereoEdge ext st d = d \<and> classifyStereoEdge ext st d = [])
   \<and> (\<not> mp_mbBad (mappoints st (s_mp d)) \<and> chi2Stereo ext (optimizer st) d \<le> chi2ThresholdStereo
        \<and> isDepthPositiveStereo ext (optimizer st) d
      \<longrightarrow> s_level (markStereoEdge ext st d) = s_level d \<and> classifyStereoEdge ext st d = [])
   \<and> (\<not> mp_mbBad (mappoints st (s_mp d)) \<and> chi2Stereo ext (optimizer st) d > chi2ThresholdStereo
      \<longrightarrow> s_level (markStereoEdge ext st d) = 1 \<and> classifyStereoEdge ext st d = [(s_kf d, s_mp d)])
   \<and> edgesMono (optimizer (markOutliers ext st)) = map (markMonoEdge ext st) (edgesMono (optimizer st))
   \<and> edgesStereo (optimizer (markOutliers ext st)) = map (markStereoEdge ext st) (edgesStereo (optimizer st))
   \<and> vToErase (finalClassification ext st)
        = concat (map (classifyMonoEdge ext st) (edgesMono (optimizer st)))
          @ concat (map (classifyStereoEdge ext st) (edgesStereo (optimizer st)))
   \<and> (fault (prepare ext pKF pbStopFlag s) = None \<and> \<not> stopBeforeOptimize pbStopFlag
        \<longrightarrow> vToErase (LocalBundleAdjustment ext pKF pbStopFlag s)
              = vToErase (finalClassification ext
                  (if stopAfterOptimize pbStopFlag
                   then updOpt (optimize ext 5) (prepare ext pKF pbStopFlag s)
                   else updOpt (optimize ext 10)
                          (markOutliers ext (updOpt (optimize ext 5) (prepare ext pKF pbStopFlag s))))))
   \<and> chi2ThresholdMono < 5.991 \<and> 5.991 < chi2ThresholdMono + 1 / 10 ^ 15
   \<and> 7.815 < chi2ThresholdStereo \<and> chi2ThresholdStereo < 7.815 + 1 / 10 ^ 15"
proof -
  have mono: "(mp_mbBad (mappoints st (e_mp e))
      \<longrightarrow> markMonoEdge ext st e = e \<and> classifyMonoEdge ext st e = [])
   \<and> (\<not> mp_mbBad (mappoints st (e_mp e)) \<and> chi2Mono ext (optimizer st) e \<le> chi2ThresholdMono
        \<and> isDepthPositiveMono ext (optimizer st) e
      \<longrightarrow> e_level (markMonoEdge ext st e) = e_level e \<and> classifyMonoEdge ext st e = [])
   \<and> (\<not> mp_mbBad (mappoints st (e_mp e)) \<and> chi2Mono ext (optimizer st) e > chi2ThresholdMono
      \<longrightarrow> e_level (markMonoEdge ext st e) = 1 \<and> classifyMonoEdge ext st e = [(e_kf e, e_mp e)])"
    by (simp add: markMonoEdge_cases classifyMonoEdge_def failsMono_def)
  have stereo: "(mp_mbBad (mappoints st (s_mp d))
      \<longrightarrow> markStereoEdge ext st d = d \<and> classifyStereoEdge ext st d = [])
   \<and> (\<not> mp_mbBad (mappoints st (s_mp d)) \<and> chi2Stereo ext (optimizer st) d \<le> chi2ThresholdStereo
        \<and> isDepthPositiveStereo ext (optimizer st) d
      \<longrightarrow> s_level (markStereoEdge ext st d) = s_level d \<and> classifyStereoEdge ext st d = [])
   \<and> (\<not> mp_mbBad (mappoints st (s_mp d)) \<and> chi2Stereo ext (optimizer st) d > chi2ThresholdStereo
      \<longrightarrow> s_level (markStereoEdge ext st d) = 1 \<and> classifyStereoEdge ext st d = [(s_kf d, s_mp d)])"
    by (simp add: markStereoEdge_cases classifyStereoEdge_def failsStereo_def)
  have passes: "edgesMono (optimizer (markOutliers ext st)) = map (markMonoEdge ext st) (edgesMono (optimizer st))
   \<and> edgesStereo (optimizer (markOutliers ext st)) = map (markStereoEdge ext st) (edgesStereo (optimizer st))
   \<and> vToErase (finalClassification ext st)
        = concat (map (classifyMonoEdge ext st) (edgesMono (optimizer st)))
          @ concat (map (classifyStereoEdge ext st) (edgesStereo (optimizer st)))"
    by (simp add: edges_markOutliers finalClassification_def)
  have run: "fault (prepare ext pKF pbStopFlag s) = None \<and> \<not> stopBeforeOptimize pbStopFlag
        \<longrightarrow> vToErase (LocalBundleAdjustment ext pKF pbStopFlag s)
              = vToErase (finalClassification ext
                  (if stopAfterOptimize pbStopFlag
                   then updOpt (optimize ext 5) (prepare ext pKF pbStopFlag s)
                   else updOpt (optimize ext 10)
                          (markOutliers ext (updOpt (optimize ext 5) (prepare ext pKF pbStopFlag s)))))"
    using vToErase_LocalBundleAdjustment [of ext pKF pbStopFlag s] by blast
  show ?thesis
    using mono stereo passes run thresholds_near by blast
qed

text \<open>
  In the example run the chi-square of an edge is the first coordinate of its
  keypoint. After the first optimize the third monocular edge has chi-square equal to
  the threshold and is an inlier, the second has 6 and is an outlier; the first stereo
  edge has chi-square equal to the stereo threshold and is an inlier, the second has
  9 and is an outlier. Once MapPoint 11 is flagged bad its two edges are skipped.
\<close>

theorem threshold_test_is_strict_witness:
  "chi2Mono ext0 (optimizer stateK5) (edgesMono (optimizer stateK5) ! 2) = chi2ThresholdMono
   \<and> e_level (markMonoEdge ext0 stateK5 (edgesMono (optimizer stateK5) ! 2)) = 0
   \<and> classifyMonoEdge ext0 stateK5 (edgesMono (optimizer stateK5) ! 2) = []
   \<and> chi2Mono ext0 (optimizer stateK5) (edgesMono (optimizer stateK5) ! 1) = 6
   \<and> e_level (markMonoEdge ext0 stateK5 (edgesMono (optimizer stateK5) ! 1)) = 1
   \<and> classifyMonoEdge ext0 stateK5 (edgesMono (optimizer stateK5) ! 1) = [(1, 0)]
   \<and> chi2Stereo ext0 (optimizer stateK5) (edgesStereo (optimizer stateK5) ! 0) = chi2ThresholdStereo
   \<and> s_level (markStereoEdge ext0 stateK5 (edgesStereo (optimizer stateK5) ! 0)) = 0
   \<and> classifyStereoEdge ext0 stateK5 (edgesStereo (optimizer stateK5) ! 0) = []
   \<and> chi2Stereo ext0 (optimizer stateK5) (edgesStereo (optimizer stateK5) ! 1) = 9
   \<and> s_level (markStereoEdge ext0 stateK5 (edgesStereo (optimizer stateK5) ! 1)) = 1
   \<and> classifyStereoEdge ext0 stateK5 (edgesStereo (optimizer stateK5) ! 1) = [(0, 2)]
   \<and> markMonoEdge ext0 stateK5bad (edgesMono (optimizer stateK5bad) ! 2) = edgesMono (optimizer stateK5bad) ! 2
   \<and> classifyStereoEdge ext0 stateK5bad (edgesStereo (optimizer stateK5bad) ! 0) = []
   \<and> map e_level (edgesMono (optimizer (markOutliers ext0 stateK5))) = [0, 1, 0]
   \<and> map s_level (edgesStereo (optimizer (markOutliers ext0 stateK5))) = [0, 1, 1]
   \<and> vToErase (LocalBundleAdjustment ext0 0 None sceneK) = [(1, 0), (0, 2), (1, 2)]"
proof -
  note T2 = threshold_test_is_strict
    [of stateK5 "edgesMono (optimizer stateK5) ! 2" ext0 "edgesStereo (optimizer stateK5) ! 0" 0 None sceneK]
  note T1 = threshold_test_is_strict
    [of stateK5 "edgesMono (optimizer stateK5) ! 1" ext0 "edgesStereo (optimizer stateK5) ! 1" 0 None sceneK]
  note Tb = threshold_test_is_strict
    [of stateK5bad "edgesMono (optimizer stateK5bad) ! 2" ext0 "edgesStereo (optimizer stateK5bad) ! 0" 0 None sceneK]
  have c2: "chi2Mono ext0 (optimizer stateK5) (edgesMono (optimizer stateK5) ! 2) = chi2ThresholdMono"
    and d2: "isDepthPositiveMono ext0 (optimizer stateK5) (edgesMono (optimizer stateK5) ! 2)"
    and b2: "\<not> mp_mbBad (mappoints stateK5 (e_mp (edgesMono (optimizer stateK5) ! 2)))"
    and l2: "e_level (edgesMono (optimizer stateK5) ! 2) = 0"
    and c1: "chi2Mono ext0 (optimizer stateK5) (edgesMono (optimizer stateK5) ! 1) = 6"
    and b1: "\<not> mp_mbBad (mappoints stateK5 (e_mp (edgesMono (optimizer stateK5) ! 1)))"
    and k1: "e_kf (edgesMono (optimizer stateK5) ! 1) = 1" "e_mp (edgesMono (optimizer stateK5) ! 1) = 0"
    and sc0: "chi2Stereo ext0 (optimizer stateK5) (edgesStereo (optimizer stateK5) ! 0) = chi2ThresholdStereo"
    and sd0: "isDepthPositiveStereo ext0 (optimizer stateK5) (edgesStereo (optimizer stateK5) ! 0)"
    and sb0: "\<not> mp_mbBad (mappoints stateK5 (s_mp (edgesStereo (optimizer stateK5) ! 0)))"
    and sl0: "s_level (edgesStereo (optimizer stateK5) ! 0) = 0"
    and sc1: "chi2Stereo ext0 (optimizer stateK5) (edgesStereo (optimizer stateK5) ! 1) = 9"
    and sb1: "\<not> mp_mbBad (mappoints stateK5 (s_mp (edgesStereo (optimizer stateK5) ! 1)))"
    and sk1: "s_kf (edgesStereo (optimizer stateK5) ! 1) = 0" "s_mp (edgesStereo (optimizer stateK5) ! 1) = 2"
    and bb: "mp_mbBad (mappoints stateK5bad (e_mp (edgesMono (optimizer stateK5bad) ! 2)))"
    and sbb: "mp_mbBad (mappoints stateK5bad (s_mp (edgesStereo (optimizer stateK5bad) ! 0)))"
    by code_simp+
  have g1: "chi2Mono ext0 (optimizer stateK5) (edgesMono (optimizer stateK5) ! 1) > chi2ThresholdMono"
    unfolding c1 by (simp add: chi2ThresholdMono_def)
  have sg1: "chi2Stereo ext0 (optimizer stateK5) (edgesStereo (optimizer stateK5) ! 1) > chi2ThresholdStereo"
    unfolding sc1 by (simp add: chi2ThresholdStereo_def)
  have m2: "e_level (markMonoEdge ext0 stateK5 (edgesMono (optimizer stateK5) ! 2)) = 0
            \<and> classifyMonoEdge ext0 stateK5 (edgesMono (optimizer stateK5) ! 2) = []"
    using T2 c2 d2 b2 l2 by simp
  have m1: "e_level (markMonoEdge ext0 stateK5 (edgesMono (optimizer stateK5) ! 1)) = 1
            \<and> classifyMonoEdge ext0 stateK5 (edgesMono (optimizer stateK5) ! 1) = [(1, 0)]"
    using T1 g1 b1 k1 by simp
  have s0: "s_level (markStereoEdge ext0 stateK5 (edgesStereo (optimizer stateK5) ! 0)) = 0
            \<and> classifyStereoEdge ext0 stateK5 (edgesStereo (optimizer stateK5) ! 0) = []"
    using T2 sc0 sd0 sb0 sl0 by simp
  have s1: "s_level (markStereoEdge ext0 stateK5 (edgesStereo (optimizer stateK5) ! 1)) = 1
            \<and> classifyStereoEdge ext0 stateK5 (edgesStereo (optimizer stateK5) ! 1) = [(0, 2)]"
    using T1 sg1 sb1 sk1 by simp
  have bad: "markMonoEdge ext0 stateK5bad (edgesMono (optimizer stateK5bad) ! 2) = edgesMono (optimizer stateK5bad) ! 2
             \<and> classifyStereoEdge ext0 stateK5bad (edgesStereo (optimizer stateK5bad) ! 0) = []"
    using Tb bb sbb by simp
  have lv: "map e_level (edgesMono (optimizer (markOutliers ext0 stateK5))) = [0, 1, 0]"
    and sl: "map s_level (edgesStereo (optimizer (markOutliers ext0 stateK5))) = [0, 1, 1]"
    and er: "vToErase (LocalBundleAdjustment ext0 0 None sceneK) = [(1, 0), (0, 2), (1, 2)]"
    by code_simp+
  show ?thesis
    using c2 c1 sc0 sc1 m2 m1 s0 s1 bad lv sl er by simp
qed

text \<open>
  The claim as stated fails in two places. The first stereo edge of the example has
  the chi-square \<open>8798907771975107 / 2\<^sup>5\<^sup>0\<close>, which is strictly greater than 7.815, with
  positive depth and a MapPoint that is not bad, and it is an inlier in both passes
  and in the run: the literal \<^verbatim>\<open>7.815\<close> of lines 294 and 332 is that double. And once
  MapPoint 10 is flagged bad, the guards of lines 277 and 316 skip its second edge,
  of chi-square 6: it is neither moved to level 1 nor queued.
\<close>

theorem threshold_test_counterexample:
  "7.815 < chi2Stereo ext0 (optimizer stateK5) (edgesStereo (optimizer stateK5) ! 0)
   \<and> isDepthPositiveStereo ext0 (optimizer stateK5) (edgesStereo (optimizer stateK5) ! 0)
   \<and> \<not> mp_mbBad (mappoints stateK5 (s_mp (edgesStereo (optimizer stateK5) ! 0)))
   \<and> s_kf (edgesStereo (optimizer stateK5) ! 0) = 1 \<and> s_mp (edgesStereo (optimizer stateK5) ! 0) = 1
   \<and> s_level (edgesStereo (optimizer (markOutliers ext0 stateK5)) ! 0) = 0
   \<and> (1, 1) \<notin> set (vToErase (finalClassification ext0 stateK5))
   \<and> (1, 1) \<notin> set (vToErase (LocalBundleAdjustment ext0 0 None sceneK))
   \<and> 5.991 < chi2Mono ext0 (optimizer stateK5flagged) (edgesMono (optimizer stateK5flagged) ! 1)
   \<and> isDepthPositiveMono ext0 (optimizer stateK5flagged) (edgesMono (optimizer stateK5flagged) ! 1)
   \<and> mp_mbBad (mappoints stateK5flagged (e_mp (edgesMono (optimizer stateK5flagged) ! 1)))
   \<and> e_level (edgesMono (optimizer (markOutliers ext0 stateK5flagged)) ! 1) = 0
   \<and> vToErase (finalClassification ext0 stateK5flagged) = [(0, 2), (1, 2)]"
  by code_simp
section \<open>Fixed cameras\<close>

lemma stamps_addNeighbour:
  assumes "localsStamped kid st" and "lFixedCameras st = []"
  shows "localsStamped kid (addNeighbour kid p st) \<and> lFixedCameras (addNeighbour kid p st) = []"
  using assms by (simp add: localsStamped_def addNeighbour_def updKF_def Let_def)

lemma stamps_selectLocalKeyFrames:
  "localsStamped (mnId (keyframes (enter s) pKF)) (selectLocalKeyFrames pKF (enter s))
   \<and> lFixedCameras (selectLocalKeyFrames pKF (enter s)) = []"
  unfolding selectLocalKeyFrames_def Let_def
  by (rule fold_inv)
     (simp_all add: stamps_addNeighbour, simp add: localsStamped_def updKF_def enter_def)

lemma stamps_addLocalMapPoint:
  assumes "localsStamped kid st \<and> lFixedCameras st = []"
  shows "localsStamped kid (addLocalMapPoint kid' x st) \<and> lFixedCameras (addLocalMapPoint kid' x st) = []"
  using assms by (simp add: localsStamped_def addLocalMapPoint_def updMP_def split: option.splits)

lemma stamps_localMapPointsOf:
  assumes "localsStamped kid st \<and> lFixedCameras st = []"
  shows "localsStamped kid (localMapPointsOf kid' p st) \<and> lFixedCameras (localMapPointsOf kid' p st) = []"
  unfolding localMapPointsOf_def by (rule fold_inv) (fact assms, rule stamps_addLocalMapPoint, assumption)

lemma stamps_selectLocalMapPoints:
  assumes "localsStamped kid st \<and> lFixedCameras st = []"
  shows "localsStamped kid (selectLocalMapPoints kid' st) \<and> lFixedCameras (selectLocalMapPoints kid' st) = []"
  unfolding selectLocalMapPoints_def by (rule fold_inv) (fact assms, rule stamps_localMapPointsOf, assumption)

lemma stamps_addFixedCamera:
  assumes "localsStamped kid st \<and> fixedUnstamped kid st"
  shows "localsStamped kid (addFixedCamera kid ob st) \<and> fixedUnstamped kid (addFixedCamera kid ob st)"
  using assms by (auto simp add: localsStamped_def fixedUnstamped_def addFixedCamera_def updKF_def Let_def)

lemma stamps_fixedCamerasOf:
  assumes "localsStamped kid st \<and> fixedUnstamped kid st"
  shows "localsStamped kid (fixedCamerasOf kid p st) \<and> fixedUnstamped kid (fixedCamerasOf kid p st)"
  unfolding fixedCamerasOf_def by (rule fold_inv) (fact assms, rule stamps_addFixedCamera, assumption)

lemma stamps_selectFixedCameras:
  assumes "localsStamped kid st \<and> fixedUnstamped kid st"
  shows "localsStamped kid (selectFixedCameras kid st) \<and> fixedUnstamped kid (selectFixedCameras kid st)"
  unfolding selectFixedCameras_def by (rule fold_inv) (fact assms, rule stamps_fixedCamerasOf, assumption)

lemma stamps_selectWindow:
  "localsStamped (mnId (keyframes (enter s) pKF)) (selectWindow pKF (enter s))
   \<and> fixedUnstamped (mnId (keyframes (enter s) pKF)) (selectWindow pKF (enter s))"
proof -
  let ?kid = "mnId (keyframes (enter s) pKF)"
  let ?st2 = "selectLocalMapPoints ?kid (selectLocalKeyFrames pKF (enter s))"
  have "localsStamped ?kid ?st2 \<and> lFixedCameras ?st2 = []"
    by (rule stamps_selectLocalMapPoints) (rule stamps_selectLocalKeyFrames)
  then have "localsStamped ?kid ?st2 \<and> fixedUnstamped ?kid ?st2"
    by (simp add: fixedUnstamped_def)
  then show ?thesis
    unfolding selectWindow_def Let_def by (rule stamps_selectFixedCameras)
qed

lemma fixed_not_local_selectWindow:
  "p \<in> set (lFixedCameras (selectWindow pKF (enter s))) \<Longrightarrow> p \<notin> set (lLocalKeyFrames (selectWindow pKF (enter s)))"
  using stamps_selectWindow [of s pKF] by (auto simp add: localsStamped_def fixedUnstamped_def)

lemma lists_prepare:
  "lLocalKeyFrames (prepare ext pKF flag s) = lLocalKeyFrames (selectWindow pKF (enter s))"
  "lFixedCameras (prepare ext pKF flag s) = lFixedCameras (selectWindow pKF (enter s))"
  "lLocalMapPoints (prepare ext pKF flag s) = lLocalMapPoints (selectWindow pKF (enter s))"
  using selectionOf_buildGraph [of ext "flag \<noteq> None" "selectWindow pKF (enter s)"]
  by (simp_all add: prepare_def selectionOf_def)

lemma fixed_not_local_prepare:
  "p \<in> set (lFixedCameras (prepare ext pKF flag s)) \<Longrightarrow> p \<notin> set (lLocalKeyFrames (prepare ext pKF flag s))"
  by (simp add: lists_prepare fixed_not_local_selectWindow)

lemma sameKeyFrame_fields:
  assumes "sameKeyFrame k k'"
  shows "Tcw k' = Tcw k" and "mnId k' = mnId k" and "mbBad k' = mbBad k"
    and "mvpLandmarks k' = mvpLandmarks k" and "cam_pose_Twc k' = cam_pose_Twc k"
    and "mvpMapPoints k' = mvpMapPoints k"
    and "mvpOrderedConnectedKeyFrames k' = mvpOrderedConnectedKeyFrames k"
  using assms by (cases k; cases k'; simp add: sameKeyFrame_def)+

lemma uncommitted_keyframe:
  "uncommitted s st \<Longrightarrow> sameKeyFrame (keyframes s p) (keyframes st p)"
  by (simp add: uncommitted_def)

lemma Tcw_prepare: "Tcw (keyframes (prepare ext pKF flag s) p) = Tcw (keyframes s p)"
  by (rule sameKeyFrame_fields(1) [OF uncommitted_keyframe [OF uncommitted_prepare]])

lemma mnId_prepare: "mnId (keyframes (prepare ext pKF flag s) p) = mnId (keyframes s p)"
  by (rule sameKeyFrame_fields(2) [OF uncommitted_keyframe [OF uncommitted_prepare]])

lemma Tcw_eraseLink: "Tcw (keyframes (eraseLink i st) p) = Tcw (keyframes st p)"
  by (simp add: eraseLink_def EraseObservation_def EraseMapPointMatch_def updKF_def updMP_def)

lemma Tcw_recoverKeyFrame:
  "x \<noteq> p \<Longrightarrow> Tcw (keyframes (recoverKeyFrame ext x st) p) = Tcw (keyframes st p)"
  by (simp add: recoverKeyFrame_def updKF_def split: option.splits Vertex.splits)

lemma keyframes_recoverLandmark: "keyframes (recoverLandmark l st) = keyframes st"
  by (simp add: recoverLandmark_def updLM_def split: option.splits Vertex.splits)

lemma keyframes_recoverMapPoint: "keyframes (recoverMapPoint ext m st) = keyframes st"
  by (simp add: recoverMapPoint_def updMP_def split: option.splits Vertex.splits)

lemma Tcw_commit:
  assumes "p \<notin> set (lLocalKeyFrames st)"
  shows "Tcw (keyframes (commit ext st) p) = Tcw (keyframes st p)"
proof -
  define st1 where "st1 = fold eraseLink (vToErase st) st"
  define st2 where "st2 = fold (recoverKeyFrame ext) (lLocalKeyFrames st1) st1"
  define st3 where "st3 = fold recoverLandmark (lLocalLandmarks st2) st2"
  have 1: "Tcw (keyframes st1 p) = Tcw (keyframes st p)" unfolding st1_def
    by (rule fold_same) (rule Tcw_eraseLink)
  have "localsOf st1 = localsOf st" unfolding st1_def
    by (rule fold_same) (rule localsOf_eraseLink)
  then have l1: "lLocalKeyFrames st1 = lLocalKeyFrames st"
    by (simp add: localsOf_def)
  have step: "Tcw (keyframes (recoverKeyFrame ext x s') p) = Tcw (keyframes s' p)"
    if "x \<in> set (lLocalKeyFrames st1)" for x s'
  proof -
    from that l1 assms have "x \<noteq> p" by auto
    then show ?thesis by (rule Tcw_recoverKeyFrame)
  qed
  have 2: "Tcw (keyframes st2 p) = Tcw (keyframes st p)" unfolding st2_def
    by (rule fold_inv) (simp_all add: 1 step)
  have 3: "keyframes st3 = keyframes st2" unfolding st3_def
    by (rule fold_same) (rule keyframes_recoverLandmark)
  have 4: "keyframes (fold (recoverMapPoint ext) (lLocalMapPoints st3) st3) = keyframes st3"
    by (rule fold_same) (rule keyframes_recoverMapPoint)
  show ?thesis
    by (simp add: commit_def Let_def 2 3 4 flip: st1_def st2_def st3_def)
qed

lemma keyframes_solve [simp]:
  "keyframes (updOpt f st) = keyframes st"
  "keyframes (markOutliers ext st) = keyframes st"
  "keyframes (finalClassification ext st) = keyframes st"
  "lLocalKeyFrames (updOpt f st) = lLocalKeyFrames st"
  "lLocalKeyFrames (markOutliers ext st) = lLocalKeyFrames st"
  "lLocalKeyFrames (finalClassification ext st) = lLocalKeyFrames st"
  "lFixedCameras (updOpt f st) = lFixedCameras st"
  "lFixedCameras (markOutliers ext st) = lFixedCameras st"
  "lFixedCameras (finalClassification ext st) = lFixedCameras st"
  by (simp_all add: updOpt_def markOutliers_def finalClassification_def)

lemma Tcw_solveAndCommit:
  assumes "p \<notin> set (lLocalKeyFrames st)"
  shows "Tcw (keyframes (solveAndCommit ext flag st) p) = Tcw (keyframes st p)"
  using assms by (simp add: solveAndCommit_def Let_def Tcw_commit)

lemma lists_solveAndCommit:
  "lLocalKeyFrames (solveAndCommit ext flag st) = lLocalKeyFrames st"
  "lFixedCameras (solveAndCommit ext flag st) = lFixedCameras st"
  by (simp_all add: solveAndCommit_def Let_def lLocalKeyFrames_commit lFixedCameras_commit)

lemma lists_LocalBundleAdjustment:
  "lLocalKeyFrames (LocalBundleAdjustment ext pKF flag s) = lLocalKeyFrames (prepare ext pKF flag s)"
  "lFixedCameras (LocalBundleAdjustment ext pKF flag s) = lFixedCameras (prepare ext pKF flag s)"
  by (simp_all add: LocalBundleAdjustment_def Let_def lists_solveAndCommit)

lemma Tcw_LocalBundleAdjustment:
  assumes "p \<notin> set (lLocalKeyFrames (prepare ext pKF flag s))"
  shows "Tcw (keyframes (LocalBundleAdjustment ext pKF flag s) p) = Tcw (keyframes s p)"
  using assms by (simp add: LocalBundleAdjustment_def Let_def Tcw_solveAndCommit Tcw_prepare)

lemma verticesOf_cacheLandmark: "verticesOf (cacheLandmark ext p l st) = verticesOf st"
  by (simp add: verticesOf_def cacheLandmark_def updKF_def Let_def)

lemma verticesOf_addCuboidEdge: "verticesOf (addCuboidEdge ext p l st) = verticesOf st"
  by (simp add: addCuboidEdge_def readLandmarkMeasurement_def Let_def verticesOf_def updOpt_def
      updKF_def split: option.splits)

lemma verticesOf_addMonoEdge: "verticesOf (addMonoEdge ext m i p kp st) = verticesOf st"
proof -
  have "verticesOf (fold (addCuboidEdge ext p) xs st') = verticesOf st'" for xs st'
    by (rule fold_same) (rule verticesOf_addCuboidEdge)
  then show ?thesis
    by (simp add: addMonoEdge_def Let_def) (simp add: verticesOf_def updOpt_def)
qed

lemma verticesOf_addStereoEdge: "verticesOf (addStereoEdge ext m i p kp r st) = verticesOf st"
  by (simp add: addStereoEdge_def Let_def verticesOf_def updOpt_def)

lemma verticesOf_addObservationEdges: "verticesOf (addObservationEdges ext m i ob st) = verticesOf st"
  by (simp add: addObservationEdges_def Let_def verticesOf_addMonoEdge verticesOf_addStereoEdge)
     (simp add: verticesOf_def)

lemma verticesOf_fold_addObservationEdges:
  "verticesOf (fold (addObservationEdges ext m i) xs st) = verticesOf st"
  by (rule fold_same) (rule verticesOf_addObservationEdges)

lemma freePosesIn_addVertex:
  assumes "freePosesIn s L g"
    and "case v of VertexSE3Expmap b q \<Rightarrow>
           b \<or> (\<exists>x \<in> set L. i = poseVertexId (keyframes s x) \<and> mnId (keyframes s x) \<noteq> 0)
         | _ \<Rightarrow> True"
  shows "freePosesIn s L (addVertex i v g)"
  using assms by (auto simp add: freePosesIn_def addVertex_def)

lemma newEstimate_pose:
  "newEstimate ext n g iv = (i, VertexSE3Expmap b q) \<Longrightarrow> \<exists>q'. iv = (i, VertexSE3Expmap b q')"
  by (auto simp add: newEstimate_def split: Vertex.splits prod.splits)

lemma freePosesIn_optimize:
  assumes "freePosesIn s L g"
  shows "freePosesIn s L (optimize ext n g)"
  unfolding freePosesIn_def
proof (intro allI impI)
  fix i b q
  assume "(i, VertexSE3Expmap b q) \<in> set (vertices (optimize ext n g))"
  then obtain iv where iv: "iv \<in> set (vertices g)" and "newEstimate ext n g iv = (i, VertexSE3Expmap b q)"
    by (auto simp add: optimize_def)
  then obtain q' where "iv = (i, VertexSE3Expmap b q')"
    using newEstimate_pose by blast
  with iv assms show "b \<or> (\<exists>x \<in> set L. i = poseVertexId (keyframes s x) \<and> mnId (keyframes s x) \<noteq> 0)"
    unfolding freePosesIn_def by blast
qed

lemma freePoses_cacheLandmarks:
  assumes "uncommitted s st" and "freePosesIn s L (optimizer st)"
  shows "uncommitted s (fold (cacheLandmark ext p) xs st)
         \<and> freePosesIn s L (optimizer (fold (cacheLandmark ext p) xs st))"
proof -
  have "verticesOf (fold (cacheLandmark ext p) xs st) = verticesOf st"
    by (rule fold_same) (rule verticesOf_cacheLandmark)
  then have "freePosesIn s L (optimizer (fold (cacheLandmark ext p) xs st))"
    using assms(2) by (simp add: freePosesIn_def verticesOf_def)
  moreover have "uncommitted s (fold (cacheLandmark ext p) xs st)"
    by (rule fold_inv) (simp_all add: assms uncommitted_cacheLandmark)
  ultimately show ?thesis by simp
qed

lemma freePoses_addLocalKeyFrameVertex:
  assumes "x \<in> set L" and "uncommitted s st \<and> freePosesIn s L (optimizer st)"
  shows "uncommitted s (addLocalKeyFrameVertex ext x st)
         \<and> freePosesIn s L (optimizer (addLocalKeyFrameVertex ext x st))"
proof -
  define st1 where "st1 = fold (cacheLandmark ext x) (mvpLandmarks (keyframes st x)) st"
  have u1: "uncommitted s st1" and f1: "freePosesIn s L (optimizer st1)"
    using freePoses_cacheLandmarks [of s st L ext x] assms(2) by (simp_all add: st1_def)
  have id: "mnId (keyframes st1 x) = mnId (keyframes s x)"
    by (rule sameKeyFrame_fields(2) [OF uncommitted_keyframe [OF u1]])
  have "freePosesIn s L (addVertex (poseVertexId (keyframes st1 x))
          (VertexSE3Expmap (mnId (keyframes st1 x) = 0) (toSE3Quat ext (Tcw (keyframes st1 x)))) (optimizer st1))"
    by (rule freePosesIn_addVertex [OF f1]) (use assms(1) id in \<open>auto simp add: poseVertexId_def\<close>)
  then have "freePosesIn s L (optimizer (addLocalKeyFrameVertex ext x st))"
    by (simp add: addLocalKeyFrameVertex_def Let_def updOpt_def flip: st1_def)
  then show ?thesis
    using assms(2) by (simp add: uncommitted_addLocalKeyFrameVertex)
qed

lemma freePoses_addFixedKeyFrameVertex:
  assumes "uncommitted s st \<and> freePosesIn s L (optimizer st)"
  shows "uncommitted s (addFixedKeyFrameVertex ext x st)
         \<and> freePosesIn s L (optimizer (addFixedKeyFrameVertex ext x st))"
proof -
  have "freePosesIn s L (addVertex (poseVertexId (keyframes st x))
          (VertexSE3Expmap True (toSE3Quat ext (Tcw (keyframes st x)))) (optimizer st))"
    by (rule freePosesIn_addVertex) (use assms in simp_all)
  then have "freePosesIn s L (optimizer (addFixedKeyFrameVertex ext x st))"
    by (simp add: addFixedKeyFrameVertex_def Let_def updOpt_def)
  then show ?thesis
    using assms by (simp add: uncommitted_addFixedKeyFrameVertex)
qed

lemma freePoses_addLandmarkVertex:
  assumes "freePosesIn s L (optimizer st)"
  shows "freePosesIn s L (optimizer (addLandmarkVertex l st))"
proof -
  have "freePosesIn s L (addVertex (cuboidVertexId (maxKFId st) (landmarks st l))
          (VertexCuboid False (mCuboid (landmarks st l))) (optimizer st))"
    by (rule freePosesIn_addVertex) (use assms in simp_all)
  then show ?thesis
    by (simp add: addLandmarkVertex_def Let_def updOpt_def)
qed

lemma freePoses_addMapPointVertex:
  assumes "freePosesIn s L (optimizer st)"
  shows "freePosesIn s L (optimizer (addMapPointVertex ext m st))"
proof -
  have "freePosesIn s L (addVertex i (VertexSBAPointXYZ True x) (optimizer st))" for i x
    by (rule freePosesIn_addVertex) (use assms in simp_all)
  then have "freePosesIn s L (vertices_update (\<lambda>_. verticesOf (updOpt (addVertex i (VertexSBAPointXYZ True x)) st)) g)" for i x g
    by (simp add: freePosesIn_def verticesOf_def updOpt_def)
  then have "freePosesIn s L (optimizer (fold (addObservationEdges ext m i) xs (updOpt (addVertex i (VertexSBAPointXYZ True x)) st)))" for i x xs
    using verticesOf_fold_addObservationEdges [of ext m i xs "updOpt (addVertex i (VertexSBAPointXYZ True x)) st"]
    by (simp add: freePosesIn_def verticesOf_def)
  then show ?thesis
    using assms by (simp add: addMapPointVertex_def Let_def)
qed

lemma freePoses_buildGraph:
  assumes "uncommitted s st"
  shows "freePosesIn s (lLocalKeyFrames st) (optimizer (buildGraph ext b st))"
proof -
  define L where "L = lLocalKeyFrames st"
  define st1 where "st1 = st\<lparr>optimizer := emptyOptimizer\<lparr>forceStopFlag := b\<rparr>, maxKFId := 0, maxLandmarkId := 0\<rparr>"
  define st2 where "st2 = fold (addLocalKeyFrameVertex ext) (lLocalKeyFrames st1) st1"
  define st3 where "st3 = fold (addFixedKeyFrameVertex ext) (lFixedCameras st2) st2"
  define st4 where "st4 = fold addLandmarkVertex (lLocalLandmarks st3) st3"
  have 1: "uncommitted s st1 \<and> freePosesIn s L (optimizer st1)"
    using assms by (simp add: st1_def freePosesIn_def emptyOptimizer_def)
  have l1: "lLocalKeyFrames st1 = L"
    by (simp add: st1_def L_def)
  have 2: "uncommitted s st2 \<and> freePosesIn s L (optimizer st2)" unfolding st2_def l1
    by (rule fold_inv) (fact 1, rule freePoses_addLocalKeyFrameVertex, assumption+)
  have 3: "uncommitted s st3 \<and> freePosesIn s L (optimizer st3)" unfolding st3_def
    by (rule fold_inv) (fact 2, rule freePoses_addFixedKeyFrameVertex, assumption)
  have 4: "freePosesIn s L (optimizer st4)" unfolding st4_def
    by (rule fold_inv) (simp_all add: 3 freePoses_addLandmarkVertex)
  have "freePosesIn s L (optimizer (fold (addMapPointVertex ext) (lLocalMapPoints st4) st4))"
    by (rule fold_inv) (simp_all add: 4 freePoses_addMapPointVertex)
  then show ?thesis
    by (simp add: buildGraph_def Let_def st1_def st2_def st3_def st4_def L_def)
qed

lemma freePoses_prepare:
  "freePosesIn s (lLocalKeyFrames (prepare ext pKF flag s)) (optimizer (prepare ext pKF flag s))"
proof -
  have "freePosesIn s (lLocalKeyFrames (selectWindow pKF (enter s))) (optimizer (prepare ext pKF flag s))"
    unfolding prepare_def
    by (rule freePoses_buildGraph) (simp add: uncommitted_selectWindow uncommitted_enter)
  then show ?thesis
    by (simp add: lists_prepare)
qed

lemma vertices_markOutliers [simp]: "vertices (optimizer (markOutliers ext st)) = vertices (optimizer st)"
  by (simp add: markOutliers_def updOpt_def)

lemma freePoses_solveAndCommit:
  assumes "freePosesIn s L (optimizer st)"
  shows "freePosesIn s L (optimizer (solveAndCommit ext flag st))"
proof -
  have a: "freePosesIn s L (optimize ext 5 (optimizer st))"
    by (rule freePosesIn_optimize) (rule assms)
  have "freePosesIn s L (vertices_update (\<lambda>_. vertices (optimize ext 5 (optimizer st))) g)" for g
    using a by (simp add: freePosesIn_def)
  then have "freePosesIn s L (optimizer (markOutliers ext (updOpt (optimize ext 5) st)))"
    by (simp add: freePosesIn_def updOpt_def)
  then have b: "freePosesIn s L (optimize ext 10 (optimizer (markOutliers ext (updOpt (optimize ext 5) st))))"
    by (rule freePosesIn_optimize)
  show ?thesis
    using a b by (simp add: solveAndCommit_def Let_def optimizer_commit updOpt_def)
qed

lemma freePoses_LocalBundleAdjustment:
  "freePosesIn s (lLocalKeyFrames (LocalBundleAdjustment ext pKF flag s))
     (optimizer (LocalBundleAdjustment ext pKF flag s))"
  unfolding lists_LocalBundleAdjustment
  using freePoses_prepare [of s ext pKF flag]
  by (simp add: LocalBundleAdjustment_def Let_def freePoses_solveAndCommit)

text \<open>
  C8. In the state a run ends in (returned or faulted), the stored pose of every
  KeyFrame of the Fixed Cameras list is the pose it had before the call; no Fixed
  Camera is a Local KeyFrame, and the pose write-back runs over the Local KeyFrames
  only. In the optimizer every pose vertex that is not marked fixed carries the id
  of a Local KeyFrame whose id is not 0: the vertices created for Fixed Cameras and
  for a KeyFrame of id 0 are marked fixed.
\<close>

theorem fixed_camera_pose_unchanged:
  "(\<forall>p \<in> set (lFixedCameras (LocalBundleAdjustment ext pKF pbStopFlag s)).
      Tcw (keyframes (LocalBundleAdjustment ext pKF pbStopFlag s) p) = Tcw (keyframes s p)
      \<and> p \<notin> set (lLocalKeyFrames (LocalBundleAdjustment ext pKF pbStopFlag s)))
   \<and> freePosesIn s (lLocalKeyFrames (LocalBundleAdjustment ext pKF pbStopFlag s))
        (optimizer (LocalBundleAdjustment ext pKF pbStopFlag s))"
  using fixed_not_local_prepare [of _ ext pKF pbStopFlag s]
  by (simp add: lists_LocalBundleAdjustment Tcw_LocalBundleAdjustment freePoses_LocalBundleAdjustment
      flip: lists_LocalBundleAdjustment(1))

text \<open>
  In the example run with a solver that moves every pose, KeyFrame 2 (at address 1)
  is the one Fixed Camera; its vertex is marked fixed and its stored pose stays
  \<open>[2]\<close>, while the Local KeyFrame K receives the pose \<open>[10]\<close>.
\<close>

theorem fixed_camera_pose_unchanged_witness:
  "lFixedCameras (LocalBundleAdjustment ext1 0 None sceneK) = [1]
   \<and> Tcw (keyframes (LocalBundleAdjustment ext1 0 None sceneK) 1) = Tcw (keyframes sceneK 1)
   \<and> (1::nat) \<notin> set (lLocalKeyFrames (LocalBundleAdjustment ext1 0 None sceneK))
   \<and> Tcw (keyframes sceneK 1) = Mat [2]
   \<and> Tcw (keyframes sceneK 0) = Mat [5]
   \<and> Tcw (keyframes (LocalBundleAdjustment ext1 0 None sceneK) 0) = Mat [10]
   \<and> map (\<lambda>iv. case snd iv of VertexSE3Expmap b q \<Rightarrow> (fst iv, b) | _ \<Rightarrow> (fst iv, True))
        (vertices (optimizer (LocalBundleAdjustment ext1 0 None sceneK)))
      = [(5, False), (2, True), (6, True), (17, True), (18, True), (19, True)]"
proof -
  have f: "lFixedCameras (LocalBundleAdjustment ext1 0 None sceneK) = [1]"
    by code_simp
  from fixed_camera_pose_unchanged [of ext1 0 None sceneK]
  have "\<forall>p \<in> set (lFixedCameras (LocalBundleAdjustment ext1 0 None sceneK)).
      Tcw (keyframes (LocalBundleAdjustment ext1 0 None sceneK) p) = Tcw (keyframes sceneK p)
      \<and> p \<notin> set (lLocalKeyFrames (LocalBundleAdjustment ext1 0 None sceneK))"
    by (rule conjunct1)
  then have a: "Tcw (keyframes (LocalBundleAdjustment ext1 0 None sceneK) 1) = Tcw (keyframes sceneK 1)
      \<and> (1::nat) \<notin> set (lLocalKeyFrames (LocalBundleAdjustment ext1 0 None sceneK))"
    unfolding f by simp
  have b: "Tcw (keyframes sceneK 1) = Mat [2]" "Tcw (keyframes sceneK 0) = Mat [5]"
    "Tcw (keyframes (LocalBundleAdjustment ext1 0 None sceneK) 0) = Mat [10]"
    by code_simp+
  have c: "map (\<lambda>iv. case snd iv of VertexSE3Expmap b q \<Rightarrow> (fst iv, b) | _ \<Rightarrow> (fst iv, True))
        (vertices (optimizer (LocalBundleAdjustment ext1 0 None sceneK)))
      = [(5, False), (2, True), (6, True), (17, True), (18, True), (19, True)]"
    by code_simp
  show ?thesis
    using f a b c by simp
qed

section \<open>Camera-object edges per observation\<close>

lemma counts_frame:
  assumes "edgesCuboid (optimizer st') = edgesCuboid (optimizer st)"
    and "edgesMono (optimizer st') = edgesMono (optimizer st)"
  shows "cuboidCount p st' = cuboidCount p st" and "monoCount p st' = monoCount p st"
  using assms by (simp_all add: cuboidCount_def monoCount_def)

lemma edges_cacheLandmark:
  "edgesCuboid (optimizer (cacheLandmark ext p l st)) = edgesCuboid (optimizer st)"
  "edgesMono (optimizer (cacheLandmark ext p l st)) = edgesMono (optimizer st)"
  by (simp_all add: cacheLandmark_def updKF_def Let_def)

lemma edges_addVertex:
  "edgesCuboid (optimizer (updOpt (addVertex i v) st)) = edgesCuboid (optimizer st)"
  "edgesMono (optimizer (updOpt (addVertex i v) st)) = edgesMono (optimizer st)"
  by (simp_all add: updOpt_def addVertex_def)

lemma perObservation_frame:
  assumes "edgesCuboid (optimizer st') = edgesCuboid (optimizer st)"
    and "edgesMono (optimizer st') = edgesMono (optimizer st)"
  shows "perObservation s st' = perObservation s st"
  using assms by (simp add: perObservation_def cuboidCount_def monoCount_def)

lemma edges_addLocalKeyFrameVertex:
  "edgesCuboid (optimizer (addLocalKeyFrameVertex ext p st)) = edgesCuboid (optimizer st)"
  "edgesMono (optimizer (addLocalKeyFrameVertex ext p st)) = edgesMono (optimizer st)"
proof -
  have "edgesCuboid (optimizer (fold (cacheLandmark ext p) xs st)) = edgesCuboid (optimizer st)" for xs
    by (rule fold_same) (rule edges_cacheLandmark)
  moreover have "edgesMono (optimizer (fold (cacheLandmark ext p) xs st)) = edgesMono (optimizer st)" for xs
    by (rule fold_same) (rule edges_cacheLandmark)
  ultimately show
    "edgesCuboid (optimizer (addLocalKeyFrameVertex ext p st)) = edgesCuboid (optimizer st)"
    "edgesMono (optimizer (addLocalKeyFrameVertex ext p st)) = edgesMono (optimizer st)"
    by (simp_all add: addLocalKeyFrameVertex_def Let_def edges_addVertex)
qed

lemma edges_addFixedKeyFrameVertex:
  "edgesCuboid (optimizer (addFixedKeyFrameVertex ext p st)) = edgesCuboid (optimizer st)"
  "edgesMono (optimizer (addFixedKeyFrameVertex ext p st)) = edgesMono (optimizer st)"
  by (simp_all add: addFixedKeyFrameVertex_def Let_def edges_addVertex)

lemma edges_addLandmarkVertex:
  "edgesCuboid (optimizer (addLandmarkVertex l st)) = edgesCuboid (optimizer st)"
  "edgesMono (optimizer (addLandmarkVertex l st)) = edgesMono (optimizer st)"
  by (simp_all add: addLandmarkVertex_def Let_def edges_addVertex)

lemma cuboidCount_addCuboidEdge:
  "cuboidCount q (addCuboidEdge ext p l st) = cuboidCount q st + (if q = p then 1 else 0)"
  by (simp add: addCuboidEdge_def readLandmarkMeasurement_def Let_def cuboidCount_def updOpt_def
      updKF_def split: option.splits)

lemma cuboidCount_fold_addCuboidEdge:
  "cuboidCount q (fold (addCuboidEdge ext p) xs st) = cuboidCount q st + (if q = p then length xs else 0)"
  by (induction xs arbitrary: st) (simp_all add: cuboidCount_addCuboidEdge)

lemma monoCount_fold_addCuboidEdge:
  "monoCount q (fold (addCuboidEdge ext p) xs st) = monoCount q st"
  using reprojOf_fold_addCuboidEdge [of ext p xs st] by (simp add: monoCount_def reprojOf_def)

lemma perObservation_addMonoEdge:
  assumes "uncommitted s st" and "perObservation s st"
  shows "perObservation s (addMonoEdge ext m i p kp st)"
proof -
  have lms: "mvpLandmarks (keyframes st p) = mvpLandmarks (keyframes s p)"
    by (rule sameKeyFrame_fields(4) [OF uncommitted_keyframe [OF assms(1)]])
  have "cuboidCount q (addMonoEdge ext m i p kp st)
          = monoCount q (addMonoEdge ext m i p kp st) * length (mvpLandmarks (keyframes s q))" for q
    using assms(2)
    by (simp add: addMonoEdge_def Let_def cuboidCount_fold_addCuboidEdge monoCount_fold_addCuboidEdge
        perObservation_def)
       (simp add: cuboidCount_def monoCount_def updOpt_def lms)
  then show ?thesis
    by (simp add: perObservation_def)
qed

lemma perObservation_addStereoEdge:
  "perObservation s st \<Longrightarrow> perObservation s (addStereoEdge ext m i p kp r st)"
  by (simp add: perObservation_def cuboidCount_def monoCount_def addStereoEdge_def Let_def updOpt_def)

lemma perObservation_fault [simp]: "perObservation s (st\<lparr>fault := c\<rparr>) = perObservation s st"
  by (simp add: perObservation_def cuboidCount_def monoCount_def)

lemma perObservation_addObservationEdges:
  assumes "uncommitted s st \<and> perObservation s st"
  shows "uncommitted s (addObservationEdges ext m i ob st)
         \<and> perObservation s (addObservationEdges ext m i ob st)"
  using assms
  by (simp add: uncommitted_addObservationEdges)
     (simp add: addObservationEdges_def Let_def perObservation_addMonoEdge perObservation_addStereoEdge)

lemma perObservation_addMapPointVertex:
  assumes "uncommitted s st \<and> perObservation s st"
  shows "uncommitted s (addMapPointVertex ext m st) \<and> perObservation s (addMapPointVertex ext m st)"
proof -
  have start: "uncommitted s (updOpt (addVertex i v) st) \<and> perObservation s (updOpt (addVertex i v) st)" for i v
    using assms by (simp add: perObservation_frame [OF edges_addVertex])
  have "uncommitted s (fold (addObservationEdges ext m i) xs (updOpt (addVertex i v) st))
        \<and> perObservation s (fold (addObservationEdges ext m i) xs (updOpt (addVertex i v) st))" for i v xs
    by (rule fold_inv) (rule start, rule perObservation_addObservationEdges, assumption)
  then show ?thesis
    using assms by (simp add: addMapPointVertex_def Let_def)
qed

lemma perObservation_buildGraph:
  assumes "uncommitted s st"
  shows "perObservation s (buildGraph ext b st)"
proof -
  define st1 where "st1 = st\<lparr>optimizer := emptyOptimizer\<lparr>forceStopFlag := b\<rparr>, maxKFId := 0, maxLandmarkId := 0\<rparr>"
  define st2 where "st2 = fold (addLocalKeyFrameVertex ext) (lLocalKeyFrames st1) st1"
  define st3 where "st3 = fold (addFixedKeyFrameVertex ext) (lFixedCameras st2) st2"
  define st4 where "st4 = fold addLandmarkVertex (lLocalLandmarks st3) st3"
  have 1: "uncommitted s st1 \<and> perObservation s st1"
    using assms by (simp add: st1_def perObservation_def cuboidCount_def monoCount_def emptyOptimizer_def)
  have 2: "uncommitted s st2 \<and> perObservation s st2" unfolding st2_def
    by (rule fold_inv)
       (simp_all add: 1 uncommitted_addLocalKeyFrameVertex perObservation_frame [OF edges_addLocalKeyFrameVertex])
  have 3: "uncommitted s st3 \<and> perObservation s st3" unfolding st3_def
    by (rule fold_inv)
       (simp_all add: 2 uncommitted_addFixedKeyFrameVertex perObservation_frame [OF edges_addFixedKeyFrameVertex])
  have 4: "uncommitted s st4 \<and> perObservation s st4" unfolding st4_def
    by (rule fold_inv)
       (simp_all add: 3 uncommitted_addLandmarkVertex perObservation_frame [OF edges_addLandmarkVertex])
  have "uncommitted s (fold (addMapPointVertex ext) (lLocalMapPoints st4) st4)
        \<and> perObservation s (fold (addMapPointVertex ext) (lLocalMapPoints st4) st4)"
    by (rule fold_inv) (rule 4, rule perObservation_addMapPointVertex, assumption)
  then show ?thesis
    by (simp add: buildGraph_def Let_def st1_def st2_def st3_def st4_def)
qed

text \<open>
  C10. In the graph a run builds, the camera-object edges created for a KeyFrame
  number (monocular reprojection edges of that KeyFrame) times (Landmarks associated
  with it): one per monocular observation and Landmark, duplicates included. A
  KeyFrame without a monocular reprojection edge therefore has no camera-object edge,
  whatever Landmarks are associated with it.
\<close>

theorem camera_object_edges_per_mono_observation:
  "cuboidCount p (prepare ext pKF pbStopFlag s)
     = monoCount p (prepare ext pKF pbStopFlag s) * length (mvpLandmarks (keyframes s p))
   \<and> (monoCount p (prepare ext pKF pbStopFlag s) = 0
        \<longrightarrow> cuboidCount p (prepare ext pKF pbStopFlag s) = 0)"
proof -
  have "perObservation s (prepare ext pKF pbStopFlag s)"
    unfolding prepare_def
    by (rule perObservation_buildGraph) (simp add: uncommitted_selectWindow uncommitted_enter)
  then show ?thesis
    by (simp add: perObservation_def)
qed

text \<open>
  In the example K has two monocular edges and one Landmark and receives two
  camera-object edges for the same (KeyFrame, Landmark) pair; with every keypoint of
  K stereo it has three stereo edges, one Landmark and no camera-object edge.
\<close>

theorem camera_object_edges_per_mono_observation_witness:
  "monoCount 0 (prepare ext0 0 None sceneK) = 2
   \<and> length (mvpLandmarks (keyframes sceneK 0)) = 1
   \<and> cuboidCount 0 (prepare ext0 0 None sceneK) = 2
   \<and> map (\<lambda>c. (c_kf c, c_lm c)) (edgesCuboid (optimizer (prepare ext0 0 None sceneK))) = [(0, 0), (0, 0)]
   \<and> monoCount 0 (prepare ext0 0 None sceneS) = 0
   \<and> stereoCount 0 (prepare ext0 0 None sceneS) = 3
   \<and> length (mvpLandmarks (keyframes sceneS 0)) = 1
   \<and> cuboidCount 0 (prepare ext0 0 None sceneS) = 0"
proof -
  have m: "monoCount 0 (prepare ext0 0 None sceneK) = 2"
    and l: "length (mvpLandmarks (keyframes sceneK 0)) = 1"
    and d: "map (\<lambda>c. (c_kf c, c_lm c)) (edgesCuboid (optimizer (prepare ext0 0 None sceneK))) = [(0, 0), (0, 0)]"
    and ms: "monoCount 0 (prepare ext0 0 None sceneS) = 0"
    and ss: "stereoCount 0 (prepare ext0 0 None sceneS) = 3"
    and ls: "length (mvpLandmarks (keyframes sceneS 0)) = 1"
    by code_simp+
  have c: "cuboidCount 0 (prepare ext0 0 None sceneK) = 2"
    using camera_object_edges_per_mono_observation [of 0 ext0 0 None sceneK] by (simp add: m l)
  have cs: "cuboidCount 0 (prepare ext0 0 None sceneS) = 0"
    using camera_object_edges_per_mono_observation [of 0 ext0 0 None sceneS] by (simp add: ms)
  show ?thesis
    using m l c d ms ss ls cs by simp
qed

section \<open>Vertex id ranges\<close>

lemma toInt_small:
  assumes "uint w < 2 ^ 31"
  shows "toInt w = uint w"
proof -
  have "uint (ucast w :: 32 word) = take_bit 32 (uint w)"
    by (simp add: unsigned_ucast_eq)
  also have "\<dots> = uint w"
    by (rule take_bit_int_eq_self) (use assms in auto)
  finally have "sint (ucast w :: 32 word) = signed_take_bit 31 (uint w)"
    by (simp add: sint_uint)
  also have "\<dots> = uint w"
  proof (rule signed_take_bit_int_eq_self)
    have "- (2 ^ 31) \<le> (0::int)" by simp
    also have "(0::int) \<le> uint w" by simp
    finally show "- (2 ^ 31) \<le> uint w" .
    show "uint w < 2 ^ 31" by (rule assms)
  qed
  finally show ?thesis
    by (simp add: toInt_def)
qed

lemma uint_add_small:
  fixes a b :: ulong
  assumes "uint a + uint b < 2 ^ 31"
  shows "uint (a + b) = uint a + uint b"
proof -
  have "uint a + uint b < 2 ^ 64"
    using assms by simp
  then show ?thesis
    using uint_add_lem [of a b] by simp
qed

lemma fold_all_inv:
  assumes "I s"
    and "\<And>x s. I s \<Longrightarrow> I (f x s)"
    and "\<And>x s. I s \<Longrightarrow> Q x (f x s)"
    and "\<And>x y s. I s \<Longrightarrow> Q x s \<Longrightarrow> Q x (f y s)"
  shows "I (fold f xs s) \<and> (\<forall>x \<in> set xs. Q x (fold f xs s))"
  using assms(1)
proof (induction xs arbitrary: s)
  case Nil
  then show ?case by simp
next
  case (Cons a xs)
  have ia: "I (f a s)" by (rule assms(2)) (rule Cons.prems)
  have qa: "Q a (f a s)" by (rule assms(3)) (rule Cons.prems)
  have "I (fold f xs (f a s)) \<and> Q a (fold f xs (f a s))"
    by (rule fold_inv [where P = "\<lambda>t. I t \<and> Q a t"]) (use ia qa assms(2) assms(4) in auto)
  with Cons.IH [OF ia] show ?case by simp
qed

lemma maxKFId_addLocalKeyFrameVertex:
  assumes "uncommitted s st"
  shows "mnId (keyframes s x) \<le> maxKFId (addLocalKeyFrameVertex ext x st)"
    and "maxKFId st \<le> maxKFId (addLocalKeyFrameVertex ext x st)"
proof -
  define st1 where "st1 = fold (cacheLandmark ext x) (mvpLandmarks (keyframes st x)) st"
  have u1: "uncommitted s st1" unfolding st1_def
    by (rule fold_inv) (simp_all add: assms uncommitted_cacheLandmark)
  have id: "mnId (keyframes st1 x) = mnId (keyframes s x)"
    by (rule sameKeyFrame_fields(2) [OF uncommitted_keyframe [OF u1]])
  have "maxKFId (cacheLandmark ext x l t) = maxKFId t" for l t
    by (simp add: cacheLandmark_def updKF_def Let_def)
  then have m1: "maxKFId st1 = maxKFId st" unfolding st1_def
    by (rule fold_same)
  show "mnId (keyframes s x) \<le> maxKFId (addLocalKeyFrameVertex ext x st)"
    by (simp add: addLocalKeyFrameVertex_def Let_def updOpt_def id m1 not_less flip: st1_def)
  show "maxKFId st \<le> maxKFId (addLocalKeyFrameVertex ext x st)"
    by (auto simp add: addLocalKeyFrameVertex_def Let_def updOpt_def id m1 simp flip: st1_def)
qed

lemma maxKFId_addFixedKeyFrameVertex:
  assumes "uncommitted s st"
  shows "mnId (keyframes s x) \<le> maxKFId (addFixedKeyFrameVertex ext x st)"
    and "maxKFId st \<le> maxKFId (addFixedKeyFrameVertex ext x st)"
proof -
  have id: "mnId (keyframes st x) = mnId (keyframes s x)"
    by (rule sameKeyFrame_fields(2) [OF uncommitted_keyframe [OF assms]])
  show "mnId (keyframes s x) \<le> maxKFId (addFixedKeyFrameVertex ext x st)"
    by (simp add: addFixedKeyFrameVertex_def Let_def updOpt_def id not_less)
  show "maxKFId st \<le> maxKFId (addFixedKeyFrameVertex ext x st)"
    by (auto simp add: addFixedKeyFrameVertex_def Let_def updOpt_def id)
qed

lemma maxima_addLandmarkVertex:
  "maxKFId (addLandmarkVertex l st) = maxKFId st"
  "lLocalLandmarks (addLandmarkVertex l st) = lLocalLandmarks st"
  "landmarks (addLandmarkVertex l st) = landmarks st"
  "mnLandmarkId (landmarks st l) \<le> maxLandmarkId (addLandmarkVertex l st)"
  "maxLandmarkId st \<le> maxLandmarkId (addLandmarkVertex l st)"
  by (auto simp add: addLandmarkVertex_def Let_def updOpt_def not_less)

lemma maximaOf_addCuboidEdge: "maximaOf (addCuboidEdge ext p l st) = maximaOf st"
  by (simp add: addCuboidEdge_def readLandmarkMeasurement_def Let_def maximaOf_def updOpt_def
      updKF_def split: option.splits)

lemma maximaOf_addMonoEdge: "maximaOf (addMonoEdge ext m i p kp st) = maximaOf st"
proof -
  have "maximaOf (fold (addCuboidEdge ext p) xs st') = maximaOf st'" for xs st'
    by (rule fold_same) (rule maximaOf_addCuboidEdge)
  then show ?thesis
    by (simp add: addMonoEdge_def Let_def) (simp add: maximaOf_def updOpt_def)
qed

lemma maximaOf_addStereoEdge: "maximaOf (addStereoEdge ext m i p kp r st) = maximaOf st"
  by (simp add: addStereoEdge_def Let_def maximaOf_def updOpt_def)

lemma maximaOf_addObservationEdges: "maximaOf (addObservationEdges ext m i ob st) = maximaOf st"
  by (simp add: addObservationEdges_def Let_def maximaOf_addMonoEdge maximaOf_addStereoEdge)
     (simp add: maximaOf_def)

lemma maximaOf_addMapPointVertex: "maximaOf (addMapPointVertex ext m st) = maximaOf st"
proof -
  have "maximaOf (fold (addObservationEdges ext m i) xs st') = maximaOf st'" for xs st' i
    by (rule fold_same) (rule maximaOf_addObservationEdges)
  then show ?thesis
    by (simp add: addMapPointVertex_def Let_def) (simp add: maximaOf_def updOpt_def)
qed

lemma maxima_buildGraph:
  assumes "uncommitted s st"
  shows "(\<forall>x \<in> set (lLocalKeyFrames st) \<union> set (lFixedCameras st).
            mnId (keyframes s x) \<le> maxKFId (buildGraph ext b st))
         \<and> (\<forall>l \<in> set (lLocalLandmarks (buildGraph ext b st)).
            mnLandmarkId (landmarks s l) \<le> maxLandmarkId (buildGraph ext b st))"
proof -
  define st1 where "st1 = st\<lparr>optimizer := emptyOptimizer\<lparr>forceStopFlag := b\<rparr>, maxKFId := 0, maxLandmarkId := 0\<rparr>"
  define st2 where "st2 = fold (addLocalKeyFrameVertex ext) (lLocalKeyFrames st1) st1"
  define st3 where "st3 = fold (addFixedKeyFrameVertex ext) (lFixedCameras st2) st2"
  define st4 where "st4 = fold addLandmarkVertex (lLocalLandmarks st3) st3"
  define st5 where "st5 = fold (addMapPointVertex ext) (lLocalMapPoints st4) st4"
  have b5: "buildGraph ext b st = st5"
    by (simp add: buildGraph_def Let_def st1_def st2_def st3_def st4_def st5_def)
  have u1: "uncommitted s st1"
    using assms by (simp add: st1_def)
  have 2: "uncommitted s st2 \<and> (\<forall>x \<in> set (lLocalKeyFrames st1). mnId (keyframes s x) \<le> maxKFId st2)"
    unfolding st2_def
  proof (rule fold_all_inv [where I = "uncommitted s" and Q = "\<lambda>x t. mnId (keyframes s x) \<le> maxKFId t"])
    show "uncommitted s st1" by (rule u1)
    show "uncommitted s (addLocalKeyFrameVertex ext x t)" if "uncommitted s t" for x t
      using that by (rule uncommitted_addLocalKeyFrameVertex)
    show "mnId (keyframes s x) \<le> maxKFId (addLocalKeyFrameVertex ext x t)" if "uncommitted s t" for x t
      using that by (rule maxKFId_addLocalKeyFrameVertex(1))
    show "mnId (keyframes s x) \<le> maxKFId (addLocalKeyFrameVertex ext y t)"
      if "uncommitted s t" and "mnId (keyframes s x) \<le> maxKFId t" for x y t
      using that(2) maxKFId_addLocalKeyFrameVertex(2) [OF that(1), of ext y] by (rule order_trans)
  qed
  have s2: "selectionOf st2 = selectionOf st1" unfolding st2_def
    by (rule fold_same) (rule selectionOf_addLocalKeyFrameVertex)
  have f2: "lFixedCameras st2 = lFixedCameras st" and l1: "lLocalKeyFrames st1 = lLocalKeyFrames st"
    using s2 by (simp_all add: selectionOf_def st1_def)
  have 3: "(uncommitted s st3 \<and> (\<forall>x \<in> set (lLocalKeyFrames st1). mnId (keyframes s x) \<le> maxKFId st3))
           \<and> (\<forall>x \<in> set (lFixedCameras st2). mnId (keyframes s x) \<le> maxKFId st3)"
    unfolding st3_def
  proof (rule fold_all_inv [where
        I = "\<lambda>t. uncommitted s t \<and> (\<forall>x \<in> set (lLocalKeyFrames st1). mnId (keyframes s x) \<le> maxKFId t)"
        and Q = "\<lambda>x t. mnId (keyframes s x) \<le> maxKFId t"])
    show "uncommitted s st2 \<and> (\<forall>x \<in> set (lLocalKeyFrames st1). mnId (keyframes s x) \<le> maxKFId st2)"
      by (rule 2)
    show "uncommitted s (addFixedKeyFrameVertex ext x t)
          \<and> (\<forall>x' \<in> set (lLocalKeyFrames st1). mnId (keyframes s x') \<le> maxKFId (addFixedKeyFrameVertex ext x t))"
      if "uncommitted s t \<and> (\<forall>x \<in> set (lLocalKeyFrames st1). mnId (keyframes s x) \<le> maxKFId t)" for x t
      using that maxKFId_addFixedKeyFrameVertex(2) [of s t ext x]
      by (auto simp add: uncommitted_addFixedKeyFrameVertex intro: order_trans)
    show "mnId (keyframes s x) \<le> maxKFId (addFixedKeyFrameVertex ext x t)"
      if "uncommitted s t \<and> (\<forall>x \<in> set (lLocalKeyFrames st1). mnId (keyframes s x) \<le> maxKFId t)" for x t
      using that by (simp add: maxKFId_addFixedKeyFrameVertex(1))
    show "mnId (keyframes s x) \<le> maxKFId (addFixedKeyFrameVertex ext y t)"
      if "uncommitted s t \<and> (\<forall>x \<in> set (lLocalKeyFrames st1). mnId (keyframes s x) \<le> maxKFId t)"
        and "mnId (keyframes s x) \<le> maxKFId t" for x y t
      using that maxKFId_addFixedKeyFrameVertex(2) [of s t ext y] by (auto intro: order_trans)
  qed
  have k3: "\<forall>x \<in> set (lLocalKeyFrames st) \<union> set (lFixedCameras st). mnId (keyframes s x) \<le> maxKFId st3"
    using 3 by (auto simp add: f2 l1)
  have u3: "uncommitted s st3"
    using 3 by simp
  have lm3: "landmarks st3 = landmarks s"
    using u3 by (simp add: uncommitted_def)
  have 4: "(maxKFId st4 = maxKFId st3 \<and> lLocalLandmarks st4 = lLocalLandmarks st3 \<and> landmarks st4 = landmarks s)
           \<and> (\<forall>l \<in> set (lLocalLandmarks st3). mnLandmarkId (landmarks s l) \<le> maxLandmarkId st4)"
    unfolding st4_def
  proof (rule fold_all_inv [where
        I = "\<lambda>t. maxKFId t = maxKFId st3 \<and> lLocalLandmarks t = lLocalLandmarks st3 \<and> landmarks t = landmarks s"
        and Q = "\<lambda>l t. mnLandmarkId (landmarks s l) \<le> maxLandmarkId t"])
    show "maxKFId st3 = maxKFId st3 \<and> lLocalLandmarks st3 = lLocalLandmarks st3 \<and> landmarks st3 = landmarks s"
      by (simp add: lm3)
    show "maxKFId (addLandmarkVertex x t) = maxKFId st3
          \<and> lLocalLandmarks (addLandmarkVertex x t) = lLocalLandmarks st3
          \<and> landmarks (addLandmarkVertex x t) = landmarks s"
      if "maxKFId t = maxKFId st3 \<and> lLocalLandmarks t = lLocalLandmarks st3 \<and> landmarks t = landmarks s" for x t
      using that by (simp add: maxima_addLandmarkVertex)
    show "mnLandmarkId (landmarks s x) \<le> maxLandmarkId (addLandmarkVertex x t)"
      if "maxKFId t = maxKFId st3 \<and> lLocalLandmarks t = lLocalLandmarks st3 \<and> landmarks t = landmarks s" for x t
      using that maxima_addLandmarkVertex(4) [of t x] by simp
    show "mnLandmarkId (landmarks s x) \<le> maxLandmarkId (addLandmarkVertex y t)"
      if "maxKFId t = maxKFId st3 \<and> lLocalLandmarks t = lLocalLandmarks st3 \<and> landmarks t = landmarks s"
        and "mnLandmarkId (landmarks s x) \<le> maxLandmarkId t" for x y t
      using that(2) maxima_addLandmarkVertex(5) [of t y] by (rule order_trans)
  qed
  have "maximaOf st5 = maximaOf st4" unfolding st5_def
    by (rule fold_same) (rule maximaOf_addMapPointVertex)
  then have 5: "maxKFId st5 = maxKFId st4" "maxLandmarkId st5 = maxLandmarkId st4"
    "lLocalLandmarks st5 = lLocalLandmarks st4"
    by (simp_all add: maximaOf_def)
  show ?thesis
    unfolding b5 using k3 4 5 by simp
qed

lemma poseVertexId_small:
  "uint (mnId k) < 2 ^ 31 \<Longrightarrow> poseVertexId k = uint (mnId k)"
  by (simp only: poseVertexId_def toInt_small)

lemma cuboidVertexId_small:
  assumes "uint K + uint (mnLandmarkId l) + 1 < 2 ^ 31"
  shows "cuboidVertexId K l = uint K + 1 + uint (mnLandmarkId l)"
proof -
  have "uint K + 1 < 2 ^ 31"
    using assms uint_ge_0 [of "mnLandmarkId l"] by linarith
  then have "uint K + uint (1 :: ulong) < 2 ^ 31"
    by simp
  then have "uint (K + 1) = uint K + uint (1 :: ulong)"
    by (rule uint_add_small)
  then have 1: "uint (K + 1) = uint K + 1"
    by simp
  have "uint (K + 1) + uint (mnLandmarkId l) < 2 ^ 31"
    unfolding 1 using assms by linarith
  then have "uint (K + 1 + mnLandmarkId l) = uint (K + 1) + uint (mnLandmarkId l)"
    by (rule uint_add_small)
  then have 2: "uint (K + 1 + mnLandmarkId l) = uint K + 1 + uint (mnLandmarkId l)"
    by (simp only: 1)
  have "toInt (K + 1 + mnLandmarkId l) = uint (K + 1 + mnLandmarkId l)"
  proof (rule toInt_small)
    show "uint (K + 1 + mnLandmarkId l) < 2 ^ 31"
      unfolding 2 using assms by linarith
  qed
  then show ?thesis
    by (simp only: cuboidVertexId_def 2)
qed

lemma pointVertexId_small:
  assumes "uint (mp_mnId m) + uint K + uint N + 2 < 2 ^ 31"
  shows "pointVertexId K N m = uint (mp_mnId m) + uint K + uint N + 2"
proof -
  have "uint (mp_mnId m) + uint K < 2 ^ 31"
    using assms uint_ge_0 [of N] by linarith
  then have 1: "uint (mp_mnId m + K) = uint (mp_mnId m) + uint K"
    by (rule uint_add_small)
  have "uint (mp_mnId m + K) + uint N < 2 ^ 31"
    unfolding 1 using assms by linarith
  then have "uint (mp_mnId m + K + N) = uint (mp_mnId m + K) + uint N"
    by (rule uint_add_small)
  then have 2: "uint (mp_mnId m + K + N) = uint (mp_mnId m) + uint K + uint N"
    by (simp only: 1)
  have "uint (mp_mnId m + K + N) + 2 < 2 ^ 31"
    unfolding 2 using assms by linarith
  then have "uint (mp_mnId m + K + N) + uint (2 :: ulong) < 2 ^ 31"
    by simp
  then have "uint (mp_mnId m + K + N + 2) = uint (mp_mnId m + K + N) + uint (2 :: ulong)"
    by (rule uint_add_small)
  then have 3: "uint (mp_mnId m + K + N + 2) = uint (mp_mnId m) + uint K + uint N + 2"
    by (simp add: 2)
  have "toInt (mp_mnId m + K + N + 2) = uint (mp_mnId m + K + N + 2)"
  proof (rule toInt_small)
    show "uint (mp_mnId m + K + N + 2) < 2 ^ 31"
      unfolding 3 using assms by linarith
  qed
  then show ?thesis
    by (simp only: pointVertexId_def 3)
qed

lemma idRangesSeparate_prepare:
  assumes "idsFitInt (prepare ext pKF pbStopFlag s)"
  shows "idRangesSeparate (prepare ext pKF pbStopFlag s)"
proof -
  let ?P = "prepare ext pKF pbStopFlag s"
  let ?W = "selectWindow pKF (enter s)"
  define K where "K = maxKFId ?P"
  define N where "N = maxLandmarkId ?P"
  note nn = uint_ge_0 [of K] uint_ge_0 [of N]
  have uW: "uncommitted s ?W"
    by (simp add: uncommitted_selectWindow uncommitted_enter)
  have lm: "landmarks ?P = landmarks s"
    using uncommitted_prepare [of s ext pKF pbStopFlag] by (simp add: uncommitted_def)
  from maxima_buildGraph [OF uW, of ext "pbStopFlag \<noteq> None", folded prepare_def]
  have kb: "\<forall>x \<in> set (lLocalKeyFrames ?P) \<union> set (lFixedCameras ?P). mnId (keyframes ?P x) \<le> K"
    and lb: "\<forall>l \<in> set (lLocalLandmarks ?P). mnLandmarkId (landmarks ?P l) \<le> N"
    by (simp_all add: K_def N_def lm lists_prepare mnId_prepare)
  from assms have h0: "uint K + uint N + 2 < 2 ^ 31"
    and h1: "\<forall>m \<in> set (lLocalMapPoints ?P). uint (mp_mnId (mappoints ?P m)) + uint K + uint N + 2 < 2 ^ 31"
    by (simp_all add: idsFitInt_def K_def N_def)
  have pose: "poseVertexId (keyframes ?P x) = uint (mnId (keyframes ?P x))
              \<and> mnId (keyframes ?P x) \<le> K \<and> uint (mnId (keyframes ?P x)) \<le> uint K"
    if "x \<in> set (lLocalKeyFrames ?P) \<union> set (lFixedCameras ?P)" for x
  proof -
    from kb that have le: "mnId (keyframes ?P x) \<le> K" by blast
    then have ule: "uint (mnId (keyframes ?P x)) \<le> uint K"
      by (simp add: word_le_def)
    with h0 nn have "uint (mnId (keyframes ?P x)) < 2 ^ 31" by linarith
    then show ?thesis
      using le ule by (simp add: poseVertexId_small)
  qed
  have cub: "cuboidVertexId K (landmarks ?P l) = uint K + 1 + uint (mnLandmarkId (landmarks ?P l))
             \<and> mnLandmarkId (landmarks ?P l) \<le> N \<and> uint (mnLandmarkId (landmarks ?P l)) \<le> uint N"
    if "l \<in> set (lLocalLandmarks ?P)" for l
  proof -
    from lb that have le: "mnLandmarkId (landmarks ?P l) \<le> N" by blast
    then have ule: "uint (mnLandmarkId (landmarks ?P l)) \<le> uint N"
      by (simp add: word_le_def)
    with h0 have "uint K + uint (mnLandmarkId (landmarks ?P l)) + 1 < 2 ^ 31" by linarith
    then show ?thesis
      using le ule by (simp add: cuboidVertexId_small)
  qed
  have pt: "pointVertexId K N (mappoints ?P m)
              = uint (mp_mnId (mappoints ?P m)) + uint K + uint N + 2"
    if "m \<in> set (lLocalMapPoints ?P)" for m
    using h1 that by (simp add: pointVertexId_small)
  have c4: "poseVertexId (keyframes ?P x) < cuboidVertexId K (landmarks ?P l)"
    if "x \<in> set (lLocalKeyFrames ?P) \<union> set (lFixedCameras ?P)" and "l \<in> set (lLocalLandmarks ?P)" for x l
  proof -
    from pose [OF that(1)] have a: "poseVertexId (keyframes ?P x) = uint (mnId (keyframes ?P x))"
      and b: "uint (mnId (keyframes ?P x)) \<le> uint K" by blast+
    from cub [OF that(2)]
    have c: "cuboidVertexId K (landmarks ?P l) = uint K + 1 + uint (mnLandmarkId (landmarks ?P l))"
      by blast
    show ?thesis unfolding a c using b uint_ge_0 [of "mnLandmarkId (landmarks ?P l)"] by linarith
  qed
  have c5: "poseVertexId (keyframes ?P x) < pointVertexId K N (mappoints ?P m)"
    if "x \<in> set (lLocalKeyFrames ?P) \<union> set (lFixedCameras ?P)" and "m \<in> set (lLocalMapPoints ?P)" for x m
  proof -
    from pose [OF that(1)] have a: "poseVertexId (keyframes ?P x) = uint (mnId (keyframes ?P x))"
      and b: "uint (mnId (keyframes ?P x)) \<le> uint K" by blast+
    show ?thesis unfolding a pt [OF that(2)]
      using b nn uint_ge_0 [of "mp_mnId (mappoints ?P m)"] by linarith
  qed
  have c6: "cuboidVertexId K (landmarks ?P l) < pointVertexId K N (mappoints ?P m)"
    if "l \<in> set (lLocalLandmarks ?P)" and "m \<in> set (lLocalMapPoints ?P)" for l m
  proof -
    from cub [OF that(1)]
    have c: "cuboidVertexId K (landmarks ?P l) = uint K + 1 + uint (mnLandmarkId (landmarks ?P l))"
      and b: "uint (mnLandmarkId (landmarks ?P l)) \<le> uint N" by blast+
    show ?thesis unfolding c pt [OF that(2)]
      using b uint_ge_0 [of "mp_mnId (mappoints ?P m)"] by linarith
  qed
  have c1: "\<forall>k \<in> set (map (keyframes ?P) (lLocalKeyFrames ?P @ lFixedCameras ?P)).
              poseVertexId k = uint (mnId k) \<and> mnId k \<le> K"
    using pose by auto
  have c2: "\<forall>l \<in> set (map (landmarks ?P) (lLocalLandmarks ?P)).
              cuboidVertexId K l = uint K + 1 + uint (mnLandmarkId l) \<and> mnLandmarkId l \<le> N"
    using cub by auto
  have c3: "\<forall>m \<in> set (map (mappoints ?P) (lLocalMapPoints ?P)).
              pointVertexId K N m = uint (mp_mnId m) + uint K + uint N + 2"
    using pt by auto
  have c4': "\<forall>k \<in> set (map (keyframes ?P) (lLocalKeyFrames ?P @ lFixedCameras ?P)).
               \<forall>l \<in> set (map (landmarks ?P) (lLocalLandmarks ?P)). poseVertexId k < cuboidVertexId K l"
    using c4 by auto
  have c5': "\<forall>k \<in> set (map (keyframes ?P) (lLocalKeyFrames ?P @ lFixedCameras ?P)).
               \<forall>m \<in> set (map (mappoints ?P) (lLocalMapPoints ?P)). poseVertexId k < pointVertexId K N m"
    using c5 by auto
  have c6': "\<forall>l \<in> set (map (landmarks ?P) (lLocalLandmarks ?P)).
               \<forall>m \<in> set (map (mappoints ?P) (lLocalMapPoints ?P)). cuboidVertexId K l < pointVertexId K N m"
    using c6 by auto
  show ?thesis
    unfolding idRangesSeparate_def Let_def K_def [symmetric] N_def [symmetric]
    by (intro conjI c1 c2 c3 c4' c5' c6')
qed
section \<open>Degenerate input\<close>

lemma vertex_addVertex:
  "vertex (addVertex j v g) i = (if vertex g i = None \<and> i = j then Some v else vertex g i)"
  by (auto simp add: addVertex_def vertex_def map_add_def split: option.splits)

lemma poseAt_addVertex: "poseAt g i \<Longrightarrow> poseAt (addVertex j v g) i"
  by (auto simp add: poseAt_def vertex_addVertex split: option.splits)

lemma cuboidAt_addVertex: "cuboidAt g i \<Longrightarrow> cuboidAt (addVertex j v g) i"
  by (auto simp add: cuboidAt_def vertex_addVertex split: option.splits)

lemma othersAreCuboids_addVertex:
  "othersAreCuboids i g \<Longrightarrow> othersAreCuboids i (addVertex j (VertexCuboid b c) g)"
  by (auto simp add: othersAreCuboids_def cuboidAt_def vertex_addVertex split: option.splits)

lemma cuboidAt_added:
  assumes "othersAreCuboids i g" and "j \<noteq> i"
  shows "cuboidAt (addVertex j (VertexCuboid b c) g) j"
  using assms by (auto simp add: othersAreCuboids_def cuboidAt_def vertex_addVertex split: option.splits)

lemma vertex_optimize:
  "vertex (optimize ext n g) i
     = (case vertex g i of
          None \<Rightarrow> None
        | Some (VertexSE3Expmap b q) \<Rightarrow> Some (VertexSE3Expmap b (solvePose ext n g i))
        | Some (VertexCuboid b c) \<Rightarrow> Some (VertexCuboid b (solveCuboid ext n g i))
        | Some (VertexSBAPointXYZ b x) \<Rightarrow> Some (VertexSBAPointXYZ b (solvePoint ext n g i)))"
proof -
  have "map_of (map (newEstimate ext n g') xs) i
     = (case map_of xs i of
          None \<Rightarrow> None
        | Some (VertexSE3Expmap b q) \<Rightarrow> Some (VertexSE3Expmap b (solvePose ext n g' i))
        | Some (VertexCuboid b c) \<Rightarrow> Some (VertexCuboid b (solveCuboid ext n g' i))
        | Some (VertexSBAPointXYZ b x) \<Rightarrow> Some (VertexSBAPointXYZ b (solvePoint ext n g' i)))" for xs g'
    by (induction xs) (auto simp add: newEstimate_def split: Vertex.splits)
  then show ?thesis
    by (simp add: vertex_def optimize_def)
qed

lemma kinds_optimize [simp]:
  "poseAt (optimize ext n g) i = poseAt g i"
  "cuboidAt (optimize ext n g) i = cuboidAt g i"
  by (simp_all add: poseAt_def cuboidAt_def vertex_optimize split: option.splits Vertex.splits)

lemma fold_addLocalMapPoint_None:
  "\<forall>x \<in> set xs. x = None \<Longrightarrow> fold (addLocalMapPoint kid) xs st = st"
  by (induction xs arbitrary: st) (simp_all add: addLocalMapPoint_def)

lemma degenerate_window:
  assumes "degenerate pKF s"
  shows "selectWindow pKF (enter s)
           = updKF pKF (\<lambda>k. k\<lparr>mnBALocalForKF := mnId (keyframes s pKF)\<rparr>)
               ((enter s)\<lparr>lLocalKeyFrames := [pKF]\<rparr>)"
proof -
  let ?st2 = "updKF pKF (\<lambda>k. k\<lparr>mnBALocalForKF := mnId (keyframes s pKF)\<rparr>)
               ((enter s)\<lparr>lLocalKeyFrames := [pKF]\<rparr>)"
  have k: "selectLocalKeyFrames pKF (enter s) = ?st2"
    using assms by (simp add: selectLocalKeyFrames_def Let_def degenerate_def enter_def updKF_def)
  have m: "mvpMapPoints (keyframes ?st2 pKF) = mvpMapPoints (keyframes s pKF)"
    by (simp add: updKF_def enter_def)
  have "localMapPointsOf kid pKF ?st2 = ?st2" for kid
    unfolding localMapPointsOf_def m
    by (rule fold_addLocalMapPoint_None) (use assms in \<open>simp add: degenerate_def\<close>)
  then have p: "selectLocalMapPoints kid ?st2 = ?st2" for kid
    by (simp add: selectLocalMapPoints_def updKF_def enter_def)
  have f: "selectFixedCameras kid ?st2 = ?st2" for kid
    by (simp add: selectFixedCameras_def updKF_def enter_def)
  show ?thesis
    by (simp add: selectWindow_def Let_def k p f)
qed

lemma degenerate_lists:
  assumes "degenerate pKF s"
  shows "lLocalKeyFrames (selectWindow pKF (enter s)) = [pKF]"
    and "lLocalMapPoints (selectWindow pKF (enter s)) = []"
    and "lFixedCameras (selectWindow pKF (enter s)) = []"
    and "lLocalLandmarks (selectWindow pKF (enter s)) = []"
  unfolding degenerate_window [OF assms] by (simp_all add: updKF_def enter_def)

lemma lLocalLandmarks_cacheLandmarks:
  "set (lLocalLandmarks (fold (cacheLandmark ext p) xs st)) = set xs \<union> set (lLocalLandmarks st)"
  by (induction xs arbitrary: st) (auto simp add: cacheLandmark_def updKF_def Let_def)

lemma graph_cacheLandmark:
  "optimizer (cacheLandmark ext p l st) = optimizer st"
  "fault (cacheLandmark ext p l st) = fault st"
  "maxKFId (cacheLandmark ext p l st) = maxKFId st"
  by (simp_all add: cacheLandmark_def updKF_def Let_def)

lemma loneGraph_first_vertex:
  assumes "uncommitted s st" and "optimizer st = emptyOptimizer\<lparr>forceStopFlag := b\<rparr>"
    and "maxKFId st = 0" and "fault st = None" and "lLocalLandmarks st = []"
  shows "loneGraph (poseVertexId (keyframes s pKF)) (mnId (keyframes s pKF)) s
           (addLocalKeyFrameVertex ext pKF st)"
    and "set (lLocalLandmarks (addLocalKeyFrameVertex ext pKF st)) = set (mvpLandmarks (keyframes s pKF))"
proof -
  define st1 where "st1 = fold (cacheLandmark ext pKF) (mvpLandmarks (keyframes st pKF)) st"
  have u1: "uncommitted s st1" unfolding st1_def
    by (rule fold_inv) (simp_all add: assms(1) uncommitted_cacheLandmark)
  have id: "mnId (keyframes st1 pKF) = mnId (keyframes s pKF)"
    by (rule sameKeyFrame_fields(2) [OF uncommitted_keyframe [OF u1]])
  have lms: "mvpLandmarks (keyframes st pKF) = mvpLandmarks (keyframes s pKF)"
    by (rule sameKeyFrame_fields(4) [OF uncommitted_keyframe [OF assms(1)]])
  have o1: "optimizer st1 = optimizer st" unfolding st1_def
    by (rule fold_same) (rule graph_cacheLandmark)
  have f1: "fault st1 = fault st" unfolding st1_def
    by (rule fold_same) (rule graph_cacheLandmark)
  have m1: "maxKFId st1 = maxKFId st" unfolding st1_def
    by (rule fold_same) (rule graph_cacheLandmark)
  have l1: "landmarks st1 = landmarks s"
    using u1 by (simp add: uncommitted_def)
  have ll: "set (lLocalLandmarks st1) = set (mvpLandmarks (keyframes s pKF))"
    by (simp add: st1_def lLocalLandmarks_cacheLandmarks assms(5) lms)
  have mx: "(if (0 :: ulong) < mnId (keyframes s pKF) then mnId (keyframes s pKF) else 0) = mnId (keyframes s pKF)"
    by (simp add: word_gt_0)
  show "loneGraph (poseVertexId (keyframes s pKF)) (mnId (keyframes s pKF)) s
           (addLocalKeyFrameVertex ext pKF st)"
    using mx
    by (auto simp add: addLocalKeyFrameVertex_def Let_def updOpt_def loneGraph_def poseAt_def
        othersAreCuboids_def cuboidAt_def vertex_addVertex o1 f1 m1 l1 id assms vertex_def
        emptyOptimizer_def addVertex_def poseVertexId_def simp flip: st1_def)
  show "set (lLocalLandmarks (addLocalKeyFrameVertex ext pKF st)) = set (mvpLandmarks (keyframes s pKF))"
    using ll by (simp add: addLocalKeyFrameVertex_def Let_def updOpt_def flip: st1_def)
qed

lemma fields_addVertex:
  "edgesMono (addVertex j v g) = edgesMono g"
  "edgesStereo (addVertex j v g) = edgesStereo g"
  "edgesCuboid (addVertex j v g) = edgesCuboid g"
  "optimizeCalls (addVertex j v g) = optimizeCalls g"
  by (simp_all add: addVertex_def)

lemma loneGraph_addLandmarkVertex:
  assumes "loneGraph i K s st"
  shows "loneGraph i K s (addLandmarkVertex l st)"
    and "cuboidVertexId K (landmarks s l) \<noteq> i
           \<longrightarrow> cuboidAt (optimizer (addLandmarkVertex l st)) (cuboidVertexId K (landmarks s l))"
  using assms
  by (auto simp add: loneGraph_def addLandmarkVertex_def Let_def updOpt_def poseAt_addVertex
      othersAreCuboids_addVertex cuboidAt_added fields_addVertex)

lemma loneGraph_landmarks:
  assumes "loneGraph i K s st"
  shows "loneGraph i K s (fold addLandmarkVertex xs st)
         \<and> (\<forall>l \<in> set xs. cuboidVertexId K (landmarks s l) \<noteq> i
               \<longrightarrow> cuboidAt (optimizer (fold addLandmarkVertex xs st)) (cuboidVertexId K (landmarks s l)))"
proof (rule fold_all_inv [where I = "loneGraph i K s"
      and Q = "\<lambda>l t. cuboidVertexId K (landmarks s l) \<noteq> i
                 \<longrightarrow> cuboidAt (optimizer t) (cuboidVertexId K (landmarks s l))"])
  show "loneGraph i K s st" by (rule assms)
  show "loneGraph i K s (addLandmarkVertex x t)" if "loneGraph i K s t" for x t
    using that by (rule loneGraph_addLandmarkVertex(1))
  show "cuboidVertexId K (landmarks s x) \<noteq> i
          \<longrightarrow> cuboidAt (optimizer (addLandmarkVertex x t)) (cuboidVertexId K (landmarks s x))"
    if "loneGraph i K s t" for x t
    using that by (rule loneGraph_addLandmarkVertex(2))
  show "cuboidVertexId K (landmarks s x) \<noteq> i
          \<longrightarrow> cuboidAt (optimizer (addLandmarkVertex y t)) (cuboidVertexId K (landmarks s x))"
    if "loneGraph i K s t"
      and "cuboidVertexId K (landmarks s x) \<noteq> i \<longrightarrow> cuboidAt (optimizer t) (cuboidVertexId K (landmarks s x))"
    for x y t
    using that by (auto simp add: addLandmarkVertex_def Let_def updOpt_def cuboidAt_addVertex)
qed

lemma degenerate_prepare:
  assumes "degenerate pKF s"
  shows "loneGraph (poseVertexId (keyframes s pKF)) (mnId (keyframes s pKF)) s (prepare ext pKF flag s)"
    and "set (lLocalLandmarks (prepare ext pKF flag s)) = set (mvpLandmarks (keyframes s pKF))"
    and "\<forall>l \<in> set (lLocalLandmarks (prepare ext pKF flag s)).
           cuboidVertexId (mnId (keyframes s pKF)) (landmarks s l) \<noteq> poseVertexId (keyframes s pKF)
           \<longrightarrow> cuboidAt (optimizer (prepare ext pKF flag s))
                 (cuboidVertexId (mnId (keyframes s pKF)) (landmarks s l))"
proof -
  let ?W = "selectWindow pKF (enter s)"
  let ?i = "poseVertexId (keyframes s pKF)"
  let ?K = "mnId (keyframes s pKF)"
  define st1 where "st1 = ?W\<lparr>optimizer := emptyOptimizer\<lparr>forceStopFlag := flag \<noteq> None\<rparr>,
                               maxKFId := 0, maxLandmarkId := 0\<rparr>"
  define st2 where "st2 = addLocalKeyFrameVertex ext pKF st1"
  define st4 where "st4 = fold addLandmarkVertex (lLocalLandmarks st2) st2"
  note lists = degenerate_lists [OF assms]
  have u1: "uncommitted s st1"
    by (simp add: st1_def uncommitted_selectWindow uncommitted_enter)
  have w: "fault ?W = None"
    unfolding degenerate_window [OF assms] by (simp add: updKF_def enter_def)
  have a1: "optimizer st1 = emptyOptimizer\<lparr>forceStopFlag := flag \<noteq> None\<rparr>" "maxKFId st1 = 0"
    "fault st1 = None" "lLocalLandmarks st1 = []"
    by (simp_all add: st1_def lists w)
  have g2: "loneGraph ?i ?K s st2"
    unfolding st2_def by (rule loneGraph_first_vertex(1) [OF u1 a1])
  have l2: "set (lLocalLandmarks st2) = set (mvpLandmarks (keyframes s pKF))"
    unfolding st2_def by (rule loneGraph_first_vertex(2) [OF u1 a1])
  have s2: "selectionOf st2 = selectionOf st1"
    unfolding st2_def by (rule selectionOf_addLocalKeyFrameVertex)
  then have f2: "lFixedCameras st2 = []"
    by (simp add: selectionOf_def st1_def lists)
  have 4: "loneGraph ?i ?K s st4
           \<and> (\<forall>l \<in> set (lLocalLandmarks st2). cuboidVertexId ?K (landmarks s l) \<noteq> ?i
                 \<longrightarrow> cuboidAt (optimizer st4) (cuboidVertexId ?K (landmarks s l)))"
    unfolding st4_def by (rule loneGraph_landmarks) (rule g2)
  have "lLocalLandmarks st4 = lLocalLandmarks st2" unfolding st4_def
    by (rule fold_same) (rule maxima_addLandmarkVertex)
  then have l4: "set (lLocalLandmarks st4) = set (mvpLandmarks (keyframes s pKF))"
    by (simp add: l2)
  have "selectionOf st4 = selectionOf st2" unfolding st4_def
    by (rule fold_same) (rule selectionOf_addLandmarkVertex)
  with s2 have p4: "lLocalMapPoints st4 = []"
    by (simp add: selectionOf_def st1_def lists)
  have k1: "lLocalKeyFrames st1 = [pKF]"
    by (simp add: st1_def lists)
  have k2: "fold (addLocalKeyFrameVertex ext) [pKF] st1 = st2"
    by (simp add: st2_def)
  have k3: "fold (addFixedKeyFrameVertex ext) [] st2 = st2"
    by simp
  have k4: "fold (addMapPointVertex ext) [] st4 = st4"
    by simp
  have P: "prepare ext pKF flag s = st4"
    unfolding prepare_def buildGraph_def Let_def st1_def [symmetric] k1 k2 f2 k3
      st4_def [symmetric] p4 k4 by (rule refl)
  show "loneGraph ?i ?K s (prepare ext pKF flag s)"
    unfolding P using 4 by simp
  show "set (lLocalLandmarks (prepare ext pKF flag s)) = set (mvpLandmarks (keyframes s pKF))"
    unfolding P by (rule l4)
  show "\<forall>l \<in> set (lLocalLandmarks (prepare ext pKF flag s)).
           cuboidVertexId ?K (landmarks s l) \<noteq> ?i
           \<longrightarrow> cuboidAt (optimizer (prepare ext pKF flag s)) (cuboidVertexId ?K (landmarks s l))"
    unfolding P using 4 l2 l4 by simp
qed

lemma none_optimize: "(vertex (optimize ext n g) j = None) = (vertex g j = None)"
  by (simp add: vertex_optimize split: option.splits Vertex.splits)

lemma othersAreCuboids_optimize [simp]:
  "othersAreCuboids i (optimize ext n g) = othersAreCuboids i g"
  by (simp add: othersAreCuboids_def none_optimize)

lemma loneGraph_optimize: "loneGraph i K s st \<Longrightarrow> loneGraph i K s (updOpt (optimize ext n) st)"
  by (simp add: loneGraph_def updOpt_def)

lemma loneGraph_markOutliers: "loneGraph i K s st \<Longrightarrow> loneGraph i K s (markOutliers ext st)"
  by (simp add: loneGraph_def markOutliers_def updOpt_def poseAt_def cuboidAt_def
      othersAreCuboids_def vertex_def)

lemma loneGraph_finalClassification:
  "loneGraph i K s st \<Longrightarrow>
     loneGraph i K s (finalClassification ext st) \<and> vToErase (finalClassification ext st) = []"
  by (simp add: loneGraph_def finalClassification_def)

lemma recoverLandmark_lone:
  assumes "fault t = None \<and> optimizer t = g \<and> maxKFId t = K
           \<and> (\<forall>l. mnLandmarkId (landmarks t l) = mnLandmarkId (landmarks s l))"
    and "cuboidAt g (cuboidVertexId K (landmarks s x))"
  shows "fault (recoverLandmark x t) = None \<and> optimizer (recoverLandmark x t) = g
         \<and> maxKFId (recoverLandmark x t) = K
         \<and> (\<forall>l. mnLandmarkId (landmarks (recoverLandmark x t) l) = mnLandmarkId (landmarks s l))"
proof -
  have "cuboidVertexId K (landmarks t x) = cuboidVertexId K (landmarks s x)"
    using assms(1) by (simp add: cuboidVertexId_def)
  then show ?thesis
    using assms
    by (auto simp add: recoverLandmark_def cuboidAt_def updLM_def split: option.splits Vertex.splits)
qed

lemma commit_lone:
  assumes "loneGraph i K s st" and "lLocalKeyFrames st = [pKF]" and "lLocalMapPoints st = []"
    and "vToErase st = []" and "poseVertexId (keyframes st pKF) = i"
    and "\<forall>l \<in> set (lLocalLandmarks st). cuboidAt (optimizer st) (cuboidVertexId K (landmarks s l))"
  shows "fault (commit ext st) = None"
proof -
  define st2 where "st2 = recoverKeyFrame ext pKF st"
  define st3 where "st3 = fold recoverLandmark (lLocalLandmarks st2) st2"
  have 2: "fault st2 = None \<and> optimizer st2 = optimizer st \<and> maxKFId st2 = K
           \<and> (\<forall>l. mnLandmarkId (landmarks st2 l) = mnLandmarkId (landmarks s l))"
    and l2: "lLocalLandmarks st2 = lLocalLandmarks st" and p2: "lLocalMapPoints st2 = []"
    using assms(1,3,5)
    by (auto simp add: st2_def recoverKeyFrame_def loneGraph_def poseAt_def updKF_def
        split: option.splits Vertex.splits)
  have 3: "fault st3 = None \<and> optimizer st3 = optimizer st \<and> maxKFId st3 = K
           \<and> (\<forall>l. mnLandmarkId (landmarks st3 l) = mnLandmarkId (landmarks s l))"
    unfolding st3_def
  proof (rule fold_inv)
    show "fault st2 = None \<and> optimizer st2 = optimizer st \<and> maxKFId st2 = K
           \<and> (\<forall>l. mnLandmarkId (landmarks st2 l) = mnLandmarkId (landmarks s l))"
      by (rule 2)
    show "fault (recoverLandmark x t) = None \<and> optimizer (recoverLandmark x t) = optimizer st
         \<and> maxKFId (recoverLandmark x t) = K
         \<and> (\<forall>l. mnLandmarkId (landmarks (recoverLandmark x t) l) = mnLandmarkId (landmarks s l))"
      if "x \<in> set (lLocalLandmarks st2)"
        and "fault t = None \<and> optimizer t = optimizer st \<and> maxKFId t = K
           \<and> (\<forall>l. mnLandmarkId (landmarks t l) = mnLandmarkId (landmarks s l))" for x t
      using that(2) by (rule recoverLandmark_lone) (use that(1) assms(6) l2 in simp)
  qed
  have "localsOf st3 = localsOf st2" unfolding st3_def
    by (rule fold_same) (rule localsOf_recoverLandmark)
  then have p3: "lLocalMapPoints st3 = []"
    using p2 by (simp add: localsOf_def)
  show ?thesis
    using 3 by (simp add: commit_def Let_def assms(2,4) p3 flip: st2_def st3_def)
qed


lemma kinds_edges [simp]:
  "poseAt (g\<lparr>edgesMono := a, edgesStereo := b\<rparr>) i = poseAt g i"
  "cuboidAt (g\<lparr>edgesMono := a, edgesStereo := b\<rparr>) i = cuboidAt g i"
  by (simp_all add: poseAt_def cuboidAt_def vertex_def)

lemma solve_lone:
  assumes g: "loneGraph i K s st" and k: "lLocalKeyFrames st = [pKF]" and p: "lLocalMapPoints st = []"
    and i: "poseVertexId (keyframes st pKF) = i"
    and c: "\<forall>l \<in> set (lLocalLandmarks st). cuboidAt (optimizer st) (cuboidVertexId K (landmarks s l))"
  shows "fault (solveAndCommit ext flag st) = None"
proof -
  define st1 where "st1 = updOpt (optimize ext 5) st"
  define st2 where "st2 = (if \<not> stopAfterOptimize flag
                            then updOpt (optimize ext 10) (markOutliers ext st1) else st1)"
  define st3 where "st3 = finalClassification ext st2"
  have g1: "loneGraph i K s st1"
    unfolding st1_def using g by (rule loneGraph_optimize)
  have g2: "loneGraph i K s st2"
    unfolding st2_def using g1 by (simp add: loneGraph_optimize loneGraph_markOutliers)
  have same: "lLocalKeyFrames st2 = [pKF]" "lLocalMapPoints st2 = []" "keyframes st2 = keyframes st"
    "lLocalLandmarks st2 = lLocalLandmarks st"
    "cuboidAt (optimizer st2) j = cuboidAt (optimizer st) j" for j
    by (simp_all add: st2_def st1_def updOpt_def markOutliers_def k p)
  have g3: "loneGraph i K s st3" and v3: "vToErase st3 = []"
    unfolding st3_def using loneGraph_finalClassification [OF g2] by simp_all
  have same3: "lLocalKeyFrames st3 = [pKF]" "lLocalMapPoints st3 = []" "keyframes st3 = keyframes st"
    "lLocalLandmarks st3 = lLocalLandmarks st" "optimizer st3 = optimizer st2"
    by (simp_all add: st3_def finalClassification_def same)
  have "fault (commit ext st3) = None"
    using g3 same3(1,2) v3
    by (rule commit_lone) (simp_all add: same3 same i c)
  then show ?thesis
    unfolding solveAndCommit_def Let_def st3_def st2_def st1_def by simp
qed

lemma calls_solveAndCommit:
  "callsOf (solveAndCommit ext flag st)
     = callsOf st @ (if stopAfterOptimize flag then [5] else [5, 10])"
  by (simp add: solveAndCommit_def Let_def callsOf_def optimizer_commit updOpt_def markOutliers_def)

lemma edges_solveAndCommit:
  "edgesMono (optimizer st) = [] \<Longrightarrow> edgesMono (optimizer (solveAndCommit ext flag st)) = []"
  "edgesStereo (optimizer st) = [] \<Longrightarrow> edgesStereo (optimizer (solveAndCommit ext flag st)) = []"
  "edgesCuboid (optimizer (solveAndCommit ext flag st)) = edgesCuboid (optimizer st)"
  by (simp_all add: solveAndCommit_def Let_def optimizer_commit updOpt_def markOutliers_def)

lemma vToErase_solveAndCommit:
  "edgesMono (optimizer st) = [] \<Longrightarrow> edgesStereo (optimizer st) = []
     \<Longrightarrow> vToErase (solveAndCommit ext flag st) = []"
  by (simp add: solveAndCommit_def Let_def vToErase_commit finalClassification_def updOpt_def
      markOutliers_def)

lemma lLocalMapPoints_solveAndCommit:
  "lLocalMapPoints (solveAndCommit ext flag st) = lLocalMapPoints st"
proof -
  have "lLocalMapPoints (commit ext t) = lLocalMapPoints t" for t
    using localsOf_commit [of ext t] by (simp add: localsOf_def)
  then show ?thesis
    by (simp add: solveAndCommit_def Let_def finalClassification_def updOpt_def markOutliers_def)
qed

section \<open>Degenerate input\<close>

text \<open>
  C4 (as amended). When the trigger KeyFrame has no covisible neighbour and every
  entry of its match table is null, the window is the trigger KeyFrame alone, with no
  Local MapPoint and no Fixed Camera; the graph has no edge and nothing is marked for
  erasure. The solver is invoked as in any other run: the optimize calls are those the
  stop flag allows, 5 and then 10 iterations when the flag is null or never set.
  Provided no Landmark of the trigger KeyFrame is given the vertex id of the KeyFrame
  itself, the run ends without a fault.
\<close>

theorem degenerate_input_still_invokes_solver:
  assumes "degenerate pKF s"
  shows "lLocalKeyFrames (LocalBundleAdjustment ext pKF pbStopFlag s) = [pKF]
         \<and> lLocalMapPoints (LocalBundleAdjustment ext pKF pbStopFlag s) = []
         \<and> lFixedCameras (LocalBundleAdjustment ext pKF pbStopFlag s) = []
         \<and> edgesMono (optimizer (LocalBundleAdjustment ext pKF pbStopFlag s)) = []
         \<and> edgesStereo (optimizer (LocalBundleAdjustment ext pKF pbStopFlag s)) = []
         \<and> edgesCuboid (optimizer (LocalBundleAdjustment ext pKF pbStopFlag s)) = []
         \<and> vToErase (LocalBundleAdjustment ext pKF pbStopFlag s) = []
         \<and> callsOf (LocalBundleAdjustment ext pKF pbStopFlag s) = expectedCalls pbStopFlag
         \<and> (landmarkIdsClear pKF s \<longrightarrow> fault (LocalBundleAdjustment ext pKF pbStopFlag s) = None)"
proof -
  let ?P = "prepare ext pKF pbStopFlag s"
  let ?R = "LocalBundleAdjustment ext pKF pbStopFlag s"
  let ?i = "poseVertexId (keyframes s pKF)"
  let ?K = "mnId (keyframes s pKF)"
  note lists = degenerate_lists [OF assms]
  note dp = degenerate_prepare [OF assms, of ext pbStopFlag]
  have g: "loneGraph ?i ?K s ?P"
    by (rule dp(1))
  then have f: "fault ?P = None" and e: "edgesMono (optimizer ?P) = []"
    "edgesStereo (optimizer ?P) = []" "edgesCuboid (optimizer ?P) = []"
    by (simp_all add: loneGraph_def)
  have l: "lLocalKeyFrames ?P = [pKF]" "lFixedCameras ?P = []" "lLocalMapPoints ?P = []"
    by (simp_all add: lists_prepare lists)
  have "vToErase ?P = vToErase (selectWindow pKF (enter s))"
    using selectionOf_buildGraph [of ext "pbStopFlag \<noteq> None" "selectWindow pKF (enter s)"]
    by (simp add: prepare_def selectionOf_def)
  also have "\<dots> = []"
    unfolding degenerate_window [OF assms] by (simp add: updKF_def enter_def)
  finally have v: "vToErase ?P = []" .
  have R: "?R = (if stopBeforeOptimize pbStopFlag then ?P else solveAndCommit ext pbStopFlag ?P)"
    by (simp add: LocalBundleAdjustment_def Let_def f)
  have 1: "lLocalKeyFrames ?R = [pKF]" "lFixedCameras ?R = []"
    by (simp_all add: lists_LocalBundleAdjustment l)
  have 2: "lLocalMapPoints ?R = []"
    unfolding R by (simp add: lLocalMapPoints_solveAndCommit l)
  have 3: "edgesMono (optimizer ?R) = []" "edgesStereo (optimizer ?R) = []"
    "edgesCuboid (optimizer ?R) = []"
    unfolding R by (simp_all add: edges_solveAndCommit e)
  have 4: "vToErase ?R = []"
    unfolding R by (simp add: vToErase_solveAndCommit e v)
  have 5: "callsOf ?R = expectedCalls pbStopFlag"
    unfolding R by (simp add: calls_solveAndCommit callsOf_prepare expectedCalls_def)
  have 6: "fault ?R = None" if h: "landmarkIdsClear pKF s"
  proof -
    have i: "poseVertexId (keyframes ?P pKF) = ?i"
      by (simp add: poseVertexId_def mnId_prepare)
    have c: "\<forall>l \<in> set (lLocalLandmarks ?P).
               cuboidAt (optimizer ?P) (cuboidVertexId ?K (landmarks s l))"
      using dp(2,3) h by (simp add: landmarkIdsClear_def)
    have "fault (solveAndCommit ext pbStopFlag ?P) = None"
      using g l(1,3) i c by (rule solve_lone)
    then show ?thesis
      unfolding R by (simp add: f)
  qed
  show ?thesis
    using 1 2 3 4 5 6 by simp
qed

text \<open>
  The KeyFrame of \<open>sceneLone\<close> has no neighbour, a match table of two null entries
  and two Landmarks of ids 3 and 4; with no stop flag the run ends without a fault.
\<close>

theorem degenerate_input_still_invokes_solver_witness:
  "degenerate 0 sceneLone \<and> landmarkIdsClear 0 sceneLone
   \<and> lLocalKeyFrames (LocalBundleAdjustment ext0 0 None sceneLone) = [0]
   \<and> edgesCuboid (optimizer (LocalBundleAdjustment ext0 0 None sceneLone)) = []
   \<and> fault (LocalBundleAdjustment ext0 0 None sceneLone) = None
   \<and> map fst (vertices (optimizer (LocalBundleAdjustment ext0 0 None sceneLone))) = [7, 12, 11]"
proof -
  have d: "degenerate 0 sceneLone"
    by code_simp
  have h: "landmarkIdsClear 0 sceneLone"
    by code_simp
  have v: "map fst (vertices (optimizer (LocalBundleAdjustment ext0 0 None sceneLone))) = [7, 12, 11]"
    by code_simp
  show ?thesis
    using d h v degenerate_input_still_invokes_solver [OF d, of ext0 None] by simp
qed

text \<open>
  The claim as stated fails on the same input: the graph of the lone KeyFrame is
  optimized like any other, lines 261-262 and 304-305 run, and the solver is called
  twice.
\<close>

theorem degenerate_input_counterexample:
  "degenerate 0 sceneLone
   \<and> callsOf (LocalBundleAdjustment ext0 0 None sceneLone) = [5, 10]
   \<and> callsOf (LocalBundleAdjustment ext0 0 (Some (False, False)) sceneLone) = [5, 10]"
  by code_simp

section \<open>Caching and creation of camera-object edges\<close>

lemma fold_reach:
  assumes "x \<in> set xs" and "ok (fold f xs s)" and "I s"
    and "\<And>y t. I t \<Longrightarrow> I (f y t)"
    and "\<And>y t. ok (f y t) \<Longrightarrow> ok t"
    and "\<And>t. I t \<Longrightarrow> ok (f x t) \<Longrightarrow> Q (f x t)"
    and "\<And>y t. I t \<Longrightarrow> Q t \<Longrightarrow> Q (f y t)"
  shows "Q (fold f xs s)"
proof -
  from assms(1) obtain us bs where xs: "xs = us @ x # bs"
    by (auto dest: split_list)
  define t where "t = fold f us s"
  have it: "I t"
    unfolding t_def by (rule fold_inv) (use assms(3,4) in auto)
  have okb: "ok (fold f ys u) \<Longrightarrow> ok u" for ys u
    by (induction ys arbitrary: u) (auto dest: assms(5))
  have "ok (fold f bs (f x t))"
    using assms(2) by (simp add: xs t_def)
  then have "ok (f x t)"
    by (rule okb)
  with it have q: "Q (f x t)"
    by (rule assms(6))
  have "I (fold f bs (f x t)) \<and> Q (fold f bs (f x t))"
    by (rule fold_inv [where P = "\<lambda>u. I u \<and> Q u"]) (use it q assms(4,7) in auto)
  then show ?thesis
    by (simp add: xs t_def)
qed

lemma distinctLandmarkIds_inj:
  "distinctLandmarkIds s p \<Longrightarrow>
     inj_on (\<lambda>l. mnLandmarkId (landmarks s l)) (set (mvpLandmarks (keyframes s p)))"
  by (simp add: distinctLandmarkIds_def distinct_map)

lemma sameKeyFrame_vectors:
  assumes "sameKeyFrame k k'"
  shows "mvuRight k' = mvuRight k" and "mvKeysUn k' = mvKeysUn k"
    and "mvInvLevelSigma2 k' = mvInvLevelSigma2 k"
  using assms by (cases k; cases k'; simp add: sameKeyFrame_def)+

lemma sameMapPoint_mObservations:
  "sameMapPoint m m' \<Longrightarrow> mObservations m' = mObservations m"
  by (cases m; cases m'; simp add: sameMapPoint_def)

lemma uncommitted_mObservations:
  "uncommitted s st \<Longrightarrow> mObservations (mappoints st m) = mObservations (mappoints s m)"
  by (rule sameMapPoint_mObservations) (simp add: uncommitted_def)

lemma hasVertex_addVertex:
  "hasVertex (updOpt (addVertex i v) st) j = (j = i \<or> hasVertex st j)"
  by (auto simp add: hasVertex_def updOpt_def vertex_addVertex)

lemma hasVertex_verticesOf:
  "verticesOf st' = verticesOf st \<Longrightarrow> hasVertex st' j = hasVertex st j"
  by (simp add: hasVertex_def vertex_def verticesOf_def)

lemma hasVertex_max [simp]:
  "hasVertex (st\<lparr>maxKFId := a\<rparr>) j = hasVertex st j"
  "hasVertex (st\<lparr>maxLandmarkId := b\<rparr>) j = hasVertex st j"
  "hasVertex (st\<lparr>fault := c\<rparr>) j = hasVertex st j"
  by (simp_all add: hasVertex_def)

lemma cachedFor_frame:
  "keyframes st' p = keyframes st p \<Longrightarrow> cachedFor ext s p l st' = cachedFor ext s p l st"
  by (simp add: cachedFor_def)

lemma cachedFor_cacheLandmark:
  assumes u: "uncommitted s st"
    and inj: "inj_on (\<lambda>l. mnLandmarkId (landmarks s l)) (set (mvpLandmarks (keyframes s p)))"
    and x: "x \<in> set (mvpLandmarks (keyframes s p))"
    and l: "l \<in> set (mvpLandmarks (keyframes s p))"
    and h: "l = x \<or> cachedFor ext s p l st"
  shows "cachedFor ext s p l (cacheLandmark ext p x st)"
proof -
  have lm: "landmarks st = landmarks s"
    using u by (simp add: uncommitted_def)
  have tw: "cam_pose_Twc (keyframes st p) = cam_pose_Twc (keyframes s p)"
    by (rule sameKeyFrame_fields(5) [OF uncommitted_keyframe [OF u]])
  have eq: "mnLandmarkId (landmarks s l) = mnLandmarkId (landmarks s x) \<Longrightarrow> l = x"
    using inj x l by (auto dest: inj_onD)
  show ?thesis
    using h eq by (auto simp add: cachedFor_def cacheLandmark_def Let_def updKF_def lm tw)
qed

lemma cachedFor_other:
  "q \<noteq> p \<Longrightarrow> cachedFor ext s p l (cacheLandmark ext q x st) = cachedFor ext s p l st"
  by (simp add: cachedFor_def cacheLandmark_def Let_def updKF_def)


lemma cachedFor_fold_cacheLandmark:
  assumes "uncommitted s st"
    and "inj_on (\<lambda>l. mnLandmarkId (landmarks s l)) (set (mvpLandmarks (keyframes s p)))"
    and "set xs \<subseteq> set (mvpLandmarks (keyframes s p))"
    and "l \<in> set (mvpLandmarks (keyframes s p))"
    and "l \<in> set xs \<or> cachedFor ext s p l st"
  shows "cachedFor ext s p l (fold (cacheLandmark ext p) xs st)"
  using assms(1,3,5)
proof (induction xs arbitrary: st)
  case Nil
  then show ?case by simp
next
  case (Cons x xs)
  have u: "uncommitted s (cacheLandmark ext p x st)"
    using Cons.prems(1) by (rule uncommitted_cacheLandmark)
  have x: "x \<in> set (mvpLandmarks (keyframes s p))" and xs: "set xs \<subseteq> set (mvpLandmarks (keyframes s p))"
    using Cons.prems(2) by simp_all
  have c: "cachedFor ext s p l (cacheLandmark ext p x st)" if "l = x \<or> cachedFor ext s p l st"
    using Cons.prems(1) assms(2) x assms(4) that by (rule cachedFor_cacheLandmark)
  have "l \<in> set xs \<or> cachedFor ext s p l (cacheLandmark ext p x st)"
    using Cons.prems(3) c by auto
  with u xs show ?case
    by (simp add: Cons.IH)
qed

lemma keyframes_fold_cacheLandmark:
  "q \<noteq> p \<Longrightarrow> keyframes (fold (cacheLandmark ext q) xs st) p = keyframes st p"
  by (induction xs arbitrary: st) (simp_all add: cacheLandmark_def Let_def updKF_def)

lemma optimizer_fold_cacheLandmark:
  "optimizer (fold (cacheLandmark ext q) xs st) = optimizer st"
  by (rule fold_same) (rule graph_cacheLandmark)

lemma cachedAll_addLocalKeyFrameVertex:
  assumes u: "uncommitted s st"
    and inj: "inj_on (\<lambda>l. mnLandmarkId (landmarks s l)) (set (mvpLandmarks (keyframes s p)))"
    and h: "q = p \<or> cachedAll ext s p st"
  shows "cachedAll ext s p (addLocalKeyFrameVertex ext q st)"
proof -
  define st1 where "st1 = fold (cacheLandmark ext q) (mvpLandmarks (keyframes st q)) st"
  have u1: "uncommitted s st1"
    unfolding st1_def by (rule fold_inv) (simp_all add: u uncommitted_cacheLandmark)
  have lms: "mvpLandmarks (keyframes st q) = mvpLandmarks (keyframes s q)"
    by (rule sameKeyFrame_fields(4) [OF uncommitted_keyframe [OF u]])
  have id: "poseVertexId (keyframes st1 q) = poseVertexId (keyframes s q)"
    using sameKeyFrame_fields(2) [OF uncommitted_keyframe [OF u1], of q]
    by (simp add: poseVertexId_def)
  have ll: "set (lLocalLandmarks st1) = set (mvpLandmarks (keyframes s q)) \<union> set (lLocalLandmarks st)"
    unfolding st1_def lms by (rule lLocalLandmarks_cacheLandmarks)
  have o1: "optimizer st1 = optimizer st"
    unfolding st1_def by (rule optimizer_fold_cacheLandmark)
  have c: "cachedFor ext s p l st1 \<and> l \<in> set (lLocalLandmarks st1)"
    if l: "l \<in> set (mvpLandmarks (keyframes s p))" for l
  proof (cases "q = p")
    case True
    have "cachedFor ext s p l (fold (cacheLandmark ext p) (mvpLandmarks (keyframes s p)) st)"
      using u inj _ l by (rule cachedFor_fold_cacheLandmark) (simp_all add: l)
    then show ?thesis
      using l ll lms unfolding st1_def True by simp
  next
    case False
    with h have a: "cachedAll ext s p st" by simp
    have "keyframes st1 p = keyframes st p"
      unfolding st1_def using False by (rule keyframes_fold_cacheLandmark)
    then have "cachedFor ext s p l st1 = cachedFor ext s p l st"
      by (rule cachedFor_frame)
    then show ?thesis
      using a l ll by (simp add: cachedAll_def)
  qed
  have v: "hasVertex st1 (poseVertexId (keyframes s p))" if "q \<noteq> p"
    using h that by (simp add: cachedAll_def hasVertex_def o1)
  have "cachedAll ext s p (updOpt (addVertex (poseVertexId (keyframes st1 q)) v0) st1)" for v0
    unfolding cachedAll_def hasVertex_addVertex id
    using c v by (auto simp add: cachedFor_def updOpt_def)
  then show ?thesis
    by (simp add: addLocalKeyFrameVertex_def Let_def cachedAll_def cachedFor_def flip: st1_def)
qed

lemma cachedAll_addFixedKeyFrameVertex:
  "cachedAll ext s p st \<Longrightarrow> cachedAll ext s p (addFixedKeyFrameVertex ext q st)"
  by (simp add: cachedAll_def addFixedKeyFrameVertex_def Let_def hasVertex_addVertex)
     (simp add: cachedFor_def updOpt_def)

lemma cachedAll_addLandmarkVertex:
  "cachedAll ext s p st \<Longrightarrow> cachedAll ext s p (addLandmarkVertex l st)"
  by (simp add: cachedAll_def addLandmarkVertex_def Let_def hasVertex_addVertex)
     (simp add: cachedFor_def updOpt_def)


lemma hasVertex_addLandmarkVertex:
  "hasVertex (addLandmarkVertex x t) j
     = (j = cuboidVertexId (maxKFId t) (landmarks t x) \<or> hasVertex t j)"
  by (simp add: addLandmarkVertex_def Let_def hasVertex_addVertex)

lemma ready_after_landmarks:
  assumes u: "uncommitted s st" and c: "cachedAll ext s p st"
  shows "ready ext s (maxKFId st) p (fold addLandmarkVertex (lLocalLandmarks st) st)"
proof -
  define K where "K = maxKFId st"
  define st4 where "st4 = fold addLandmarkVertex (lLocalLandmarks st) st"
  have a: "uncommitted s st4 \<and> maxKFId st4 = K \<and> cachedAll ext s p st4"
    unfolding st4_def
    by (rule fold_inv)
       (simp_all add: u c K_def uncommitted_addLandmarkVertex maxima_addLandmarkVertex(1)
          cachedAll_addLandmarkVertex)
  have lm: "landmarks st = landmarks s"
    using u by (simp add: uncommitted_def)
  have b: "(landmarks st4 = landmarks s \<and> maxKFId st4 = K)
           \<and> (\<forall>l \<in> set (lLocalLandmarks st). hasVertex st4 (cuboidVertexId K (landmarks s l)))"
    unfolding st4_def
    by (rule fold_all_inv)
       (simp_all add: lm K_def maxima_addLandmarkVertex(1,3) hasVertex_addLandmarkVertex)
  have "l \<in> set (lLocalLandmarks st)" if "l \<in> set (mvpLandmarks (keyframes s p))" for l
    using c that by (simp add: cachedAll_def)
  then show ?thesis
    using a b by (simp add: ready_def cachedAll_def flip: K_def st4_def)
qed

lemma cachedFor_addCuboidEdge:
  "cachedFor ext s p l st \<Longrightarrow> cachedFor ext s p l (addCuboidEdge ext q x st)"
  by (auto simp add: cachedFor_def addCuboidEdge_def readLandmarkMeasurement_def Let_def
      updOpt_def updKF_def split: option.splits)

lemma maxKFId_addCuboidEdge: "maxKFId (addCuboidEdge ext q x st) = maxKFId st"
  using maximaOf_addCuboidEdge [of ext q x st] by (simp add: maximaOf_def)

lemma ready_addCuboidEdge:
  "ready ext s K p st \<Longrightarrow> ready ext s K p (addCuboidEdge ext q x st)"
  by (simp add: ready_def uncommitted_addCuboidEdge cachedFor_addCuboidEdge maxKFId_addCuboidEdge
      hasVertex_verticesOf [OF verticesOf_addCuboidEdge])

lemma information_replicate:
  "cwiseProduct (map (\<lambda>x. x * 2 * q) [1, 1, 1, 1, 1, 1, 1, 1, 1])
                (map (\<lambda>x. x * 2 * q) [1, 1, 1, 1, 1, 1, 1, 1, 1])
     = replicate 9 ((2 * q) ^ 2)"
  by (simp add: cwiseProduct_def power2_eq_square eval_nat_numeral)

lemma factor_addCuboidEdge:
  assumes r: "ready ext s K p st" and l: "l \<in> set (mvpLandmarks (keyframes s p))"
  shows "addCuboidEdge ext p l st
           = updOpt (\<lambda>g. g\<lparr>edgesCuboid := edgesCuboid g @ [cameraObjectFactor ext s K p l]\<rparr>) st"
proof -
  have u: "uncommitted s st" and k: "maxKFId st = K"
    using r by (simp_all add: ready_def)
  have lm: "landmarks st = landmarks s"
    using u by (simp add: uncommitted_def)
  have id: "poseVertexId (keyframes st p) = poseVertexId (keyframes s p)"
    using sameKeyFrame_fields(2) [OF uncommitted_keyframe [OF u], of p]
    by (simp add: poseVertexId_def)
  have v0: "vertexRef (optimizer st) (poseVertexId (keyframes s p)) = Some (poseVertexId (keyframes s p))"
    using r by (simp add: ready_def hasVertex_def vertexRef_def)
  have v1: "vertexRef (optimizer st) (cuboidVertexId K (landmarks s l))
              = Some (cuboidVertexId K (landmarks s l))"
    using r l by (simp add: ready_def hasVertex_def vertexRef_def)
  have c: "readLandmarkMeasurement ext p (mnLandmarkId (landmarks s l)) st
             = (transformTo ext (mCuboid (landmarks s l)) (cam_pose_Twc (keyframes s p)), st)"
    using r l by (simp add: ready_def cachedFor_def readLandmarkMeasurement_def)
  show ?thesis
    unfolding addCuboidEdge_def Let_def lm id k v0 v1 c cameraObjectFactor_def
      information_replicate
    by simp
qed

lemma factorsFor_grow:
  assumes "factorsFor ext s K p st"
    and "edgesMono (optimizer st') = edgesMono (optimizer st)"
    and "set (edgesCuboid (optimizer st)) \<subseteq> set (edgesCuboid (optimizer st'))"
  shows "factorsFor ext s K p st'"
  using assms by (auto simp add: factorsFor_def)

lemma edgesCuboid_addCuboidEdge:
  "set (edgesCuboid (optimizer st)) \<subseteq> set (edgesCuboid (optimizer (addCuboidEdge ext q x st)))"
  by (auto simp add: addCuboidEdge_def readLandmarkMeasurement_def Let_def updOpt_def updKF_def
      split: option.splits)

lemma edgesCuboid_fold_addCuboidEdge:
  "set (edgesCuboid (optimizer st)) \<subseteq> set (edgesCuboid (optimizer (fold (addCuboidEdge ext q) xs st)))"
proof (induction xs arbitrary: st)
  case Nil
  then show ?case by simp
next
  case (Cons x xs)
  show ?case
    using edgesCuboid_addCuboidEdge [of st ext q x] Cons.IH [of "addCuboidEdge ext q x st"]
    by auto
qed

lemma edgesMono_fold_addCuboidEdge:
  "edgesMono (optimizer (fold (addCuboidEdge ext q) xs st)) = edgesMono (optimizer st)"
  using reprojOf_fold_addCuboidEdge [of ext q xs st] by (simp add: reprojOf_def)

lemma ready_edges [simp]:
  "ready ext s K p (updOpt (\<lambda>g. g\<lparr>edgesMono := a g\<rparr>) st) = ready ext s K p st"
  "ready ext s K p (updOpt (\<lambda>g. g\<lparr>edgesStereo := b g\<rparr>) st) = ready ext s K p st"
  "ready ext s K p (updOpt (\<lambda>g. g\<lparr>edgesCuboid := c g\<rparr>) st) = ready ext s K p st"
  "ready ext s K p (st\<lparr>fault := d\<rparr>) = ready ext s K p st"
  by (simp_all add: ready_def hasVertex_def vertex_def cachedFor_def updOpt_def)

lemma all_factors_fold:
  assumes r: "ready ext s K p st" and xs: "set xs \<subseteq> set (mvpLandmarks (keyframes s p))"
  shows "\<forall>l \<in> set xs. cameraObjectFactor ext s K p l
            \<in> set (edgesCuboid (optimizer (fold (addCuboidEdge ext p) xs st)))"
  using assms
proof (induction xs arbitrary: st)
  case Nil
  then show ?case by simp
next
  case (Cons x xs)
  define st' where "st' = addCuboidEdge ext p x st"
  have r': "ready ext s K p st'"
    unfolding st'_def using Cons.prems(1) by (rule ready_addCuboidEdge)
  have "cameraObjectFactor ext s K p x \<in> set (edgesCuboid (optimizer st'))"
    unfolding st'_def using Cons.prems
    by (simp add: factor_addCuboidEdge [where K = K and s = s] updOpt_def)
  then have "cameraObjectFactor ext s K p x \<in> set (edgesCuboid (optimizer (fold (addCuboidEdge ext p) xs st')))"
    using edgesCuboid_fold_addCuboidEdge [of st' ext p xs] by auto
  moreover have "\<forall>l \<in> set xs. cameraObjectFactor ext s K p l
            \<in> set (edgesCuboid (optimizer (fold (addCuboidEdge ext p) xs st')))"
    using r' Cons.prems(2) by (intro Cons.IH) simp_all
  ultimately show ?case
    by (simp add: st'_def)
qed


lemma factors_addMonoEdge:
  assumes r: "ready ext s K p st" and f: "factorsFor ext s K p st"
  shows "ready ext s K p (addMonoEdge ext m pid q kp st)"
    and "factorsFor ext s K p (addMonoEdge ext m pid q kp st)"
proof -
  define e where "e = \<lparr>e_kf = q, e_mp = m,
               e_vertex0 = vertexRef (optimizer st) pid,
               e_vertex1 = vertexRef (optimizer st) (poseVertexId (keyframes st q)),
               e_measurement = [pt_x kp, pt_y kp],
               e_information = scaledIdentity 2 (mvInvLevelSigma2 (keyframes st q) ! nat (octave kp)),
               e_robustKernel = Some (thHuberMono ext),
               e_level = 0,
               e_fx = fx (keyframes st q), e_fy = fy (keyframes st q),
               e_cx = cx (keyframes st q), e_cy = cy (keyframes st q)\<rparr>"
  define st1 where "st1 = updOpt (\<lambda>g. g\<lparr>edgesMono := edgesMono g @ [e]\<rparr>) st"
  define st2 where "st2 = fold (addCuboidEdge ext q) (mvpLandmarks (keyframes s q)) st1"
  have u: "uncommitted s st"
    using r by (simp add: ready_def)
  have lms: "mvpLandmarks (keyframes st1 q) = mvpLandmarks (keyframes s q)"
    using sameKeyFrame_fields(4) [OF uncommitted_keyframe [OF u], of q]
    by (simp add: st1_def updOpt_def)
  have run: "addMonoEdge ext m pid q kp st = st2"
    unfolding addMonoEdge_def Let_def e_def [symmetric] st1_def [symmetric] lms st2_def ..
  have r1: "ready ext s K p st1"
    using r by (simp add: st1_def)
  show "ready ext s K p (addMonoEdge ext m pid q kp st)"
    unfolding run st2_def by (rule fold_inv) (simp_all add: r1 ready_addCuboidEdge)
  have m2: "edgesMono (optimizer st2) = edgesMono (optimizer st) @ [e]"
    by (simp add: st2_def edgesMono_fold_addCuboidEdge) (simp add: st1_def updOpt_def)
  have c1: "edgesCuboid (optimizer st1) = edgesCuboid (optimizer st)"
    by (simp add: st1_def updOpt_def)
  have c2: "set (edgesCuboid (optimizer st)) \<subseteq> set (edgesCuboid (optimizer st2))"
    unfolding st2_def c1 [symmetric] by (rule edgesCuboid_fold_addCuboidEdge)
  have new: "\<forall>l \<in> set (mvpLandmarks (keyframes s p)).
               cameraObjectFactor ext s K p l \<in> set (edgesCuboid (optimizer st2))" if "q = p"
    unfolding st2_def that using r1 by (rule all_factors_fold) simp
  have "factorsFor ext s K p st2"
    using f c2 new by (auto simp add: factorsFor_def m2 e_def)
  then show "factorsFor ext s K p (addMonoEdge ext m pid q kp st)"
    by (simp add: run)
qed

lemma factors_addStereoEdge:
  assumes "ready ext s K p st \<and> factorsFor ext s K p st"
  shows "ready ext s K p (addStereoEdge ext m pid q kp r st)
         \<and> factorsFor ext s K p (addStereoEdge ext m pid q kp r st)"
  using assms by (simp add: addStereoEdge_def Let_def) (simp add: factorsFor_def updOpt_def)

lemma factorsFor_fault [simp]: "factorsFor ext s K p (st\<lparr>fault := c\<rparr>) = factorsFor ext s K p st"
  by (simp add: factorsFor_def)

lemma factors_addObservationEdges:
  assumes "ready ext s K p st \<and> factorsFor ext s K p st"
  shows "ready ext s K p (addObservationEdges ext m pid ob st)
         \<and> factorsFor ext s K p (addObservationEdges ext m pid ob st)"
  using assms factors_addStereoEdge [OF assms]
  by (simp add: addObservationEdges_def Let_def factors_addMonoEdge)

lemma factors_addMapPointVertex:
  assumes "ready ext s K p st \<and> factorsFor ext s K p st"
  shows "ready ext s K p (addMapPointVertex ext m st)
         \<and> factorsFor ext s K p (addMapPointVertex ext m st)"
proof -
  have start: "ready ext s K p (updOpt (addVertex i v) st)
               \<and> factorsFor ext s K p (updOpt (addVertex i v) st)" for i v
    using assms
    by (simp add: ready_def hasVertex_addVertex factorsFor_def)
       (simp add: cachedFor_def updOpt_def fields_addVertex)
  have "ready ext s K p (fold (addObservationEdges ext m i) xs (updOpt (addVertex i v) st))
        \<and> factorsFor ext s K p (fold (addObservationEdges ext m i) xs (updOpt (addVertex i v) st))"
    for i v xs
    by (rule fold_inv) (rule start, rule factors_addObservationEdges)
  then show ?thesis
    using assms by (simp add: addMapPointVertex_def Let_def)
qed


lemma fault_addObservationEdges:
  "fault (addObservationEdges ext m pid ob st) = None \<Longrightarrow> fault st = None"
  by (cases "fault st = None") (simp_all add: addObservationEdges_def)

lemma fault_addMapPointVertex:
  "fault (addMapPointVertex ext m st) = None \<Longrightarrow> fault st = None"
  by (cases "fault st = None") (simp_all add: addMapPointVertex_def)

lemma edgesMono_addMonoEdge:
  "\<exists>e. e_kf e = q \<and> e_mp e = m
       \<and> edgesMono (optimizer (addMonoEdge ext m pid q kp st)) = edgesMono (optimizer st) @ [e]"
  by (simp add: addMonoEdge_def Let_def edgesMono_fold_addCuboidEdge) (simp add: updOpt_def)

lemma monoEdgeFor_addMonoEdge:
  "monoEdgeFor m p (addMonoEdge ext m pid p kp st)"
  "monoEdgeFor m' p' st \<Longrightarrow> monoEdgeFor m' p' (addMonoEdge ext m pid p kp st)"
  using edgesMono_addMonoEdge [of p m ext pid kp st] by (auto simp add: monoEdgeFor_def)

lemma monoEdgeFor_addObservationEdges:
  "monoEdgeFor m' p' st \<Longrightarrow> monoEdgeFor m' p' (addObservationEdges ext m pid ob st)"
  by (simp add: addObservationEdges_def Let_def monoEdgeFor_addMonoEdge(2))
     (simp add: monoEdgeFor_def addStereoEdge_def Let_def updOpt_def)

lemma monoEdgeFor_new:
  assumes u: "uncommitted s st"
    and ok: "fault (addObservationEdges ext m pid (p, i) st) = None"
    and alive: "\<not> mbBad (keyframes s p)" and mono: "mvuRight (keyframes s p) ! i < 0"
  shows "monoEdgeFor m p (addObservationEdges ext m pid (p, i) st)"
proof -
  have f: "fault st = None"
    using ok by (rule fault_addObservationEdges)
  have b: "\<not> mbBad (keyframes st p)"
    using alive sameKeyFrame_fields(3) [OF uncommitted_keyframe [OF u], of p] by simp
  have r: "mvuRight (keyframes st p) ! i < 0"
    using mono sameKeyFrame_vectors(1) [OF uncommitted_keyframe [OF u], of p] by simp
  show ?thesis
    using ok f b r
    by (simp add: addObservationEdges_def Let_def monoEdgeFor_addMonoEdge(1) split: if_splits)
qed

lemma monoEdgeFor_addMapPointVertex_new:
  assumes u: "uncommitted s st"
    and ok: "fault (addMapPointVertex ext m st) = None"
    and ob: "(p, i) \<in> set (mObservations (mappoints s m))"
    and alive: "\<not> mbBad (keyframes s p)" and mono: "mvuRight (keyframes s p) ! i < 0"
  shows "monoEdgeFor m p (addMapPointVertex ext m st)"
proof -
  define pid where "pid = pointVertexId (maxKFId st) (maxLandmarkId st) (mappoints st m)"
  define st1 where "st1 = updOpt (addVertex pid
       (VertexSBAPointXYZ True (toVector3d ext (mWorldPos (mappoints st m))))) st"
  have f: "fault st = None"
    using ok by (rule fault_addMapPointVertex)
  have obs: "mObservations (mappoints st m) = mObservations (mappoints s m)"
    using u by (rule uncommitted_mObservations)
  have run: "addMapPointVertex ext m st
               = fold (addObservationEdges ext m pid) (mObservations (mappoints s m)) st1"
    by (simp add: addMapPointVertex_def Let_def f obs pid_def st1_def)
  have u1: "uncommitted s st1"
    using u by (simp add: st1_def)
  show ?thesis
    unfolding run
  proof (rule fold_reach [where x = "(p, i)" and ok = "\<lambda>t. fault t = None" and I = "uncommitted s"])
    show "(p, i) \<in> set (mObservations (mappoints s m))"
      by (rule ob)
    show "fault (fold (addObservationEdges ext m pid) (mObservations (mappoints s m)) st1) = None"
      using ok by (simp add: run)
    show "uncommitted s st1"
      by (rule u1)
    show "uncommitted s (addObservationEdges ext m pid y t)" if "uncommitted s t" for y t
      using that by (rule uncommitted_addObservationEdges)
    show "fault t = None" if "fault (addObservationEdges ext m pid y t) = None" for y t
      using that by (rule fault_addObservationEdges)
    show "monoEdgeFor m p (addObservationEdges ext m pid (p, i) t)"
      if "uncommitted s t" and "fault (addObservationEdges ext m pid (p, i) t) = None" for t
      using that alive mono by (rule monoEdgeFor_new)
    show "monoEdgeFor m p (addObservationEdges ext m pid y t)" if "monoEdgeFor m p t" for y t
      using that by (rule monoEdgeFor_addObservationEdges)
  qed
qed

lemma monoEdgeFor_addMapPointVertex:
  assumes "monoEdgeFor m' p' st"
  shows "monoEdgeFor m' p' (addMapPointVertex ext m st)"
proof -
  have start: "monoEdgeFor m' p' (updOpt (addVertex i v) st)" for i v
    using assms by (simp add: monoEdgeFor_def updOpt_def fields_addVertex)
  have "monoEdgeFor m' p' (fold (addObservationEdges ext m i) xs (updOpt (addVertex i v) st))"
    for i v xs
    by (rule fold_inv) (rule start, rule monoEdgeFor_addObservationEdges)
  then show ?thesis
    using assms by (simp add: addMapPointVertex_def Let_def)
qed

lemma monoEdgeFor_points:
  assumes u: "uncommitted s st"
    and ok: "fault (fold (addMapPointVertex ext) xs st) = None"
    and m: "m \<in> set xs"
    and ob: "(p, i) \<in> set (mObservations (mappoints s m))"
    and alive: "\<not> mbBad (keyframes s p)" and mono: "mvuRight (keyframes s p) ! i < 0"
  shows "monoEdgeFor m p (fold (addMapPointVertex ext) xs st)"
proof (rule fold_reach [where x = m and ok = "\<lambda>t. fault t = None" and I = "uncommitted s"])
  show "m \<in> set xs" by (rule m)
  show "fault (fold (addMapPointVertex ext) xs st) = None" by (rule ok)
  show "uncommitted s st" by (rule u)
  show "uncommitted s (addMapPointVertex ext y t)" if "uncommitted s t" for y t
    using that by (rule uncommitted_addMapPointVertex)
  show "fault t = None" if "fault (addMapPointVertex ext y t) = None" for y t
    using that by (rule fault_addMapPointVertex)
  show "monoEdgeFor m p (addMapPointVertex ext m t)"
    if "uncommitted s t" and "fault (addMapPointVertex ext m t) = None" for t
    using that ob alive mono by (rule monoEdgeFor_addMapPointVertex_new)
  show "monoEdgeFor m p (addMapPointVertex ext y t)" if "monoEdgeFor m p t" for y t
    using that by (rule monoEdgeFor_addMapPointVertex)
qed

lemma factor_buildGraph:
  assumes u: "uncommitted s st"
    and p: "p \<in> set (lLocalKeyFrames st)"
    and inj: "inj_on (\<lambda>l. mnLandmarkId (landmarks s l)) (set (mvpLandmarks (keyframes s p)))"
    and ok: "fault (buildGraph ext b st) = None"
    and m: "m \<in> set (lLocalMapPoints st)"
    and ob: "(p, i) \<in> set (mObservations (mappoints s m))"
    and alive: "\<not> mbBad (keyframes s p)" and mono: "mvuRight (keyframes s p) ! i < 0"
    and l: "l \<in> set (mvpLandmarks (keyframes s p))"
  shows "cameraObjectFactor ext s (maxKFId (buildGraph ext b st)) p l
           \<in> set (edgesCuboid (optimizer (buildGraph ext b st)))"
    and "l \<in> set (lLocalLandmarks (buildGraph ext b st))"
proof -
  define st1 where "st1 = st\<lparr>optimizer := emptyOptimizer\<lparr>forceStopFlag := b\<rparr>, maxKFId := 0, maxLandmarkId := 0\<rparr>"
  define st2 where "st2 = fold (addLocalKeyFrameVertex ext) (lLocalKeyFrames st1) st1"
  define st3 where "st3 = fold (addFixedKeyFrameVertex ext) (lFixedCameras st2) st2"
  define st4 where "st4 = fold addLandmarkVertex (lLocalLandmarks st3) st3"
  define st5 where "st5 = fold (addMapPointVertex ext) (lLocalMapPoints st4) st4"
  define K where "K = maxKFId st3"
  have run: "buildGraph ext b st = st5"
    unfolding buildGraph_def Let_def st1_def [symmetric] st2_def [symmetric] st3_def [symmetric]
      st4_def [symmetric] st5_def [symmetric] ..
  have u1: "uncommitted s st1"
    using u by (simp add: st1_def)
  have p1: "p \<in> set (lLocalKeyFrames st1)"
    using p by (simp add: st1_def)
  have u2: "uncommitted s st2"
    unfolding st2_def by (rule fold_inv) (simp_all add: u1 uncommitted_addLocalKeyFrameVertex)
  have c2: "cachedAll ext s p st2"
    unfolding st2_def
  proof (rule fold_reach [where x = p and ok = "\<lambda>t. True" and I = "uncommitted s"])
    show "p \<in> set (lLocalKeyFrames st1)" by (rule p1)
    show "uncommitted s st1" by (rule u1)
    show "uncommitted s (addLocalKeyFrameVertex ext y t)" if "uncommitted s t" for y t
      using that by (rule uncommitted_addLocalKeyFrameVertex)
    show "cachedAll ext s p (addLocalKeyFrameVertex ext p t)" if "uncommitted s t" for t
      using that inj by (rule cachedAll_addLocalKeyFrameVertex) simp
    show "cachedAll ext s p (addLocalKeyFrameVertex ext y t)"
      if "uncommitted s t" and "cachedAll ext s p t" for y t
      using that(1) inj by (rule cachedAll_addLocalKeyFrameVertex) (simp add: that(2))
  qed simp_all
  have 3: "uncommitted s st3 \<and> cachedAll ext s p st3"
    unfolding st3_def
    by (rule fold_inv)
       (simp_all add: u2 c2 uncommitted_addFixedKeyFrameVertex cachedAll_addFixedKeyFrameVertex)
  have r4: "ready ext s K p st4"
    unfolding K_def st4_def using 3 by (simp add: ready_after_landmarks)
  have e4: "edgesMono (optimizer st4) = []"
  proof -
    have "edgesMono (optimizer st2) = edgesMono (optimizer st1)" unfolding st2_def
      by (rule fold_same) (rule edges_addLocalKeyFrameVertex)
    moreover have "edgesMono (optimizer st3) = edgesMono (optimizer st2)" unfolding st3_def
      by (rule fold_same) (rule edges_addFixedKeyFrameVertex)
    moreover have "edgesMono (optimizer st4) = edgesMono (optimizer st3)" unfolding st4_def
      by (rule fold_same) (rule edges_addLandmarkVertex)
    ultimately show ?thesis
      by (simp add: st1_def emptyOptimizer_def)
  qed
  have f4: "factorsFor ext s K p st4"
    by (simp add: factorsFor_def e4)
  have 5: "ready ext s K p st5 \<and> factorsFor ext s K p st5"
    unfolding st5_def
    by (rule fold_inv) (simp add: r4 f4, rule factors_addMapPointVertex)
  have s4: "selectionOf st4 = selectionOf st"
  proof -
    have "selectionOf st2 = selectionOf st1" unfolding st2_def
      by (rule fold_same) (rule selectionOf_addLocalKeyFrameVertex)
    moreover have "selectionOf st3 = selectionOf st2" unfolding st3_def
      by (rule fold_same) (rule selectionOf_addFixedKeyFrameVertex)
    moreover have "selectionOf st4 = selectionOf st3" unfolding st4_def
      by (rule fold_same) (rule selectionOf_addLandmarkVertex)
    ultimately show ?thesis
      by (simp add: st1_def selectionOf_def)
  qed
  then have m4: "m \<in> set (lLocalMapPoints st4)"
    using m by (simp add: selectionOf_def)
  have u4: "uncommitted s st4"
    using r4 by (simp add: ready_def)
  have "monoEdgeFor m p st5"
    unfolding st5_def using u4 _ m4 ob alive mono
    by (rule monoEdgeFor_points) (use ok in \<open>simp add: run st5_def\<close>)
  then have "cameraObjectFactor ext s K p l \<in> set (edgesCuboid (optimizer st5))"
    using 5 l by (auto simp add: monoEdgeFor_def factorsFor_def)
  moreover have "maxKFId st5 = K"
    using 5 by (simp add: ready_def)
  ultimately show "cameraObjectFactor ext s (maxKFId (buildGraph ext b st)) p l
           \<in> set (edgesCuboid (optimizer (buildGraph ext b st)))"
    by (simp add: run)
  have "lLocalLandmarks st4 = lLocalLandmarks st3" unfolding st4_def
    by (rule fold_same) (rule maxima_addLandmarkVertex)
  moreover have "maximaOf st5 = maximaOf st4" unfolding st5_def
    by (rule fold_same) (rule maximaOf_addMapPointVertex)
  ultimately have "lLocalLandmarks st5 = lLocalLandmarks st3"
    by (simp add: maximaOf_def)
  then show "l \<in> set (lLocalLandmarks (buildGraph ext b st))"
    using 3 l by (simp add: run cachedAll_def)
qed

section \<open>Camera-object factors\<close>

text \<open>
  For an observing Local KeyFrame the factor is as the specification words it: in
  the graph that is built without a fault, for every monocular observation of a Local
  MapPoint by a non-bad Local KeyFrame whose Landmarks carry pairwise different ids,
  and for every Landmark of that KeyFrame, the Landmark is a Local Landmark and the
  graph holds the camera-object factor with the measurement cached at lines 106-107.
\<close>

lemma camera_object_factor_of_local_keyframe:
  assumes "fault (prepare ext pKF pbStopFlag s) = None"
    and "m \<in> set (lLocalMapPoints (prepare ext pKF pbStopFlag s))"
    and "(p, i) \<in> set (mObservations (mappoints s m))"
    and "\<not> mbBad (keyframes s p)"
    and "mvuRight (keyframes s p) ! i < 0"
    and "p \<in> set (lLocalKeyFrames (prepare ext pKF pbStopFlag s))"
    and "distinctLandmarkIds s p"
    and "l \<in> set (mvpLandmarks (keyframes s p))"
  shows "l \<in> set (lLocalLandmarks (prepare ext pKF pbStopFlag s))
         \<and> cameraObjectFactor ext s (maxKFId (prepare ext pKF pbStopFlag s)) p l
             \<in> set (edgesCuboid (optimizer (prepare ext pKF pbStopFlag s)))"
proof -
  let ?W = "selectWindow pKF (enter s)"
  have u: "uncommitted s ?W"
    by (simp add: uncommitted_selectWindow uncommitted_enter)
  have p: "p \<in> set (lLocalKeyFrames ?W)"
    using assms(6) by (simp add: lists_prepare)
  have m: "m \<in> set (lLocalMapPoints ?W)"
    using assms(2) by (simp add: lists_prepare)
  have inj: "inj_on (\<lambda>l. mnLandmarkId (landmarks s l)) (set (mvpLandmarks (keyframes s p)))"
    using assms(7) by (rule distinctLandmarkIds_inj)
  have ok: "fault (buildGraph ext (pbStopFlag \<noteq> None) ?W) = None"
    using assms(1) unfolding prepare_def .
  note f = factor_buildGraph [OF u p inj ok m assms(3,4,5,8), folded prepare_def]
  show ?thesis
    by (rule conjI [OF f(2) f(1)])
qed

text \<open>
  C6. In \<open>sceneShared\<close> the Landmark of K is also associated with KeyFrame 2 (at
  address 1), which enters the window as a Fixed Camera, is not bad and observes the
  Local MapPoint 10 with a monocular keypoint. The graph holds three camera-object
  edges, two for K and one for the Fixed Camera, each between the pose vertex of
  its KeyFrame (5 or 2) and the cuboid vertex 6 of the Landmark, each with the 9x9
  diagonal of \<open>(2 * 0.9)\<^sup>2\<close> as information. The edges of K carry the cuboid relative to
  K, \<open>[0, 5]\<close>, cached at lines 106-107. Nothing is cached for the Fixed Camera: lines
  102-108 run for Local KeyFrames only, line 214 reads the empty entry and creates a
  default cuboid, and the edge carries \<open>[]\<close> where the cuboid relative to KeyFrame 2
  is \<open>[0, 2]\<close>.
\<close>

theorem camera_object_factor_of_fixed_camera_has_default_measurement:
  "fault (prepare ext0 0 None sceneShared) = None
   \<and> lLocalKeyFrames (prepare ext0 0 None sceneShared) = [0]
   \<and> lFixedCameras (prepare ext0 0 None sceneShared) = [1]
   \<and> lLocalMapPoints (prepare ext0 0 None sceneShared) = [0, 1, 2]
   \<and> lLocalLandmarks (prepare ext0 0 None sceneShared) = [0]
   \<and> maxKFId (prepare ext0 0 None sceneShared) = 5
   \<and> mObservations (mappoints sceneShared 0) = [(0, 0), (1, 0)]
   \<and> \<not> mbBad (keyframes sceneShared 1)
   \<and> mvuRight (keyframes sceneShared 1) ! 0 < 0
   \<and> mvpLandmarks (keyframes sceneShared 1) = [0]
   \<and> mvpLandmarks (keyframes sceneShared 0) = [0]
   \<and> map (\<lambda>c. (c_kf c, c_lm c, c_vertex0 c, c_vertex1 c, c_measurement c))
          (edgesCuboid (optimizer (prepare ext0 0 None sceneShared)))
        = [(0, 0, Some 5, Some 6, Cuboid [0, 5]),
           (1, 0, Some 2, Some 6, Cuboid []),
           (0, 0, Some 5, Some 6, Cuboid [0, 5])]
   \<and> map c_information (edgesCuboid (optimizer (prepare ext0 0 None sceneShared)))
        = replicate 3 (asDiagonal (replicate 9 ((2 * mQuality (landmarks sceneShared 0)) ^ 2)))
   \<and> poseAt (optimizer (prepare ext0 0 None sceneShared)) 5
   \<and> poseAt (optimizer (prepare ext0 0 None sceneShared)) 2
   \<and> cuboidAt (optimizer (prepare ext0 0 None sceneShared)) 6
   \<and> transformTo ext0 (mCuboid (landmarks sceneShared 0)) (cam_pose_Twc (keyframes sceneShared 0))
        = Cuboid [0, 5]
   \<and> transformTo ext0 (mCuboid (landmarks sceneShared 0)) (cam_pose_Twc (keyframes sceneShared 1))
        = Cuboid [0, 2]
   \<and> defaultCuboid ext0 = Cuboid []
   \<and> landmarkMeasurements (keyframes sceneShared 1) 0 = None
   \<and> landmarkMeasurements (keyframes (prepare ext0 0 None sceneShared) 0) 0 = Some (Cuboid [0, 5])
   \<and> landmarkMeasurements (keyframes (prepare ext0 0 None sceneShared) 1) 0 = Some (Cuboid [])
   \<and> cameraObjectFactor ext0 sceneShared 5 0 0
        \<in> set (edgesCuboid (optimizer (prepare ext0 0 None sceneShared)))
   \<and> cameraObjectFactor ext0 sceneShared 5 1 0
        \<notin> set (edgesCuboid (optimizer (prepare ext0 0 None sceneShared)))"
  by code_simp

section \<open>The variables registered in the optimizer\<close>

lemma originsOf_addVertex:
  assumes "originsOf A B C st"
    and "case v of VertexSE3Expmap b q \<Rightarrow> i \<in> A | VertexCuboid b c \<Rightarrow> i \<in> B
         | VertexSBAPointXYZ b x \<Rightarrow> i \<in> C"
  shows "originsOf A B C (updOpt (addVertex i v) st)"
  using assms by (auto simp add: originsOf_def updOpt_def addVertex_def split: Vertex.splits)

lemma originsOf_verticesOf:
  "verticesOf st' = verticesOf st \<Longrightarrow> originsOf A B C st' = originsOf A B C st"
  by (simp add: originsOf_def verticesOf_def)

lemma originsOf_upd [simp]:
  "originsOf A B C (st\<lparr>maxKFId := a\<rparr>) = originsOf A B C st"
  "originsOf A B C (st\<lparr>maxLandmarkId := b\<rparr>) = originsOf A B C st"
  "originsOf A B C (st\<lparr>fault := c\<rparr>) = originsOf A B C st"
  by (simp_all add: originsOf_def)

lemma mnId_fold_cacheLandmark:
  "mnId (keyframes (fold (cacheLandmark ext q) xs st) p) = mnId (keyframes st p)"
  by (induction xs arbitrary: st) (simp_all add: cacheLandmark_def Let_def updKF_def)

lemma verticesOf_fold_cacheLandmark:
  "verticesOf (fold (cacheLandmark ext q) xs st) = verticesOf st"
  by (rule fold_same) (rule verticesOf_cacheLandmark)

lemma hasVertex_addLocalKeyFrameVertex:
  "hasVertex (addLocalKeyFrameVertex ext q t) j = (j = poseVertexId (keyframes t q) \<or> hasVertex t j)"
  using hasVertex_verticesOf [OF verticesOf_fold_cacheLandmark, of ext q "mvpLandmarks (keyframes t q)" t j]
  by (simp add: addLocalKeyFrameVertex_def Let_def hasVertex_addVertex poseVertexId_def
      mnId_fold_cacheLandmark)

lemma hasVertex_addFixedKeyFrameVertex:
  "hasVertex (addFixedKeyFrameVertex ext q t) j = (j = poseVertexId (keyframes t q) \<or> hasVertex t j)"
  by (simp add: addFixedKeyFrameVertex_def Let_def hasVertex_addVertex)

lemma originsOf_addLocalKeyFrameVertex:
  assumes "originsOf A B C st" and "poseVertexId (keyframes st p) \<in> A"
  shows "originsOf A B C (addLocalKeyFrameVertex ext p st)"
proof -
  define st1 where "st1 = fold (cacheLandmark ext p) (mvpLandmarks (keyframes st p)) st"
  have o1: "originsOf A B C st1"
    using assms(1) originsOf_verticesOf [OF verticesOf_fold_cacheLandmark, of A B C ext p _ st]
    by (simp add: st1_def)
  have id: "poseVertexId (keyframes st1 p) = poseVertexId (keyframes st p)"
    by (simp add: st1_def poseVertexId_def mnId_fold_cacheLandmark)
  have "originsOf A B C (updOpt (addVertex (poseVertexId (keyframes st1 p)) (VertexSE3Expmap b q)) st1)"
    for b q
    by (rule originsOf_addVertex [OF o1]) (simp add: id assms(2))
  then show ?thesis
    by (simp add: addLocalKeyFrameVertex_def Let_def flip: st1_def)
qed

lemma originsOf_addFixedKeyFrameVertex:
  assumes "originsOf A B C st" and "poseVertexId (keyframes st p) \<in> A"
  shows "originsOf A B C (addFixedKeyFrameVertex ext p st)"
proof -
  have "originsOf A B C (updOpt (addVertex (poseVertexId (keyframes st p)) (VertexSE3Expmap b q)) st)"
    for b q
    by (rule originsOf_addVertex [OF assms(1)]) (simp add: assms(2))
  then show ?thesis
    by (simp add: addFixedKeyFrameVertex_def Let_def)
qed

lemma originsOf_addLandmarkVertex:
  assumes "originsOf A B C st" and "cuboidVertexId (maxKFId st) (landmarks st l) \<in> B"
  shows "originsOf A B C (addLandmarkVertex l st)"
proof -
  have "originsOf A B C (updOpt (addVertex (cuboidVertexId (maxKFId st) (landmarks st l))
          (VertexCuboid b c)) st)" for b c
    by (rule originsOf_addVertex [OF assms(1)]) (simp add: assms(2))
  then show ?thesis
    by (simp add: addLandmarkVertex_def Let_def)
qed

lemma originsOf_addMapPointVertex:
  assumes "originsOf A B C st"
    and "pointVertexId (maxKFId st) (maxLandmarkId st) (mappoints st m) \<in> C"
  shows "originsOf A B C (addMapPointVertex ext m st)"
proof -
  define pid where "pid = pointVertexId (maxKFId st) (maxLandmarkId st) (mappoints st m)"
  have "originsOf A B C (updOpt (addVertex pid (VertexSBAPointXYZ b x)) st)" for b x
    by (rule originsOf_addVertex [OF assms(1)]) (simp add: pid_def assms(2))
  then have "originsOf A B C (fold (addObservationEdges ext m pid) xs
               (updOpt (addVertex pid (VertexSBAPointXYZ b x)) st))" for b x xs
    using originsOf_verticesOf [OF verticesOf_fold_addObservationEdges, of A B C ext m pid xs]
    by simp
  then show ?thesis
    using assms(1) by (simp add: addMapPointVertex_def Let_def flip: pid_def)
qed


lemma sameMapPoint_mnId: "sameMapPoint m m' \<Longrightarrow> mp_mnId m' = mp_mnId m"
  by (cases m; cases m'; simp add: sameMapPoint_def)

lemma uncommitted_ids:
  assumes "uncommitted s st"
  shows "poseVertexId (keyframes st p) = poseVertexId (keyframes s p)"
    and "cuboidVertexId K (landmarks st l) = cuboidVertexId K (landmarks s l)"
    and "pointVertexId K N (mappoints st m) = pointVertexId K N (mappoints s m)"
proof -
  show "poseVertexId (keyframes st p) = poseVertexId (keyframes s p)"
    using sameKeyFrame_fields(2) [OF uncommitted_keyframe [OF assms], of p]
    by (simp add: poseVertexId_def)
  show "cuboidVertexId K (landmarks st l) = cuboidVertexId K (landmarks s l)"
    using assms by (simp add: uncommitted_def)
  have "sameMapPoint (mappoints s m) (mappoints st m)"
    using assms by (simp add: uncommitted_def)
  then show "pointVertexId K N (mappoints st m) = pointVertexId K N (mappoints s m)"
    by (simp add: pointVertexId_def sameMapPoint_mnId)
qed

lemma vertexRef_hasVertex: "hasVertex st i \<Longrightarrow> vertexRef (optimizer st) i = Some i"
  by (simp add: hasVertex_def vertexRef_def)

lemma buildCtx_frame:
  assumes "buildCtx s K N Wl LL st" and "uncommitted s st'" and "maximaOf st' = maximaOf st"
    and "verticesOf st' = verticesOf st"
  shows "buildCtx s K N Wl LL st'"
  using assms by (simp add: buildCtx_def maximaOf_def hasVertex_verticesOf [OF assms(4)])

lemma buildCtx_addCuboidEdge:
  "buildCtx s K N Wl LL st \<Longrightarrow> buildCtx s K N Wl LL (addCuboidEdge ext q l st)"
proof -
  assume c: "buildCtx s K N Wl LL st"
  then have "uncommitted s st"
    by (simp add: buildCtx_def)
  then have "uncommitted s (addCuboidEdge ext q l st)"
    by (rule uncommitted_addCuboidEdge)
  with c show ?thesis
    by (rule buildCtx_frame) (rule maximaOf_addCuboidEdge, rule verticesOf_addCuboidEdge)
qed

lemma edges_addCuboidEdge:
  "edgesMono (optimizer (addCuboidEdge ext q l st)) = edgesMono (optimizer st)"
  "edgesStereo (optimizer (addCuboidEdge ext q l st)) = edgesStereo (optimizer st)"
  using reprojOf_addCuboidEdge [of ext q l st] by (simp_all add: reprojOf_def)

lemma edgesCuboid_addCuboidEdge_new:
  "\<exists>c. c_kf c = q \<and> c_lm c = l
       \<and> c_vertex0 c = vertexRef (optimizer st) (poseVertexId (keyframes st q))
       \<and> c_vertex1 c = vertexRef (optimizer st) (cuboidVertexId (maxKFId st) (landmarks st l))
       \<and> edgesCuboid (optimizer (addCuboidEdge ext q l st)) = edgesCuboid (optimizer st) @ [c]"
  by (simp add: addCuboidEdge_def readLandmarkMeasurement_def Let_def updOpt_def updKF_def
      split: option.splits)

lemma edgeEnds_addCuboidEdge:
  assumes c: "buildCtx s K N Wl LL st" and e: "edgeEnds s K N Wl LL (optimizer st)"
  shows "edgeEnds s K N Wl LL (optimizer (addCuboidEdge ext q l st))"
proof -
  have u: "uncommitted s st" and k: "maxKFId st = K"
    using c by (simp_all add: buildCtx_def)
  obtain x where x: "c_kf x = q" "c_lm x = l"
    "c_vertex0 x = vertexRef (optimizer st) (poseVertexId (keyframes s q))"
    "c_vertex1 x = vertexRef (optimizer st) (cuboidVertexId K (landmarks s l))"
    "edgesCuboid (optimizer (addCuboidEdge ext q l st)) = edgesCuboid (optimizer st) @ [x]"
    using edgesCuboid_addCuboidEdge_new [of q l st ext]
    by (auto simp add: uncommitted_ids [OF u] k)
  have v0: "q \<in> set Wl \<Longrightarrow> c_vertex0 x = Some (poseVertexId (keyframes s q))"
    using c by (simp add: x(3) buildCtx_def vertexRef_hasVertex)
  have v1: "l \<in> set LL \<Longrightarrow> c_vertex1 x = Some (cuboidVertexId K (landmarks s l))"
    using c by (simp add: x(4) buildCtx_def vertexRef_hasVertex)
  show ?thesis
    using e v0 v1 by (auto simp add: edgeEnds_def edges_addCuboidEdge x(1,2,5))
qed

lemma ends_fold_addCuboidEdge:
  assumes "buildCtx s K N Wl LL st \<and> edgeEnds s K N Wl LL (optimizer st)"
  shows "buildCtx s K N Wl LL (fold (addCuboidEdge ext q) xs st)
         \<and> edgeEnds s K N Wl LL (optimizer (fold (addCuboidEdge ext q) xs st))"
  by (rule fold_inv) (use assms in \<open>auto simp add: buildCtx_addCuboidEdge edgeEnds_addCuboidEdge\<close>)

lemma buildCtx_edges [simp]:
  "buildCtx s K N Wl LL (updOpt (\<lambda>g. g\<lparr>edgesMono := a g\<rparr>) st) = buildCtx s K N Wl LL st"
  "buildCtx s K N Wl LL (updOpt (\<lambda>g. g\<lparr>edgesStereo := b g\<rparr>) st) = buildCtx s K N Wl LL st"
  "buildCtx s K N Wl LL (st\<lparr>fault := d\<rparr>) = buildCtx s K N Wl LL st"
  by (simp_all add: buildCtx_def hasVertex_def vertex_def updOpt_def)

lemma ends_addMonoEdge:
  assumes c: "buildCtx s K N Wl LL st" and e: "edgeEnds s K N Wl LL (optimizer st)"
    and pid: "pid = pointVertexId K N (mappoints s m)" and hv: "hasVertex st pid"
  shows "buildCtx s K N Wl LL (addMonoEdge ext m pid q kp st)
         \<and> edgeEnds s K N Wl LL (optimizer (addMonoEdge ext m pid q kp st))"
proof -
  define x where "x = \<lparr>e_kf = q, e_mp = m,
               e_vertex0 = vertexRef (optimizer st) pid,
               e_vertex1 = vertexRef (optimizer st) (poseVertexId (keyframes st q)),
               e_measurement = [pt_x kp, pt_y kp],
               e_information = scaledIdentity 2 (mvInvLevelSigma2 (keyframes st q) ! nat (octave kp)),
               e_robustKernel = Some (thHuberMono ext),
               e_level = 0,
               e_fx = fx (keyframes st q), e_fy = fy (keyframes st q),
               e_cx = cx (keyframes st q), e_cy = cy (keyframes st q)\<rparr>"
  define st1 where "st1 = updOpt (\<lambda>g. g\<lparr>edgesMono := edgesMono g @ [x]\<rparr>) st"
  have u: "uncommitted s st"
    using c by (simp add: buildCtx_def)
  have run: "addMonoEdge ext m pid q kp st
               = fold (addCuboidEdge ext q) (mvpLandmarks (keyframes st1 q)) st1"
    unfolding addMonoEdge_def Let_def x_def [symmetric] st1_def [symmetric] ..
  have c1: "buildCtx s K N Wl LL st1"
    using c by (simp add: st1_def)
  have v0: "e_vertex0 x = Some (pointVertexId K N (mappoints s m))"
    using hv by (simp add: x_def vertexRef_hasVertex pid)
  have v1: "q \<in> set Wl \<Longrightarrow> e_vertex1 x = Some (poseVertexId (keyframes s q))"
    using c by (simp add: x_def uncommitted_ids [OF u] buildCtx_def vertexRef_hasVertex)
  have e1: "edgeEnds s K N Wl LL (optimizer st1)"
    using e v0 v1 by (auto simp add: edgeEnds_def st1_def updOpt_def x_def)
  show ?thesis
    unfolding run by (rule ends_fold_addCuboidEdge) (simp add: c1 e1)
qed

lemma ends_addStereoEdge:
  assumes c: "buildCtx s K N Wl LL st" and e: "edgeEnds s K N Wl LL (optimizer st)"
    and pid: "pid = pointVertexId K N (mappoints s m)" and hv: "hasVertex st pid"
  shows "buildCtx s K N Wl LL (addStereoEdge ext m pid q kp r st)
         \<and> edgeEnds s K N Wl LL (optimizer (addStereoEdge ext m pid q kp r st))"
proof -
  have u: "uncommitted s st"
    using c by (simp add: buildCtx_def)
  have v1: "q \<in> set Wl \<Longrightarrow> vertexRef (optimizer st) (poseVertexId (keyframes st q))
                              = Some (poseVertexId (keyframes s q))"
    using c by (simp add: uncommitted_ids [OF u] buildCtx_def vertexRef_hasVertex)
  show ?thesis
    using c e v1 hv
    by (simp add: addStereoEdge_def Let_def)
       (auto simp add: edgeEnds_def updOpt_def vertexRef_hasVertex pid)
qed

lemma hasVertex_edgeSteps:
  "hasVertex (addMonoEdge ext m pid q kp st) j = hasVertex st j"
  "hasVertex (addStereoEdge ext m pid q kp r st) j = hasVertex st j"
  "hasVertex (addObservationEdges ext m pid ob st) j = hasVertex st j"
  by (rule hasVertex_verticesOf, rule verticesOf_addMonoEdge,
      rule hasVertex_verticesOf, rule verticesOf_addStereoEdge,
      rule hasVertex_verticesOf, rule verticesOf_addObservationEdges)

lemma ends_addObservationEdges:
  assumes "buildCtx s K N Wl LL st \<and> edgeEnds s K N Wl LL (optimizer st) \<and> hasVertex st pid"
    and pid: "pid = pointVertexId K N (mappoints s m)"
  shows "buildCtx s K N Wl LL (addObservationEdges ext m pid ob st)
         \<and> edgeEnds s K N Wl LL (optimizer (addObservationEdges ext m pid ob st))
         \<and> hasVertex (addObservationEdges ext m pid ob st) pid"
proof -
  have c: "buildCtx s K N Wl LL st" and e: "edgeEnds s K N Wl LL (optimizer st)"
    and hv: "hasVertex st pid"
    using assms(1) by simp_all
  note m = ends_addMonoEdge [OF c e pid hv]
  note t = ends_addStereoEdge [OF c e pid hv]
  have "buildCtx s K N Wl LL (addObservationEdges ext m pid ob st)
         \<and> edgeEnds s K N Wl LL (optimizer (addObservationEdges ext m pid ob st))"
    using c e m t by (simp add: addObservationEdges_def Let_def)
  then show ?thesis
    using hv by (simp add: hasVertex_edgeSteps)
qed

lemma ends_addMapPointVertex:
  assumes c: "buildCtx s K N Wl LL st" and e: "edgeEnds s K N Wl LL (optimizer st)"
  shows "buildCtx s K N Wl LL (addMapPointVertex ext m st)
         \<and> edgeEnds s K N Wl LL (optimizer (addMapPointVertex ext m st))"
proof (cases "fault st = None")
  case False
  then show ?thesis
    using c e by (simp add: addMapPointVertex_def)
next
  case True
  define pid where "pid = pointVertexId (maxKFId st) (maxLandmarkId st) (mappoints st m)"
  define st1 where "st1 = updOpt (addVertex pid
       (VertexSBAPointXYZ True (toVector3d ext (mWorldPos (mappoints st m))))) st"
  have u: "uncommitted s st" and k: "maxKFId st = K" and n: "maxLandmarkId st = N"
    using c by (simp_all add: buildCtx_def)
  have pid: "pid = pointVertexId K N (mappoints s m)"
    by (simp add: pid_def k n uncommitted_ids [OF u])
  have run: "addMapPointVertex ext m st
               = fold (addObservationEdges ext m pid) (mObservations (mappoints st m)) st1"
    by (simp add: addMapPointVertex_def Let_def True pid_def st1_def)
  have c1: "buildCtx s K N Wl LL st1"
    using c by (simp add: buildCtx_def st1_def hasVertex_addVertex) (simp add: updOpt_def)
  have e1: "edgeEnds s K N Wl LL (optimizer st1)"
    using e by (simp add: edgeEnds_def st1_def updOpt_def fields_addVertex)
  have h1: "hasVertex st1 pid"
    by (simp add: st1_def hasVertex_addVertex)
  have "buildCtx s K N Wl LL (fold (addObservationEdges ext m pid) xs st1)
         \<and> edgeEnds s K N Wl LL (optimizer (fold (addObservationEdges ext m pid) xs st1))
         \<and> hasVertex (fold (addObservationEdges ext m pid) xs st1) pid" for xs
    by (rule fold_inv) (simp add: c1 e1 h1, rule ends_addObservationEdges [OF _ pid])
  then show ?thesis
    by (simp add: run)
qed

lemma hasVertex_addMapPointVertex:
  "hasVertex st j \<Longrightarrow> hasVertex (addMapPointVertex ext m st) j"
  "fault (addMapPointVertex ext m st) = None \<Longrightarrow>
     hasVertex (addMapPointVertex ext m st)
       (pointVertexId (maxKFId st) (maxLandmarkId st) (mappoints st m))"
proof -
  have v: "hasVertex (fold (addObservationEdges ext m i) xs t) k = hasVertex t k" for i xs t k
    by (rule hasVertex_verticesOf) (rule verticesOf_fold_addObservationEdges)
  show "hasVertex st j \<Longrightarrow> hasVertex (addMapPointVertex ext m st) j"
    by (simp add: addMapPointVertex_def Let_def v hasVertex_addVertex)
  assume "fault (addMapPointVertex ext m st) = None"
  then have "fault st = None"
    by (rule fault_addMapPointVertex)
  then show "hasVertex (addMapPointVertex ext m st)
       (pointVertexId (maxKFId st) (maxLandmarkId st) (mappoints st m))"
    by (simp add: addMapPointVertex_def Let_def v hasVertex_addVertex)
qed


lemma variables_buildGraph:
  fixes s st ext b R Wl
  assumes u: "uncommitted s st"
  defines "R \<equiv> buildGraph ext b st"
    and "Wl \<equiv> lLocalKeyFrames st @ lFixedCameras st"
  shows "originsOf ((\<lambda>x. poseVertexId (keyframes s x)) ` set Wl)
           ((\<lambda>l. cuboidVertexId (maxKFId R) (landmarks s l)) ` set (lLocalLandmarks R))
           ((\<lambda>m. pointVertexId (maxKFId R) (maxLandmarkId R) (mappoints s m)) ` set (lLocalMapPoints st))
           R"
    and "buildCtx s (maxKFId R) (maxLandmarkId R) Wl (lLocalLandmarks R) R"
    and "edgeEnds s (maxKFId R) (maxLandmarkId R) Wl (lLocalLandmarks R) (optimizer R)"
    and "fault R = None \<longrightarrow>
           (\<forall>m \<in> set (lLocalMapPoints st).
              hasVertex R (pointVertexId (maxKFId R) (maxLandmarkId R) (mappoints s m)))"
proof -
  define st1 where "st1 = st\<lparr>optimizer := emptyOptimizer\<lparr>forceStopFlag := b\<rparr>, maxKFId := 0, maxLandmarkId := 0\<rparr>"
  define st2 where "st2 = fold (addLocalKeyFrameVertex ext) (lLocalKeyFrames st1) st1"
  define st3 where "st3 = fold (addFixedKeyFrameVertex ext) (lFixedCameras st2) st2"
  define st4 where "st4 = fold addLandmarkVertex (lLocalLandmarks st3) st3"
  define st5 where "st5 = fold (addMapPointVertex ext) (lLocalMapPoints st4) st4"
  define K where "K = maxKFId st3"
  define N where "N = maxLandmarkId st4"
  define LL where "LL = lLocalLandmarks st3"
  define A where "A = (\<lambda>x. poseVertexId (keyframes s x)) ` set Wl"
  define B where "B = (\<lambda>l. cuboidVertexId K (landmarks s l)) ` set LL"
  define C where "C = (\<lambda>m. pointVertexId K N (mappoints s m)) ` set (lLocalMapPoints st)"
  have run: "R = st5"
    unfolding R_def buildGraph_def Let_def st1_def [symmetric] st2_def [symmetric] st3_def [symmetric]
      st4_def [symmetric] st5_def [symmetric] ..
  have s2: "selectionOf st2 = selectionOf st1" unfolding st2_def
    by (rule fold_same) (rule selectionOf_addLocalKeyFrameVertex)
  have s3: "selectionOf st3 = selectionOf st2" unfolding st3_def
    by (rule fold_same) (rule selectionOf_addFixedKeyFrameVertex)
  have s4: "selectionOf st4 = selectionOf st3" unfolding st4_def
    by (rule fold_same) (rule selectionOf_addLandmarkVertex)
  have lk: "lLocalKeyFrames st1 = lLocalKeyFrames st"
    by (simp add: st1_def)
  have lf: "lFixedCameras st2 = lFixedCameras st"
    using s2 by (simp add: selectionOf_def st1_def)
  have lp: "lLocalMapPoints st4 = lLocalMapPoints st"
    using s2 s3 s4 by (simp add: selectionOf_def st1_def)
  have u1: "uncommitted s st1"
    using u by (simp add: st1_def)
  have o1: "originsOf A B C st1"
    by (simp add: originsOf_def st1_def emptyOptimizer_def)
  have 2: "uncommitted s st2 \<and> originsOf A B C st2"
    unfolding st2_def
  proof (rule fold_inv)
    show "uncommitted s st1 \<and> originsOf A B C st1"
      using u1 o1 by simp
    show "uncommitted s (addLocalKeyFrameVertex ext x t) \<and> originsOf A B C (addLocalKeyFrameVertex ext x t)"
      if "x \<in> set (lLocalKeyFrames st1)" and "uncommitted s t \<and> originsOf A B C t" for x t
    proof -
      have ut: "uncommitted s t"
        using that(2) by simp
      have "poseVertexId (keyframes t x) \<in> A"
        using that(1) by (auto simp add: uncommitted_ids [OF ut] A_def Wl_def lk)
      then show ?thesis
        using that(2) by (simp add: uncommitted_addLocalKeyFrameVertex originsOf_addLocalKeyFrameVertex)
    qed
  qed
  have h2: "uncommitted s st2 \<and> (\<forall>x \<in> set (lLocalKeyFrames st1). hasVertex st2 (poseVertexId (keyframes s x)))"
    unfolding st2_def
    by (rule fold_all_inv)
       (simp_all add: u1 uncommitted_addLocalKeyFrameVertex hasVertex_addLocalKeyFrameVertex
          uncommitted_ids)
  have 3: "uncommitted s st3 \<and> originsOf A B C st3"
    unfolding st3_def
  proof (rule fold_inv)
    show "uncommitted s st2 \<and> originsOf A B C st2"
      by (rule 2)
    show "uncommitted s (addFixedKeyFrameVertex ext x t) \<and> originsOf A B C (addFixedKeyFrameVertex ext x t)"
      if "x \<in> set (lFixedCameras st2)" and "uncommitted s t \<and> originsOf A B C t" for x t
    proof -
      have ut: "uncommitted s t"
        using that(2) by simp
      have "poseVertexId (keyframes t x) \<in> A"
        using that(1) by (auto simp add: uncommitted_ids [OF ut] A_def Wl_def lf)
      then show ?thesis
        using that(2) by (simp add: uncommitted_addFixedKeyFrameVertex originsOf_addFixedKeyFrameVertex)
    qed
  qed
  have h3k: "\<forall>x \<in> set (lLocalKeyFrames st1). hasVertex st3 (poseVertexId (keyframes s x))"
    unfolding st3_def
    by (rule fold_inv) (use h2 in \<open>simp_all add: hasVertex_addFixedKeyFrameVertex\<close>)
  have h3f: "uncommitted s st3 \<and> (\<forall>x \<in> set (lFixedCameras st2). hasVertex st3 (poseVertexId (keyframes s x)))"
    unfolding st3_def
    by (rule fold_all_inv)
       (simp_all add: h2 uncommitted_addFixedKeyFrameVertex hasVertex_addFixedKeyFrameVertex
          uncommitted_ids)
  from h3k h3f have h3: "\<forall>p \<in> set Wl. hasVertex st3 (poseVertexId (keyframes s p))"
    by (auto simp add: Wl_def lk lf)
  have 4: "uncommitted s st4 \<and> maxKFId st4 = K \<and> lLocalLandmarks st4 = LL \<and> originsOf A B C st4
           \<and> (\<forall>p \<in> set Wl. hasVertex st4 (poseVertexId (keyframes s p)))"
    unfolding st4_def
  proof (rule fold_inv)
    show "uncommitted s st3 \<and> maxKFId st3 = K \<and> lLocalLandmarks st3 = LL \<and> originsOf A B C st3
           \<and> (\<forall>p \<in> set Wl. hasVertex st3 (poseVertexId (keyframes s p)))"
      using 3 h3 by (simp add: K_def LL_def)
    show "uncommitted s (addLandmarkVertex x t) \<and> maxKFId (addLandmarkVertex x t) = K
          \<and> lLocalLandmarks (addLandmarkVertex x t) = LL \<and> originsOf A B C (addLandmarkVertex x t)
          \<and> (\<forall>p \<in> set Wl. hasVertex (addLandmarkVertex x t) (poseVertexId (keyframes s p)))"
      if "x \<in> set (lLocalLandmarks st3)"
        and "uncommitted s t \<and> maxKFId t = K \<and> lLocalLandmarks t = LL \<and> originsOf A B C t
           \<and> (\<forall>p \<in> set Wl. hasVertex t (poseVertexId (keyframes s p)))" for x t
    proof -
      have ut: "uncommitted s t" and kt: "maxKFId t = K"
        using that(2) by simp_all
      have "cuboidVertexId (maxKFId t) (landmarks t x) \<in> B"
        using that(1) by (auto simp add: kt uncommitted_ids [OF ut] B_def LL_def)
      then show ?thesis
        using that(2)
        by (simp add: uncommitted_addLandmarkVertex maxima_addLandmarkVertex(1,2)
            originsOf_addLandmarkVertex hasVertex_addLandmarkVertex)
    qed
  qed
  have lm3: "landmarks st3 = landmarks s"
    using 3 by (simp add: uncommitted_def)
  have h4: "(landmarks st4 = landmarks s \<and> maxKFId st4 = K)
            \<and> (\<forall>l \<in> set (lLocalLandmarks st3). hasVertex st4 (cuboidVertexId K (landmarks s l)))"
    unfolding st4_def
    by (rule fold_all_inv)
       (simp_all add: lm3 K_def maxima_addLandmarkVertex(1,3) hasVertex_addLandmarkVertex)
  have c4: "buildCtx s K N Wl LL st4"
    using 4 h4 by (simp add: buildCtx_def N_def LL_def)
  have r2: "reprojOf st2 = reprojOf st1" unfolding st2_def
    by (rule fold_same) (rule reprojOf_addLocalKeyFrameVertex)
  have r3: "reprojOf st3 = reprojOf st2" unfolding st3_def
    by (rule fold_same) (rule reprojOf_addFixedKeyFrameVertex)
  have r4: "reprojOf st4 = reprojOf st3" unfolding st4_def
    by (rule fold_same) (rule reprojOf_addLandmarkVertex)
  have q2: "edgesCuboid (optimizer st2) = edgesCuboid (optimizer st1)" unfolding st2_def
    by (rule fold_same) (rule edges_addLocalKeyFrameVertex)
  have q3: "edgesCuboid (optimizer st3) = edgesCuboid (optimizer st2)" unfolding st3_def
    by (rule fold_same) (rule edges_addFixedKeyFrameVertex)
  have q4: "edgesCuboid (optimizer st4) = edgesCuboid (optimizer st3)" unfolding st4_def
    by (rule fold_same) (rule edges_addLandmarkVertex)
  have e4: "edgeEnds s K N Wl LL (optimizer st4)"
    using r2 r3 r4 q2 q3 q4 by (simp add: edgeEnds_def reprojOf_def st1_def emptyOptimizer_def)
  have 5: "buildCtx s K N Wl LL st5 \<and> edgeEnds s K N Wl LL (optimizer st5) \<and> originsOf A B C st5"
    unfolding st5_def
  proof (rule fold_inv)
    show "buildCtx s K N Wl LL st4 \<and> edgeEnds s K N Wl LL (optimizer st4) \<and> originsOf A B C st4"
      using c4 e4 4 by simp
    show "buildCtx s K N Wl LL (addMapPointVertex ext x t)
          \<and> edgeEnds s K N Wl LL (optimizer (addMapPointVertex ext x t))
          \<and> originsOf A B C (addMapPointVertex ext x t)"
      if "x \<in> set (lLocalMapPoints st4)"
        and "buildCtx s K N Wl LL t \<and> edgeEnds s K N Wl LL (optimizer t) \<and> originsOf A B C t" for x t
    proof -
      have ut: "uncommitted s t" and kt: "maxKFId t = K" and nt: "maxLandmarkId t = N"
        using that(2) by (simp_all add: buildCtx_def)
      have "pointVertexId (maxKFId t) (maxLandmarkId t) (mappoints t x) \<in> C"
        using that(1) by (auto simp add: kt nt uncommitted_ids [OF ut] C_def lp)
      then show ?thesis
        using that(2) by (simp add: ends_addMapPointVertex originsOf_addMapPointVertex)
    qed
  qed
  have k5: "maxKFId st5 = K" and n5: "maxLandmarkId st5 = N"
    using 5 by (simp_all add: buildCtx_def)
  have "maximaOf st5 = maximaOf st4" unfolding st5_def
    by (rule fold_same) (rule maximaOf_addMapPointVertex)
  then have l5: "lLocalLandmarks st5 = LL"
    using 4 by (simp add: maximaOf_def)
  have p5: "hasVertex st5 (pointVertexId K N (mappoints s m))"
    if ok: "fault st5 = None" and m: "m \<in> set (lLocalMapPoints st)" for m
    unfolding st5_def
  proof (rule fold_reach [where x = m and ok = "\<lambda>t. fault t = None"
        and I = "\<lambda>t. buildCtx s K N Wl LL t \<and> edgeEnds s K N Wl LL (optimizer t)"])
    show "m \<in> set (lLocalMapPoints st4)"
      using m by (simp add: lp)
    show "fault (fold (addMapPointVertex ext) (lLocalMapPoints st4) st4) = None"
      using ok by (simp add: st5_def)
    show "buildCtx s K N Wl LL st4 \<and> edgeEnds s K N Wl LL (optimizer st4)"
      using c4 e4 by simp
    show "buildCtx s K N Wl LL (addMapPointVertex ext y t)
          \<and> edgeEnds s K N Wl LL (optimizer (addMapPointVertex ext y t))"
      if "buildCtx s K N Wl LL t \<and> edgeEnds s K N Wl LL (optimizer t)" for y t
      using that by (simp add: ends_addMapPointVertex)
    show "fault t = None" if "fault (addMapPointVertex ext y t) = None" for y t
      using that by (rule fault_addMapPointVertex)
    show "hasVertex (addMapPointVertex ext m t) (pointVertexId K N (mappoints s m))"
      if "buildCtx s K N Wl LL t \<and> edgeEnds s K N Wl LL (optimizer t)"
        and "fault (addMapPointVertex ext m t) = None" for t
    proof -
      have ut: "uncommitted s t" and kt: "maxKFId t = K" and nt: "maxLandmarkId t = N"
        using that(1) by (simp_all add: buildCtx_def)
      show ?thesis
        using hasVertex_addMapPointVertex(2) [OF that(2)]
        by (simp add: kt nt uncommitted_ids [OF ut])
    qed
    show "hasVertex (addMapPointVertex ext y t) (pointVertexId K N (mappoints s m))"
      if "hasVertex t (pointVertexId K N (mappoints s m))" for y t
      using that by (rule hasVertex_addMapPointVertex(1))
  qed
  show "originsOf ((\<lambda>x. poseVertexId (keyframes s x)) ` set Wl)
           ((\<lambda>l. cuboidVertexId (maxKFId R) (landmarks s l)) ` set (lLocalLandmarks R))
           ((\<lambda>m. pointVertexId (maxKFId R) (maxLandmarkId R) (mappoints s m)) ` set (lLocalMapPoints st))
           R"
    using 5 by (simp add: run k5 n5 l5 A_def B_def C_def)
  show "buildCtx s (maxKFId R) (maxLandmarkId R) Wl (lLocalLandmarks R) R"
    using 5 by (simp add: run k5 n5 l5)
  show "edgeEnds s (maxKFId R) (maxLandmarkId R) Wl (lLocalLandmarks R) (optimizer R)"
    using 5 by (simp add: run k5 n5 l5)
  show "fault R = None \<longrightarrow>
           (\<forall>m \<in> set (lLocalMapPoints st).
              hasVertex R (pointVertexId (maxKFId R) (maxLandmarkId R) (mappoints s m)))"
    using p5 by (simp add: run k5 n5)
qed


lemma kinds_by_range:
  assumes r: "variablesInRange st" and h: "hasVertex st i"
  shows "i \<le> uint (maxKFId st) \<Longrightarrow> poseAt (optimizer st) i"
    and "uint (maxKFId st) < i \<Longrightarrow> i \<le> uint (maxKFId st) + 1 + uint (maxLandmarkId st)
           \<Longrightarrow> cuboidAt (optimizer st) i"
    and "uint (maxKFId st) + 1 + uint (maxLandmarkId st) < i \<Longrightarrow> pointAt (optimizer st) i"
proof -
  from h obtain v where v: "vertex (optimizer st) i = Some v"
    by (auto simp add: hasVertex_def)
  then have mem: "(i, v) \<in> set (vertices (optimizer st))"
    by (simp add: vertex_def map_of_SomeD)
  have "case snd (i, v) of
          VertexSE3Expmap b q \<Rightarrow> 0 \<le> fst (i, v) \<and> fst (i, v) \<le> uint (maxKFId st)
        | VertexCuboid b c \<Rightarrow>
            uint (maxKFId st) < fst (i, v) \<and> fst (i, v) \<le> uint (maxKFId st) + 1 + uint (maxLandmarkId st)
        | VertexSBAPointXYZ b x \<Rightarrow> uint (maxKFId st) + 1 + uint (maxLandmarkId st) < fst (i, v)"
    using r mem unfolding variablesInRange_def by (rule bspec)
  then have k: "case v of
          VertexSE3Expmap b q \<Rightarrow> 0 \<le> i \<and> i \<le> uint (maxKFId st)
        | VertexCuboid b c \<Rightarrow>
            uint (maxKFId st) < i \<and> i \<le> uint (maxKFId st) + 1 + uint (maxLandmarkId st)
        | VertexSBAPointXYZ b x \<Rightarrow> uint (maxKFId st) + 1 + uint (maxLandmarkId st) < i"
    by (cases v) simp_all
  note n = uint_ge_0 [of "maxLandmarkId st"]
  show "i \<le> uint (maxKFId st) \<Longrightarrow> poseAt (optimizer st) i"
    using k n by (cases v) (simp_all add: poseAt_def v)
  show "uint (maxKFId st) < i \<Longrightarrow> i \<le> uint (maxKFId st) + 1 + uint (maxLandmarkId st)
           \<Longrightarrow> cuboidAt (optimizer st) i"
    using k by (cases v) (simp_all add: cuboidAt_def v)
  show "uint (maxKFId st) + 1 + uint (maxLandmarkId st) < i \<Longrightarrow> pointAt (optimizer st) i"
    using k n by (cases v) (simp_all add: pointAt_def v)
qed

lemma edgeEnds_ids:
  assumes "uncommitted s st"
  shows "edgeEnds (sceneOf st) K N Wl LL g = edgeEnds s K N Wl LL g"
  by (simp add: edgeEnds_def sceneOf_def uncommitted_ids [OF assms])

text \<open>
  C2 (as amended). Provided the id arithmetic of the window does not leave the
  non-negative range of \<^verbatim>\<open>int\<close>, in the graph a run builds every pose vertex id is
  the id of its KeyFrame, every cuboid vertex id is maxKFId + 1 + landmark id, every
  point vertex id is point id + maxKFId + maxLandmarkId + 2, where maxKFId bounds the
  ids of all Local KeyFrames and Fixed Cameras and maxLandmarkId the ids of all Local
  Landmarks; every pose id is below every cuboid id and every cuboid id below every
  point id. The vertices registered in the optimizer keep to these ranges: a pose
  vertex has an id from 0 to maxKFId, a cuboid vertex an id above maxKFId and up to
  maxKFId + 1 + maxLandmarkId, a point vertex an id above that. Every Local KeyFrame
  and Fixed Camera has a pose vertex under its id, every Local Landmark a cuboid
  vertex under its id and, when graph construction ran to its end, every Local
  MapPoint a point vertex under its id. Every reprojection edge refers to the vertex
  of its MapPoint and, when its KeyFrame is in the window, to the vertex of that
  KeyFrame; every camera-object edge of a KeyFrame of the window and of a Local
  Landmark refers to their two vertices.
\<close>

theorem id_ranges_separate:
  assumes "idsFitInt (prepare ext pKF pbStopFlag s)"
  shows "idRangesSeparate (prepare ext pKF pbStopFlag s)
         \<and> variablesInRange (prepare ext pKF pbStopFlag s)
         \<and> variablesRegistered (prepare ext pKF pbStopFlag s)
         \<and> edgeEndsRegistered (prepare ext pKF pbStopFlag s)"
proof -
  let ?P = "prepare ext pKF pbStopFlag s"
  let ?W = "selectWindow pKF (enter s)"
  define K where "K = maxKFId ?P"
  define N where "N = maxLandmarkId ?P"
  define Wl where "Wl = lLocalKeyFrames ?P @ lFixedCameras ?P"
  define LL where "LL = lLocalLandmarks ?P"
  define LM where "LM = lLocalMapPoints ?P"
  have uW: "uncommitted s ?W"
    by (simp add: uncommitted_selectWindow uncommitted_enter)
  have uP: "uncommitted s ?P"
    by (rule uncommitted_prepare)
  note ids = uncommitted_ids [OF uP]
  have r: "idRangesSeparate ?P"
    using assms by (rule idRangesSeparate_prepare)
  have q1: "poseVertexId (keyframes ?P x) = uint (mnId (keyframes ?P x)) \<and> mnId (keyframes ?P x) \<le> K"
    if "x \<in> set Wl" for x
    using r that by (auto simp add: idRangesSeparate_def Let_def K_def Wl_def)
  have q2: "cuboidVertexId K (landmarks ?P l) = uint K + 1 + uint (mnLandmarkId (landmarks ?P l))
            \<and> mnLandmarkId (landmarks ?P l) \<le> N"
    if "l \<in> set LL" for l
    using r that by (auto simp add: idRangesSeparate_def Let_def K_def N_def LL_def)
  have q3: "pointVertexId K N (mappoints ?P m) = uint (mp_mnId (mappoints ?P m)) + uint K + uint N + 2"
    if "m \<in> set LM" for m
    using r that by (auto simp add: idRangesSeparate_def Let_def K_def N_def LM_def)
  note r1 = q1 [unfolded ids]
  note r2 = q2 [unfolded ids]
  note r3 = q3 [unfolded ids]
  note V = variables_buildGraph [OF uW, of ext "pbStopFlag \<noteq> None", folded prepare_def]
  have lists: "Wl = lLocalKeyFrames ?W @ lFixedCameras ?W" "LM = lLocalMapPoints ?W"
    by (simp_all add: Wl_def LM_def lists_prepare)
  have o: "originsOf ((\<lambda>x. poseVertexId (keyframes s x)) ` set Wl)
             ((\<lambda>l. cuboidVertexId K (landmarks s l)) ` set LL)
             ((\<lambda>m. pointVertexId K N (mappoints s m)) ` set LM) ?P"
    unfolding K_def N_def LL_def lists by (rule V(1))
  have c: "buildCtx s K N Wl LL ?P"
    unfolding K_def N_def LL_def lists by (rule V(2))
  have e: "edgeEnds s K N Wl LL (optimizer ?P)"
    unfolding K_def N_def LL_def lists by (rule V(3))
  have pe: "fault ?P = None \<longrightarrow> (\<forall>m \<in> set LM. hasVertex ?P (pointVertexId K N (mappoints s m)))"
    unfolding K_def N_def LL_def lists by (rule V(4))
  have range: "variablesInRange ?P"
    unfolding variablesInRange_def K_def [symmetric] N_def [symmetric]
  proof
    fix iv
    assume mem: "iv \<in> set (vertices (optimizer ?P))"
    obtain i v where iv: "iv = (i, v)"
      by (cases iv)
    have "case snd (i, v) of
               VertexSE3Expmap b q \<Rightarrow> fst (i, v) \<in> (\<lambda>x. poseVertexId (keyframes s x)) ` set Wl
             | VertexCuboid b c \<Rightarrow> fst (i, v) \<in> (\<lambda>l. cuboidVertexId K (landmarks s l)) ` set LL
             | VertexSBAPointXYZ b x \<Rightarrow> fst (i, v) \<in> (\<lambda>m. pointVertexId K N (mappoints s m)) ` set LM"
      using o mem unfolding originsOf_def iv by (rule bspec)
    then have k: "case v of VertexSE3Expmap b q \<Rightarrow> i \<in> (\<lambda>x. poseVertexId (keyframes s x)) ` set Wl
             | VertexCuboid b c \<Rightarrow> i \<in> (\<lambda>l. cuboidVertexId K (landmarks s l)) ` set LL
             | VertexSBAPointXYZ b x \<Rightarrow> i \<in> (\<lambda>m. pointVertexId K N (mappoints s m)) ` set LM"
      by (cases v) simp_all
    have "case v of
            VertexSE3Expmap b q \<Rightarrow> 0 \<le> i \<and> i \<le> uint K
          | VertexCuboid b c \<Rightarrow> uint K < i \<and> i \<le> uint K + 1 + uint N
          | VertexSBAPointXYZ b x \<Rightarrow> uint K + 1 + uint N < i"
    proof (cases v)
      case (VertexSE3Expmap b q)
      with k obtain x where x: "x \<in> set Wl" "i = poseVertexId (keyframes s x)"
        by auto
      from r1 [OF x(1)] have "i = uint (mnId (keyframes ?P x))" "uint (mnId (keyframes ?P x)) \<le> uint K"
        by (simp_all add: x(2) word_le_def)
      then show ?thesis
        by (simp add: VertexSE3Expmap)
    next
      case (VertexCuboid b c)
      with k obtain l where l: "l \<in> set LL" "i = cuboidVertexId K (landmarks s l)"
        by auto
      from r2 [OF l(1)] have a: "i = uint K + 1 + uint (mnLandmarkId (landmarks ?P l))"
        and b: "uint (mnLandmarkId (landmarks ?P l)) \<le> uint N"
        by (simp_all add: l(2) word_le_def)
      have "uint K < i"
        using a uint_ge_0 [of "mnLandmarkId (landmarks ?P l)"] by linarith
      moreover have "i \<le> uint K + 1 + uint N"
        using a b by linarith
      ultimately show ?thesis
        by (simp add: VertexCuboid)
    next
      case (VertexSBAPointXYZ b y)
      with k obtain m where m: "m \<in> set LM" "i = pointVertexId K N (mappoints s m)"
        by auto
      from r3 [OF m(1)] have a: "i = uint (mp_mnId (mappoints ?P m)) + uint K + uint N + 2"
        by (simp add: m(2))
      have "uint K + 1 + uint N < i"
        using a uint_ge_0 [of "mp_mnId (mappoints ?P m)"] by linarith
      then show ?thesis
        by (simp add: VertexSBAPointXYZ)
    qed
    then show "case snd iv of
            VertexSE3Expmap b q \<Rightarrow> 0 \<le> fst iv \<and> fst iv \<le> uint K
          | VertexCuboid b c \<Rightarrow> uint K < fst iv \<and> fst iv \<le> uint K + 1 + uint N
          | VertexSBAPointXYZ b x \<Rightarrow> uint K + 1 + uint N < fst iv"
      unfolding iv fst_conv snd_conv .
  qed
  note kinds = kinds_by_range [OF range, unfolded K_def [symmetric] N_def [symmetric]]
  have poses: "poseAt (optimizer ?P) (poseVertexId (keyframes ?P p))" if "p \<in> set Wl" for p
  proof -
    have h: "hasVertex ?P (poseVertexId (keyframes s p))"
      using c that by (simp add: buildCtx_def)
    from r1 [OF that] have "poseVertexId (keyframes s p) \<le> uint K"
      by (simp add: word_le_def)
    with h show ?thesis
      unfolding ids by (rule kinds(1))
  qed
  have cuboids: "cuboidAt (optimizer ?P) (cuboidVertexId K (landmarks ?P l))" if "l \<in> set LL" for l
  proof -
    have h: "hasVertex ?P (cuboidVertexId K (landmarks s l))"
      using c that by (simp add: buildCtx_def)
    from r2 [OF that]
    have a: "cuboidVertexId K (landmarks s l) = uint K + 1 + uint (mnLandmarkId (landmarks ?P l))"
      and b: "uint (mnLandmarkId (landmarks ?P l)) \<le> uint N"
      by (simp_all add: word_le_def)
    have lt: "uint K < cuboidVertexId K (landmarks s l)"
      using a uint_ge_0 [of "mnLandmarkId (landmarks ?P l)"] by linarith
    have le: "cuboidVertexId K (landmarks s l) \<le> uint K + 1 + uint N"
      using a b by linarith
    show ?thesis
      unfolding ids by (rule kinds(2) [OF h lt le])
  qed
  have points: "pointAt (optimizer ?P) (pointVertexId K N (mappoints ?P m))"
    if "fault ?P = None" and "m \<in> set LM" for m
  proof -
    have h: "hasVertex ?P (pointVertexId K N (mappoints s m))"
      using pe that by simp
    from r3 [OF that(2)] have "uint K + 1 + uint N < pointVertexId K N (mappoints s m)"
      using uint_ge_0 [of "mp_mnId (mappoints ?P m)"] by linarith
    with h show ?thesis
      unfolding ids by (rule kinds(3))
  qed
  have registered: "variablesRegistered ?P"
    unfolding variablesRegistered_def K_def [symmetric] N_def [symmetric] Wl_def [symmetric]
      LL_def [symmetric] LM_def [symmetric]
    using poses cuboids points by simp
  have ends: "edgeEndsRegistered ?P"
    unfolding edgeEndsRegistered_def K_def [symmetric] N_def [symmetric] Wl_def [symmetric]
      LL_def [symmetric] edgeEnds_ids [OF uP]
    by (rule e)
  show ?thesis
    using r range registered ends by simp
qed

text \<open>
  In the example run the pose vertices are 5 and 2, the cuboid vertex is 6 and the
  point vertices are 17, 18 and 19.
\<close>

theorem id_ranges_separate_witness:
  "idsFitInt (prepare ext0 0 None sceneK)
   \<and> idRangesSeparate (prepare ext0 0 None sceneK)
   \<and> variablesInRange (prepare ext0 0 None sceneK)
   \<and> variablesRegistered (prepare ext0 0 None sceneK)
   \<and> edgeEndsRegistered (prepare ext0 0 None sceneK)
   \<and> maxKFId (prepare ext0 0 None sceneK) = 5
   \<and> maxLandmarkId (prepare ext0 0 None sceneK) = 0
   \<and> map fst (vertices (optimizer (prepare ext0 0 None sceneK))) = [5, 2, 6, 17, 18, 19]
   \<and> map (poseAt (optimizer (prepare ext0 0 None sceneK))) [5, 2, 6, 17, 18, 19]
        = [True, True, False, False, False, False]
   \<and> map (cuboidAt (optimizer (prepare ext0 0 None sceneK))) [5, 2, 6, 17, 18, 19]
        = [False, False, True, False, False, False]
   \<and> map (pointAt (optimizer (prepare ext0 0 None sceneK))) [5, 2, 6, 17, 18, 19]
        = [False, False, False, True, True, True]"
proof -
  have h: "idsFitInt (prepare ext0 0 None sceneK)"
    by code_simp
  have v: "maxKFId (prepare ext0 0 None sceneK) = 5"
    "maxLandmarkId (prepare ext0 0 None sceneK) = 0"
    "map fst (vertices (optimizer (prepare ext0 0 None sceneK))) = [5, 2, 6, 17, 18, 19]"
    "map (poseAt (optimizer (prepare ext0 0 None sceneK))) [5, 2, 6, 17, 18, 19]
        = [True, True, False, False, False, False]"
    "map (cuboidAt (optimizer (prepare ext0 0 None sceneK))) [5, 2, 6, 17, 18, 19]
        = [False, False, True, False, False, False]"
    "map (pointAt (optimizer (prepare ext0 0 None sceneK))) [5, 2, 6, 17, 18, 19]
        = [False, False, False, True, True, True]"
    by code_simp+
  show ?thesis
    using h id_ranges_separate [OF h] v by simp
qed

text \<open>
  The claim as stated, for every window, fails where the arithmetic wraps: with
  KeyFrame id 1 and MapPoint id 4294967293 the point vertex id is
  \<open>(int) (4294967293 + 1 + 0 + 2) = 0\<close>, below the pose vertex id 1; the optimizer
  holds the pose vertex 1 and the point vertex 0.
\<close>

theorem id_ranges_counterexample:
  "lLocalKeyFrames (prepare ext0 0 None sceneWrap) = [0]
   \<and> lLocalMapPoints (prepare ext0 0 None sceneWrap) = [0]
   \<and> maxKFId (prepare ext0 0 None sceneWrap) = 1
   \<and> maxLandmarkId (prepare ext0 0 None sceneWrap) = 0
   \<and> mp_mnId (mappoints (prepare ext0 0 None sceneWrap) 0) = 4294967293
   \<and> pointVertexId 1 0 (mappoints (prepare ext0 0 None sceneWrap) 0) = 0
   \<and> poseVertexId (keyframes (prepare ext0 0 None sceneWrap) 0) = 1
   \<and> map fst (vertices (optimizer (prepare ext0 0 None sceneWrap))) = [1, 0]
   \<and> poseAt (optimizer (prepare ext0 0 None sceneWrap)) 1
   \<and> pointAt (optimizer (prepare ext0 0 None sceneWrap)) 0
   \<and> \<not> idRangesSeparate (prepare ext0 0 None sceneWrap)
   \<and> \<not> variablesInRange (prepare ext0 0 None sceneWrap)"
  by code_simp

text \<open>
  The theorem says nothing of a camera-object edge whose Landmark is not a Local
  Landmark. Lines 102-108 and 129-138 give a variable to the Landmarks of the Local
  KeyFrames only, while lines 209-221 create an edge for every Landmark of every
  observing KeyFrame. In \<open>sceneFar\<close>, within the range of \<^verbatim>\<open>int\<close>, the Landmark of id 11
  belongs to the Fixed Camera only: it has no vertex, maxLandmarkId is 0, and the id
  \<open>5 + 1 + 11 = 17\<close> that line 213 looks up is the id of the vertex of MapPoint 10.
\<close>

lemma landmark_of_fixed_camera_only:
  "idsFitInt (prepare ext0 0 None sceneFar)
   \<and> lFixedCameras (prepare ext0 0 None sceneFar) = [1]
   \<and> lLocalLandmarks (prepare ext0 0 None sceneFar) = [0]
   \<and> maxKFId (prepare ext0 0 None sceneFar) = 5
   \<and> maxLandmarkId (prepare ext0 0 None sceneFar) = 0
   \<and> map fst (vertices (optimizer (prepare ext0 0 None sceneFar))) = [5, 2, 6, 17, 18, 19]
   \<and> map (\<lambda>c. (c_kf c, c_lm c, c_vertex0 c, c_vertex1 c))
          (edgesCuboid (optimizer (prepare ext0 0 None sceneFar)))
        = [(0, 0, Some 5, Some 6), (1, 1, Some 2, Some 17), (0, 0, Some 5, Some 6)]
   \<and> pointAt (optimizer (prepare ext0 0 None sceneFar)) 17
   \<and> pointVertexId 5 0 (mappoints sceneFar 0) = 17"
  by code_simp
end
